theory Spec2Isabelle
  imports Main "HOL-Library.Word"
begin

unbundle bit_operations_syntax

section \<open>The image file and its byte-level access\<close>

text \<open>
  The program of \<^verbatim>\<open>journal.c\<close> works on one image file through \<^verbatim>\<open>pread\<close> and
  \<^verbatim>\<open>pwrite\<close>. The file is a list of bytes. Next to it the state keeps the sequence of
  writes issued so far (file offset and bytes written, oldest first), so that the order
  and the place of every write can be stated. Integers of the source keep their width;
  file offsets are \<^verbatim>\<open>off_t\<close> (64 bit) and never wrap for 32-bit operands, so they are
  natural numbers. Multi-byte fields are stored little-endian. The image file exists
  and can be opened. A read is short, and the process dies, exactly when its range
  passes the end of the file.

  A write is short, and the process dies, when it would end behind the largest size the
  environment allows for a file (\<^verbatim>\<open>EFBIG\<close>). That size is a parameter; it is taken to be at
  least \<open>2 ^ 33\<close> bytes. Every journal write ends below \<open>2 ^ 32 + 2 ^ 17\<close>, so journal
  writes transfer all their bytes, and only \<^verbatim>\<open>write_block\<close>, whose offset
  \<^verbatim>\<open>block_no * BLOCK_SIZE\<close> goes up to \<open>2 ^ 44\<close>, can fail. Other failures of the device are
  outside the model.
\<close>

type_synonym u8 = "8 word"
type_synonym u16 = "16 word"
type_synonym u32 = "32 word"

record fs =
  image :: "u8 list"
  trace :: "(nat \<times> u8 list) list"

text \<open>What the program does not control: the largest file size, and the bytes that a
  local buffer holds before anything is stored into it (\<open>stale env k i\<close> is byte \<open>i\<close> of the
  buffer at its use number \<open>k\<close>).\<close>

record env =
  max_file :: nat
  stale :: "nat \<Rightarrow> nat \<Rightarrow> u8"

definition file_limit :: "env \<Rightarrow> nat" where
  "file_limit env = max (2 ^ 33) (max_file env)"

datatype error =
    IOFail     \<comment> \<open>a short read or write: \<^verbatim>\<open>die\<close> ends the process\<close>
  | Undefined  \<comment> \<open>a read of more bytes than the buffer \<^verbatim>\<open>struct data_record\<close> holds\<close>

definition JOURNAL_MAGIC :: u32 where "JOURNAL_MAGIC = 0x4A524E4C"
definition BLOCK_SIZE :: nat where "BLOCK_SIZE = 4096"
definition INODE_SIZE :: nat where "INODE_SIZE = 128"
definition JOURNAL_BLOCK_IDX :: nat where "JOURNAL_BLOCK_IDX = 1"
definition JOURNAL_BLOCKS :: nat where "JOURNAL_BLOCKS = 16"
definition INODE_BLOCKS :: nat where "INODE_BLOCKS = 2"
definition DATA_BLOCKS :: nat where "DATA_BLOCKS = 64"
definition INODE_BMAP_IDX :: nat where "INODE_BMAP_IDX = JOURNAL_BLOCK_IDX + JOURNAL_BLOCKS"
definition DATA_BMAP_IDX :: nat where "DATA_BMAP_IDX = INODE_BMAP_IDX + 1"
definition INODE_START_IDX :: nat where "INODE_START_IDX = DATA_BMAP_IDX + 1"
definition DATA_START_IDX :: nat where "DATA_START_IDX = INODE_START_IDX + INODE_BLOCKS"
definition TOTAL_BLOCKS :: nat where "TOTAL_BLOCKS = DATA_START_IDX + DATA_BLOCKS"
definition REC_DATA :: u16 where "REC_DATA = 1"
definition REC_COMMIT :: u16 where "REC_COMMIT = 2"

text \<open>The sizes of the structs: \<^verbatim>\<open>dirent\<close> 32, \<^verbatim>\<open>journal_header\<close> 8, \<^verbatim>\<open>rec_header\<close> 4,
  \<^verbatim>\<open>data_record\<close> 4104, \<^verbatim>\<open>commit_record\<close> 4.\<close>

definition DIRENT_SIZE :: nat where "DIRENT_SIZE = 4 + 28"
definition JH_SIZE :: nat where "JH_SIZE = 8"
definition RH_SIZE :: nat where "RH_SIZE = 4"
definition DR_SIZE :: nat where "DR_SIZE = RH_SIZE + 4 + BLOCK_SIZE"
definition CR_SIZE :: nat where "CR_SIZE = RH_SIZE"

definition le16 :: "u16 \<Rightarrow> u8 list" where
  "le16 w = [ucast w, ucast (drop_bit 8 w)]"

definition le32 :: "u32 \<Rightarrow> u8 list" where
  "le32 w = [ucast w, ucast (drop_bit 8 w), ucast (drop_bit 16 w), ucast (drop_bit 24 w)]"

definition rd16 :: "u8 list \<Rightarrow> u16" where
  "rd16 bs = ucast (bs ! 0) OR push_bit 8 (ucast (bs ! 1))"

definition rd32 :: "u8 list \<Rightarrow> u32" where
  "rd32 bs = ucast (bs ! 0) OR push_bit 8 (ucast (bs ! 1))
             OR push_bit 16 (ucast (bs ! 2)) OR push_bit 24 (ucast (bs ! 3))"

text \<open>\<^verbatim>\<open>pread\<close> returns fewer bytes than asked when the range passes the end of the
  file; every caller then dies, so a short read is \<open>None\<close>. A read of no bytes is never
  short.\<close>

definition pread :: "fs \<Rightarrow> nat \<Rightarrow> nat \<Rightarrow> u8 list option" where
  "pread st off n =
     (if n = 0 \<or> off + n \<le> length (image st) then Some (take n (drop off (image st)))
      else None)"

text \<open>\<^verbatim>\<open>pwrite\<close> past the end of the file extends it, the gap reading as zero bytes; a
  write of no bytes changes nothing.\<close>

definition pwrite :: "fs \<Rightarrow> nat \<Rightarrow> u8 list \<Rightarrow> fs" where
  "pwrite st off buf =
     (if buf = [] then st
      else let padded = image st @ replicate (off + length buf - length (image st)) 0
           in st\<lparr>image := take off padded @ buf @ drop (off + length buf) padded,
                 trace := trace st @ [(off, buf)]\<rparr>)"

text \<open>\<^verbatim>\<open>write_block\<close>: the write of one block, \<open>put_block\<close>, when it fits below the file
  size limit; the process dies otherwise.\<close>

definition put_block :: "fs \<Rightarrow> nat \<Rightarrow> u8 list \<Rightarrow> fs" where
  "put_block st block_no buf = pwrite st (block_no * BLOCK_SIZE) (take BLOCK_SIZE buf)"

definition write_block :: "env \<Rightarrow> fs \<Rightarrow> nat \<Rightarrow> u8 list \<Rightarrow> error + fs" where
  "write_block env st block_no buf =
     (if block_no * BLOCK_SIZE + BLOCK_SIZE \<le> file_limit env
      then Inr (put_block st block_no buf)
      else Inl IOFail)"

definition read_block :: "fs \<Rightarrow> nat \<Rightarrow> u8 list option" where
  "read_block st block_no = pread st (block_no * BLOCK_SIZE) BLOCK_SIZE"

definition journal_write :: "fs \<Rightarrow> u32 \<Rightarrow> u8 list \<Rightarrow> fs" where
  "journal_write st offset buf = pwrite st (JOURNAL_BLOCK_IDX * BLOCK_SIZE + unat offset) buf"

definition journal_read :: "fs \<Rightarrow> u32 \<Rightarrow> nat \<Rightarrow> u8 list option" where
  "journal_read st offset n = pread st (JOURNAL_BLOCK_IDX * BLOCK_SIZE + unat offset) n"

section \<open>Allocators and in-memory block updates\<close>

text \<open>A store of bytes into a buffer at an offset (a field assignment, \<^verbatim>\<open>memset\<close>,
  \<^verbatim>\<open>memcpy\<close>); the buffers are whole blocks and every store lies inside them.\<close>

definition store :: "u8 list \<Rightarrow> nat \<Rightarrow> u8 list \<Rightarrow> u8 list" where
  "store buf off bs = take off buf @ bs @ drop (off + length bs) buf"

definition set_bitmap :: "u8 list \<Rightarrow> nat \<Rightarrow> u8 list" where
  "set_bitmap bitmap index =
     bitmap[index div 8 := (bitmap ! (index div 8)) OR push_bit (index mod 8) 1]"

text \<open>The two first-fit scans; the result \<^verbatim>\<open>-1\<close> of the source is \<open>None\<close>.\<close>

definition max_inodes :: nat where
  "max_inodes = INODE_BLOCKS * (BLOCK_SIZE div INODE_SIZE)"

definition free_inode :: "u8 list \<Rightarrow> nat option" where
  "free_inode bmap =
     find (\<lambda>i. (bmap ! (i div 8)) AND push_bit (i mod 8) 1 = 0) [0..<max_inodes]"

definition slots :: nat where
  "slots = BLOCK_SIZE div DIRENT_SIZE"

definition dirent_name0 :: "u8 list \<Rightarrow> nat \<Rightarrow> u8" where
  "dirent_name0 d i = d ! (i * DIRENT_SIZE + 4)"

definition free_dirent :: "u8 list \<Rightarrow> nat option" where
  "free_dirent d = find (\<lambda>i. dirent_name0 d i = 0) [0..<slots]"

text \<open>\<^verbatim>\<open>strncpy(dst, src, n)\<close> of the C library: it copies the bytes of the string
  \<open>src\<close> up to its terminating NUL, writes exactly \<open>n\<close> bytes, and fills with NUL once the
  string has ended. The string is the list up to its first zero byte.\<close>

fun strncpy :: "u8 list \<Rightarrow> u8 list \<Rightarrow> nat \<Rightarrow> u8 list" where
  "strncpy dst src 0 = dst"
| "strncpy [] src (Suc n) = []"
| "strncpy (d # dst) [] (Suc n) = 0 # strncpy dst [] n"
| "strncpy (d # dst) (c # src) (Suc n) =
     (if c = 0 then 0 # strncpy dst [] n else c # strncpy dst src n)"

text \<open>\<^verbatim>\<open>d[slot].inode = inode_idx; strncpy(d[slot].name, file_name, 27);\<close>\<close>

definition put_dirent :: "u8 list \<Rightarrow> nat \<Rightarrow> nat \<Rightarrow> u8 list \<Rightarrow> u8 list" where
  "put_dirent d slot inode_idx file_name =
     (let d1 = store d (slot * DIRENT_SIZE) (le32 (of_nat inode_idx));
          name = take 28 (drop (slot * DIRENT_SIZE + 4) d1)
      in store d1 (slot * DIRENT_SIZE + 4) (strncpy name file_name 27))"

text \<open>The new inode: \<^verbatim>\<open>memset\<close> to zero, then \<^verbatim>\<open>type = 1\<close>, \<^verbatim>\<open>links = 1\<close> and both
  times. The fields of \<^verbatim>\<open>struct inode\<close> lie at offsets 0 (type), 2 (links), 4 (size),
  8 (direct), 40 (ctime) and 44 (mtime).\<close>

definition init_inode :: "u8 list \<Rightarrow> nat \<Rightarrow> u32 \<Rightarrow> u8 list" where
  "init_inode ino_blk k now =
     (let base = k * INODE_SIZE;
          b0 = store ino_blk base (replicate INODE_SIZE 0);
          b1 = store b0 base (le16 1);
          b2 = store b1 (base + 2) (le16 1);
          b3 = store b2 (base + 44) (le32 now)
      in store b3 (base + 40) (le32 now))"

text \<open>\<^verbatim>\<open>root_ino = &((struct inode *)ino_blk)[0]\<close>: the first inode of the block that
  was loaded for the new inode; its size grows to \<^verbatim>\<open>(slot + 1) * sizeof(struct dirent)\<close>.\<close>

definition grow_root :: "u8 list \<Rightarrow> nat \<Rightarrow> u8 list" where
  "grow_root ino_blk slot =
     (let needed = (of_nat ((slot + 1) * DIRENT_SIZE) :: u32)
      in if rd32 (take 4 (drop 4 ino_blk)) < needed then store ino_blk 4 (le32 needed)
         else ino_blk)"

section \<open>The file-creation transaction\<close>

definition data_record :: "nat \<Rightarrow> u8 list \<Rightarrow> u8 list" where
  "data_record block_no buf =
     le16 REC_DATA @ le16 (of_nat DR_SIZE) @ le32 (of_nat block_no) @ take BLOCK_SIZE buf"

definition commit_record :: "u8 list" where
  "commit_record = le16 REC_COMMIT @ le16 (of_nat CR_SIZE)"

definition journal_header :: "u32 \<Rightarrow> u32 \<Rightarrow> u8 list" where
  "journal_header magic nbytes_used = le32 magic @ le32 nbytes_used"

definition jh_magic :: "u8 list \<Rightarrow> u32" where
  "jh_magic jh = rd32 (take 4 jh)"

definition jh_nbytes_used :: "u8 list \<Rightarrow> u32" where
  "jh_nbytes_used jh = rd32 (take 4 (drop 4 jh))"

text \<open>The loop \<^verbatim>\<open>for (i = 0; i < 4; i++)\<close> over \<^verbatim>\<open>targets\<close> and \<^verbatim>\<open>bufs\<close>: one Data record
  each, written at \<open>off\<close>, which then advances by the record's size (in 32 bits).\<close>

fun log_blocks :: "fs \<Rightarrow> u32 \<Rightarrow> (nat \<times> u8 list) list \<Rightarrow> fs \<times> u32" where
  "log_blocks st off [] = (st, off)"
| "log_blocks st off ((target, buf) # rest) =
     log_blocks (journal_write st off (data_record target buf)) (off + of_nat DR_SIZE) rest"

text \<open>\<^verbatim>\<open>create_journal(file_name)\<close>; \<open>now\<close> is the value of \<^verbatim>\<open>(uint32_t)time(NULL)\<close>.\<close>

definition create_journal :: "fs \<Rightarrow> u8 list \<Rightarrow> u32 \<Rightarrow> error + fs" where
  "create_journal st file_name now =
    (case read_block st INODE_BMAP_IDX of None \<Rightarrow> Inl IOFail | Some ibmap \<Rightarrow>
    (case read_block st DATA_BMAP_IDX of None \<Rightarrow> Inl IOFail | Some dbmap \<Rightarrow>
    (case read_block st DATA_START_IDX of None \<Rightarrow> Inl IOFail | Some root_data \<Rightarrow>
    (case free_inode ibmap of None \<Rightarrow> Inr st | Some inode_idx \<Rightarrow>
    (case free_dirent root_data of None \<Rightarrow> Inr st | Some slot \<Rightarrow>
       (let ibmap' = set_bitmap ibmap inode_idx;
            root_data' = put_dirent root_data slot inode_idx file_name;
            iblk_no = INODE_START_IDX + inode_idx div (BLOCK_SIZE div INODE_SIZE)
        in (case read_block st iblk_no of None \<Rightarrow> Inl IOFail | Some ino_blk \<Rightarrow>
           (let ino_blk' = grow_root
                  (init_inode ino_blk (inode_idx mod (BLOCK_SIZE div INODE_SIZE)) now) slot
            in (case journal_read st 0 JH_SIZE of None \<Rightarrow> Inl IOFail | Some jh \<Rightarrow>
               (let off = (if jh_magic jh \<noteq> JOURNAL_MAGIC then of_nat JH_SIZE
                           else jh_nbytes_used jh);
                    (st1, off1) = log_blocks st off
                      [(INODE_BMAP_IDX, ibmap'), (DATA_BMAP_IDX, dbmap),
                       (DATA_START_IDX, root_data'), (iblk_no, ino_blk')];
                    st2 = journal_write st1 off1 commit_record;
                    off2 = off1 + of_nat CR_SIZE
                in Inr (journal_write st2 0 (journal_header JOURNAL_MAGIC off2))))))))))))"

section \<open>Replay of the journal\<close>

definition rh_type :: "u8 list \<Rightarrow> u16" where
  "rh_type rh = rd16 (take 2 rh)"

definition rh_size :: "u8 list \<Rightarrow> u16" where
  "rh_size rh = rd16 (take 2 (drop 2 rh))"

definition dr_block_no :: "u8 list \<Rightarrow> u32" where
  "dr_block_no dr = rd32 (take 4 (drop 4 dr))"

definition dr_data :: "u8 list \<Rightarrow> u8 list" where
  "dr_data dr = drop 8 dr"

text \<open>The inner scan \<^verbatim>\<open>while (tx_off < jh.nbytes_used)\<close>: it returns the offset reached
  and \<^verbatim>\<open>has_commit\<close>. A run that never leaves the loop is \<open>None\<close>.\<close>

partial_function (option) scan_tx :: "fs \<Rightarrow> u32 \<Rightarrow> u32 \<Rightarrow> (error + u32 \<times> bool) option" where
  "scan_tx st used tx_off =
     (if tx_off < used then
        (case journal_read st tx_off RH_SIZE of
           None \<Rightarrow> Some (Inl IOFail)
         | Some rh \<Rightarrow>
             if rh_type rh = REC_COMMIT then Some (Inr (tx_off + ucast (rh_size rh), True))
             else scan_tx st used (tx_off + ucast (rh_size rh)))
      else Some (Inr (tx_off, False)))"

text \<open>The buffer \<^verbatim>\<open>struct data_record dr\<close> of the apply loop has no initialiser. The read
  of a Data record stores \<^verbatim>\<open>rh.size\<close> bytes at its start; the bytes behind them are what
  the buffer held before. Every use of the buffer is followed by a write, so the number
  of writes issued so far numbers the uses.\<close>

definition fill_record :: "env \<Rightarrow> fs \<Rightarrow> u8 list \<Rightarrow> u8 list" where
  "fill_record env st bytes =
     bytes @ map (stale env (length (trace st))) [length bytes..<DR_SIZE]"

text \<open>The apply loop \<^verbatim>\<open>while (apply_off < tx_off)\<close>. There is no check of \<^verbatim>\<open>rh.size\<close>: a
  Data record shorter than the struct is applied with the stale bytes of the buffer as
  the rest of its block number and data. A size larger than the struct makes the read
  overrun the buffer, which is undefined behaviour in C.\<close>

partial_function (option) apply_tx ::
  "env \<Rightarrow> fs \<Rightarrow> u32 \<Rightarrow> u32 \<Rightarrow> (error + fs) option" where
  "apply_tx env st apply_off tx_off =
     (if apply_off < tx_off then
        (case journal_read st apply_off RH_SIZE of
           None \<Rightarrow> Some (Inl IOFail)
         | Some rh \<Rightarrow>
             if rh_type rh = REC_DATA then
               (if DR_SIZE < unat (rh_size rh) then Some (Inl Undefined)
                else case journal_read st apply_off (unat (rh_size rh)) of
                       None \<Rightarrow> Some (Inl IOFail)
                     | Some bytes \<Rightarrow>
                         (case write_block env st
                                 (unat (dr_block_no (fill_record env st bytes)))
                                 (dr_data (fill_record env st bytes)) of
                            Inl e \<Rightarrow> Some (Inl e)
                          | Inr st' \<Rightarrow>
                              apply_tx env st' (apply_off + ucast (rh_size rh)) tx_off))
             else apply_tx env st (apply_off + ucast (rh_size rh)) tx_off)
      else Some (Inr st))"

text \<open>The outer loop over transactions; \<open>max_commits\<close> is the \<^verbatim>\<open>int\<close> argument and
  \<open>committed\<close> the 32-bit counter, read as \<^verbatim>\<open>int\<close> in the comparison.\<close>

partial_function (option) install_loop ::
  "env \<Rightarrow> fs \<Rightarrow> u32 \<Rightarrow> int \<Rightarrow> u32 \<Rightarrow> u32 \<Rightarrow> (error + fs \<times> u32) option" where
  "install_loop env st used max_commits off committed =
     (if off < used \<and> (max_commits < 0 \<or> sint committed < max_commits) then
        (case scan_tx st used off of
           None \<Rightarrow> None
         | Some (Inl e) \<Rightarrow> Some (Inl e)
         | Some (Inr (tx_off, has_commit)) \<Rightarrow>
             if \<not> has_commit then Some (Inr (st, committed))
             else (case apply_tx env st off tx_off of
                     None \<Rightarrow> None
                   | Some (Inl e) \<Rightarrow> Some (Inl e)
                   | Some (Inr st') \<Rightarrow>
                       install_loop env st' used max_commits tx_off (committed + 1)))
      else Some (Inr (st, committed)))"

text \<open>\<^verbatim>\<open>install_journal(max_commits)\<close>: the result is the final state and the number of
  transactions applied.\<close>

definition install_journal :: "env \<Rightarrow> fs \<Rightarrow> int \<Rightarrow> (error + fs \<times> u32) option" where
  "install_journal env st max_commits =
     (case journal_read st 0 JH_SIZE of
        None \<Rightarrow> Some (Inl IOFail)
      | Some jh \<Rightarrow>
          if jh_magic jh \<noteq> JOURNAL_MAGIC \<or> jh_nbytes_used jh \<le> of_nat JH_SIZE
          then Some (Inr (st, 0))
          else (case install_loop env st (jh_nbytes_used jh) max_commits (of_nat JH_SIZE) 0 of
                  None \<Rightarrow> None
                | Some (Inl e) \<Rightarrow> Some (Inl e)
                | Some (Inr (st', committed)) \<Rightarrow>
                    Some (Inr (journal_write st' 0
                                 (journal_header (jh_magic jh) (of_nat JH_SIZE)), committed))))"

section \<open>Sequences of commands\<close>

text \<open>A run of \<^verbatim>\<open>journal create name\<close> commands, one after the other on the same image;
  each comes with the clock value it sees. A command that dies ends the run.\<close>

fun creates :: "fs \<Rightarrow> (u8 list \<times> u32) list \<Rightarrow> error + fs" where
  "creates st [] = Inr st"
| "creates st ((file_name, now) # rest) =
     (case create_journal st file_name now of
        Inl e \<Rightarrow> Inl e
      | Inr st' \<Rightarrow> creates st' rest)"

section \<open>Complete and incomplete transactions\<close>



section \<open>Well-formed journals and agreement below bytes-used\<close>

text \<open>The used part of the journal: the first \<open>used\<close> bytes of the journal region, header
  included.\<close>

definition log_of :: "fs \<Rightarrow> nat \<Rightarrow> u8 list" where
  "log_of st used = take used (drop (JOURNAL_BLOCK_IDX * BLOCK_SIZE) (image st))"

text \<open>A block of the image outside the journal region.\<close>

definition real_block :: "nat \<Rightarrow> bool" where
  "real_block block_no \<longleftrightarrow>
     (block_no < JOURNAL_BLOCK_IDX \<or> JOURNAL_BLOCK_IDX + JOURNAL_BLOCKS \<le> block_no)
     \<and> block_no < TOTAL_BLOCKS"

text \<open>From offset \<open>off\<close> on, the log is a sequence of whole records as create writes
  them, ending exactly where the log ends: Commit records of size 4 and Data records of
  size 4104 whose target is a block of the image outside the journal region.\<close>

function wf_from :: "u8 list \<Rightarrow> nat \<Rightarrow> bool" where
  "wf_from log off =
     (if length log \<le> off then off = length log
      else if length log < off + RH_SIZE then False
      else if rh_type (take RH_SIZE (drop off log)) = REC_COMMIT
               \<and> unat (rh_size (take RH_SIZE (drop off log))) = CR_SIZE
           then wf_from log (off + CR_SIZE)
      else if rh_type (take RH_SIZE (drop off log)) = REC_DATA
               \<and> unat (rh_size (take RH_SIZE (drop off log))) = DR_SIZE
               \<and> off + DR_SIZE \<le> length log
               \<and> real_block (unat (dr_block_no (take DR_SIZE (drop off log))))
           then wf_from log (off + DR_SIZE)
      else False)"
  by pat_completeness auto
termination
  by (relation "measure (\<lambda>(log, off). length log - off)")
    (auto simp: RH_SIZE_def CR_SIZE_def DR_SIZE_def BLOCK_SIZE_def)

text \<open>Two images of the same length that agree on every byte except, possibly, the
  bytes of the journal region at journal offsets \<open>used\<close> and beyond.\<close>

definition agree_off_tail :: "nat \<Rightarrow> fs \<Rightarrow> fs \<Rightarrow> bool" where
  "agree_off_tail used st1 st2 \<longleftrightarrow>
     length (image st1) = length (image st2) \<and>
     (\<forall>a<length (image st1).
        a < JOURNAL_BLOCK_IDX * BLOCK_SIZE + used \<or> INODE_BMAP_IDX * BLOCK_SIZE \<le> a
        \<longrightarrow> image st1 ! a = image st2 ! a)"

section \<open>Concrete images\<close>

text \<open>An image of \<open>TOTAL_BLOCKS\<close> zero blocks whose inode bitmap block has every bit set.\<close>

definition full_bitmap_st :: fs where
  "full_bitmap_st =
     \<lparr>image = replicate 69632 0 @ replicate 4096 255 @ replicate 274432 0, trace = []\<rparr>"

text \<open>An environment for the concrete runs: no file larger than the assumed minimum, and
  zero bytes in every fresh buffer.\<close>

definition env0 :: env where
  "env0 = \<lparr>max_file = 0, stale = (\<lambda>k i. 0)\<rparr>"


text \<open>An image whose journal holds one transaction with a Data record of size 8: a
  record header and the block number 30, no data; the Commit record lies right behind
  it, and bytes-used is 20.\<close>

definition short_st :: fs where
  "short_st =
     \<lparr>image = replicate 4096 0 @ journal_header JOURNAL_MAGIC 20
               @ le16 REC_DATA @ le16 8 @ le32 30 @ commit_record @ replicate 344044 0,
      trace = []\<rparr>"


text \<open>A freshly formatted image as the code sees it: \<open>TOTAL_BLOCKS\<close> blocks with zeroed
  bitmaps, inode table, root directory block and journal (the superblock is never read).\<close>

definition blank_st :: fs where
  "blank_st = \<lparr>image = replicate (TOTAL_BLOCKS * BLOCK_SIZE) 0, trace = []\<rparr>"

text \<open>An image whose journal header has 12 bytes used, the four bytes behind the header
  being zero: a record of type 0 and size 0.\<close>

definition stuck_st :: fs where
  "stuck_st =
     \<lparr>image = replicate 4096 0 @ journal_header JOURNAL_MAGIC 12 @ replicate 344056 0,
      trace = []\<rparr>"

text \<open>A zero image whose inode bitmap has the bits of inodes 0 to 31 set.\<close>

definition st32 :: fs where
  "st32 = \<lparr>image = replicate 69632 0 @ replicate 4 255 @ replicate 278524 0, trace = []\<rparr>"

text \<open>The blank image after three creates and no install: three transactions are
  pending in the journal.\<close>

definition three_pending :: fs where
  "three_pending =
     (case creates blank_st [([97], 0), ([98], 0), ([99], 0)] of
        Inl e \<Rightarrow> blank_st
      | Inr st \<Rightarrow> st)"

text \<open>The blank image after four creates and no install.\<close>

definition four_pending :: fs where
  "four_pending =
     (case creates blank_st [([97], 0), ([98], 0), ([99], 0), ([100], 0)] of
        Inl e \<Rightarrow> blank_st
      | Inr st \<Rightarrow> st)"

text \<open>The transaction that create writes for a file on an image whose bitmaps, root
  directory block and first inode block are zero: its four Data records at a journal
  offset, its Commit record behind them, and the four home writes that replaying it
  performs.\<close>

definition tx_data_of_create :: "fs \<Rightarrow> nat \<Rightarrow> u8 list \<Rightarrow> u32 \<Rightarrow> bool" where
  "tx_data_of_create st off file_name now \<longleftrightarrow>
     journal_read st (of_nat off) DR_SIZE
       = Some (data_record INODE_BMAP_IDX (set_bitmap (replicate 4096 0) 0)) \<and>
     journal_read st (of_nat (off + 4104)) DR_SIZE
       = Some (data_record DATA_BMAP_IDX (replicate 4096 0)) \<and>
     journal_read st (of_nat (off + 8208)) DR_SIZE
       = Some (data_record DATA_START_IDX (put_dirent (replicate 4096 0) 0 0 file_name)) \<and>
     journal_read st (of_nat (off + 12312)) DR_SIZE
       = Some (data_record INODE_START_IDX
                 (grow_root (init_inode (replicate 4096 0) 0 now) 0))"

definition tx_of_create :: "fs \<Rightarrow> nat \<Rightarrow> u8 list \<Rightarrow> u32 \<Rightarrow> bool" where
  "tx_of_create st off file_name now \<longleftrightarrow>
     tx_data_of_create st off file_name now \<and>
     journal_read st (of_nat (off + 16416)) RH_SIZE = Some commit_record"

definition replayed :: "fs \<Rightarrow> u8 list \<Rightarrow> u32 \<Rightarrow> fs" where
  "replayed st file_name now =
     put_block
       (put_block
         (put_block
           (put_block st INODE_BMAP_IDX (set_bitmap (replicate 4096 0) 0))
           DATA_BMAP_IDX (replicate 4096 0))
         DATA_START_IDX (put_dirent (replicate 4096 0) 0 0 file_name))
       INODE_START_IDX (grow_root (init_inode (replicate 4096 0) 0 now) 0)"

text \<open>An image whose journal holds one transaction, a Data record for block 30 filled
  with the byte 170 and a Commit record behind it, under a header with the given
  bytes-used.\<close>

definition one_tx_image :: "u32 \<Rightarrow> u8 list" where
  "one_tx_image used =
     replicate 4096 0 @ journal_header JOURNAL_MAGIC used
       @ data_record 30 (replicate 4096 170) @ commit_record @ replicate 339948 0"

text \<open>Bytes-used 4116, the end of the Commit record; and the same image with another
  byte right behind bytes-used.\<close>

definition one_tx_st :: fs where
  "one_tx_st = \<lparr>image = one_tx_image 4116, trace = []\<rparr>"

definition one_tx_tail_st :: fs where
  "one_tx_tail_st = \<lparr>image = (one_tx_image 4116)[8212 := 7], trace = []\<rparr>"

text \<open>Bytes-used 4113, one byte into the Commit record's header; and the same image
  with another byte at journal offset 4113, the second byte of that header.\<close>

definition straddle_st1 :: fs where
  "straddle_st1 = \<lparr>image = one_tx_image 4113, trace = []\<rparr>"

definition straddle_st2 :: fs where
  "straddle_st2 = \<lparr>image = (one_tx_image 4113)[8209 := 1], trace = []\<rparr>"

section \<open>Observations\<close>

text \<open>The C string held in a byte list: the bytes before the first NUL.\<close>

definition cstr :: "u8 list \<Rightarrow> u8 list" where
  "cstr s = takeWhile (\<lambda>c. c \<noteq> 0) s"

text \<open>The 28 bytes of \<^verbatim>\<open>d[slot].name\<close> in a directory block.\<close>

definition name_field :: "u8 list \<Rightarrow> nat \<Rightarrow> u8 list" where
  "name_field d slot = take 28 (drop (slot * DIRENT_SIZE + 4) d)"

text \<open>The payload of the \<open>k\<close>-th write of a run (the block image when that write is a
  Data record); empty when the run died.\<close>

definition logged :: "error + fs \<Rightarrow> nat \<Rightarrow> u8 list" where
  "logged r k = (case r of Inl e \<Rightarrow> [] | Inr st \<Rightarrow> dr_data (snd (trace st ! k)))"

text \<open>The bytes-used field of the journal header on disk, and whether install finds a
  header it acts on (valid magic and more than the header in use).\<close>

definition bytes_used :: "fs \<Rightarrow> u32 option" where
  "bytes_used st = map_option jh_nbytes_used (journal_read st 0 JH_SIZE)"

definition header_valid :: "fs \<Rightarrow> bool" where
  "header_valid st =
     (case journal_read st 0 JH_SIZE of
        None \<Rightarrow> False
      | Some jh \<Rightarrow> jh_magic jh = JOURNAL_MAGIC \<and> of_nat JH_SIZE < jh_nbytes_used jh)"

section \<open>Basic facts\<close>

lemmas geom = JOURNAL_MAGIC_def BLOCK_SIZE_def INODE_SIZE_def JOURNAL_BLOCK_IDX_def
  JOURNAL_BLOCKS_def INODE_BLOCKS_def DATA_BLOCKS_def INODE_BMAP_IDX_def DATA_BMAP_IDX_def
  INODE_START_IDX_def DATA_START_IDX_def TOTAL_BLOCKS_def REC_DATA_def REC_COMMIT_def
  DIRENT_SIZE_def JH_SIZE_def RH_SIZE_def DR_SIZE_def CR_SIZE_def max_inodes_def slots_def

lemma and_exp_eq_0: "((w :: 'a::len word) AND 2 ^ k = 0) = (\<not> bit w k)"
proof
  assume "w AND 2 ^ k = 0"
  then have "\<not> bit (w AND 2 ^ k) k" by simp
  then show "\<not> bit w k"
    by (auto simp add: bit_and_iff bit_exp_iff dest: bit_imp_le_length)
next
  assume "\<not> bit w k"
  then show "w AND 2 ^ k = 0"
    by (intro bit_word_eqI) (auto simp add: bit_and_iff bit_exp_iff)
qed

lemma bit_255_int: "k < 8 \<Longrightarrow> bit (255::int) k"
proof -
  assume "k < 8"
  have "(255::int) = mask 8" by (simp add: mask_eq_exp_minus_1)
  then show ?thesis using \<open>k < 8\<close> by (simp only: bit_mask_iff) simp
qed

lemma bit_255: "k < 8 \<Longrightarrow> bit (255 :: u8) k"
proof -
  assume "k < 8"
  have "(255 :: u8) = - 1" by simp
  then show ?thesis using \<open>k < 8\<close> by (simp only: bit_minus_1_iff) simp
qed

text \<open>What the two allocators report: \<open>None\<close> exactly when none of the 64 inode bits
  is clear, respectively when none of the 128 slots has a zero first name byte.\<close>

lemma free_inode_None_iff:
  "free_inode bmap = None \<longleftrightarrow> (\<forall>i<64. bit (bmap ! (i div 8)) (i mod 8))"
  by (simp add: free_inode_def find_None_iff geom and_exp_eq_0)

lemma free_dirent_None_iff:
  "free_dirent d = None \<longleftrightarrow> (\<forall>i<128. d ! (i * 32 + 4) \<noteq> 0)"
  by (simp add: free_dirent_def find_None_iff geom dirent_name0_def)

lemma free_inode_Some_iff:
  "free_inode bmap = Some i \<longleftrightarrow>
     i < 64 \<and> \<not> bit (bmap ! (i div 8)) (i mod 8) \<and> (\<forall>j<i. bit (bmap ! (j div 8)) (j mod 8))"
  by (auto simp add: free_inode_def find_Some_iff geom and_exp_eq_0)

lemma free_dirent_Some_iff:
  "free_dirent d = Some s \<longleftrightarrow>
     s < 128 \<and> d ! (s * 32 + 4) = 0 \<and> (\<forall>j < s. d ! (j * 32 + 4) \<noteq> 0)"
  by (auto simp add: free_dirent_def find_Some_iff geom dirent_name0_def)

lemma free_inode_zero: "free_inode (replicate 4096 0) = Some 0"
  by (simp add: free_inode_Some_iff)

lemma free_dirent_zero: "free_dirent (replicate 4096 0) = Some 0"
  by (simp add: free_dirent_Some_iff)

lemma unat_add_u32:
  fixes off :: u32
  assumes "unat off + k < 2 ^ 32"
  shows "unat (off + of_nat k) = unat off + k"
proof -
  have k: "unat (of_nat k :: u32) = k"
    using assms by (simp add: unat_of_nat)
  have "unat off + unat (of_nat k :: u32) < 2 ^ LENGTH(32)"
    using assms by (simp add: k)
  then show ?thesis by (simp add: unat_add_lem [THEN iffD1] k)
qed

section \<open>Reads and writes on the image\<close>

lemma length_pwrite:
  "length (image (pwrite st off buf)) =
     (if buf = [] then length (image st) else max (length (image st)) (off + length buf))"
  by (auto simp: pwrite_def Let_def)

lemma nth_pwrite:
  "a < length (image (pwrite st off buf)) \<Longrightarrow>
   image (pwrite st off buf) ! a =
     (if off \<le> a \<and> a < off + length buf then buf ! (a - off)
      else if a < length (image st) then image st ! a else 0)"
  by (auto simp: pwrite_def Let_def nth_append min_def)

lemma trace_pwrite:
  "trace (pwrite st off buf) = (if buf = [] then trace st else trace st @ [(off, buf)])"
  by (simp add: pwrite_def Let_def)

lemma pread_Some_iff:
  assumes "0 < n"
  shows "pread st off n = Some bs \<longleftrightarrow>
     off + n \<le> length (image st) \<and> length bs = n \<and> (\<forall>i<n. bs ! i = image st ! (off + i))"
proof (cases "off + n \<le> length (image st)")
  case True
  have "(take n (drop off (image st)) = bs) =
        (length bs = n \<and> (\<forall>i<n. bs ! i = image st ! (off + i)))"
    using True by (subst list_eq_iff_nth_eq) (auto simp: min_def)
  then show ?thesis using True assms by (simp add: pread_def)
next
  case False
  then show ?thesis using assms by (simp add: pread_def)
qed

lemma pread_length: "pread st off n = Some bs \<Longrightarrow> length bs = n"
  by (auto simp: pread_def split: if_splits)

lemma pread_pwrite_inside:
  assumes "off \<le> off'" and "off' + n \<le> off + length buf"
  shows "pread (pwrite st off buf) off' n = Some (take n (drop (off' - off) buf))"
proof (cases "n = 0")
  case True
  then show ?thesis by (simp add: pread_def)
next
  case False
  with assms have ne: "buf \<noteq> []" by auto
  from False have "0 < n" by simp
  then show ?thesis
    using assms ne by (auto simp: pread_Some_iff length_pwrite nth_pwrite)
qed

lemma pread_pwrite_same: "pread (pwrite st off buf) off (length buf) = Some buf"
  using pread_pwrite_inside [of off off "length buf" buf st] by simp

lemma pread_pwrite_disjoint:
  assumes "off' + n \<le> off \<or> off + length buf \<le> off'" and "off' + n \<le> length (image st)"
  shows "pread (pwrite st off buf) off' n = pread st off' n"
proof (cases "n = 0")
  case True
  then show ?thesis by (simp add: pread_def)
next
  case False
  then have n: "0 < n" by simp
  obtain bs where bs: "pread st off' n = Some bs"
    using assms(2) by (simp add: pread_def)
  have "pread (pwrite st off buf) off' n = Some bs"
    using bs assms unfolding pread_Some_iff [OF n]
    by (auto simp: length_pwrite nth_pwrite)
  with bs show ?thesis by simp
qed

lemma pread_cong:
  assumes "length (image st') = length (image st)"
    and "\<And>i. i < n \<Longrightarrow> off + i < length (image st) \<Longrightarrow> image st' ! (off + i) = image st ! (off + i)"
  shows "pread st' off n = pread st off n"
proof (cases "n = 0 \<or> off + n \<le> length (image st)")
  case True
  then show ?thesis
    using assms by (auto simp: pread_def intro!: nth_equalityI)
next
  case False
  then show ?thesis using assms(1) by (simp add: pread_def)
qed

lemma read_block_length: "read_block st k = Some b \<Longrightarrow> length b = 4096"
  by (auto simp: read_block_def geom dest: pread_length)

lemma take_drop_prefix:
  "off + n \<le> e \<Longrightarrow> take n (drop off (take e xs)) = take n (drop off xs)"
  by (simp add: drop_take min_def)

lemma take_drop_update:
  "take n (drop off (xs[i := v])) =
     (if off \<le> i \<and> i < off + n then (take n (drop off xs))[i - off := v]
      else take n (drop off xs))"
proof (cases "off \<le> i")
  case True
  show ?thesis
  proof (cases "i < off + n")
    case True
    with \<open>off \<le> i\<close> show ?thesis by (simp add: drop_update_swap take_update_swap)
  next
    case False
    then have "n \<le> i - off" using \<open>off \<le> i\<close> by simp
    with False \<open>off \<le> i\<close> show ?thesis by (simp add: drop_update_swap)
  qed
next
  case False
  then show ?thesis by simp
qed

section \<open>Records and headers\<close>

lemma length_le16 [simp]: "length (le16 w) = 2" by (simp add: le16_def)

lemma length_le32 [simp]: "length (le32 w) = 4" by (simp add: le32_def)

lemma length_data_record: "length buf = BLOCK_SIZE \<Longrightarrow> length (data_record t buf) = DR_SIZE"
  by (simp add: data_record_def geom)

lemma length_data_record_full [simp]:
  "length buf = 4096 \<Longrightarrow> length (data_record t buf) = 4104"
  by (simp add: data_record_def geom)

lemma length_commit_record [simp]: "length commit_record = 4"
  by (simp add: commit_record_def)

lemma data_record_ne [simp]: "data_record t buf \<noteq> []"
  by (simp add: data_record_def le16_def)

lemma commit_record_ne [simp]: "commit_record \<noteq> []"
  by (simp add: commit_record_def le16_def)

lemma journal_header_ne [simp]: "journal_header m u \<noteq> []"
  by (simp add: journal_header_def le32_def)

lemma trace_journal_write:
  "buf \<noteq> [] \<Longrightarrow> trace (journal_write st off buf) = trace st @ [(4096 + unat off, buf)]"
  by (simp add: journal_write_def trace_pwrite geom)

lemma rd32_le32 [simp]: "rd32 (le32 w) = w"
  unfolding rd32_def le32_def
  apply simp
  apply (rule bit_word_eqI)
  apply (auto simp add: bit_simps)
  subgoal for n by (cases "24 \<le> n") auto
  done

lemma rd16_le16 [simp]: "rd16 (le16 w) = w"
  unfolding rd16_def le16_def
  apply simp
  apply (rule bit_word_eqI)
  apply (auto simp add: bit_simps)
  done

lemma rh_type_data_record [simp]: "rh_type (data_record t buf) = REC_DATA"
  by (simp add: rh_type_def data_record_def)

lemma rh_size_data_record [simp]: "rh_size (data_record t buf) = 4104"
  by (simp add: rh_size_def data_record_def geom)

lemma dr_block_no_data_record [simp]: "dr_block_no (data_record t buf) = of_nat t"
  by (simp add: dr_block_no_def data_record_def)

lemma dr_data_data_record [simp]: "dr_data (data_record t buf) = take BLOCK_SIZE buf"
  by (simp add: dr_data_def data_record_def)

lemma rh_type_commit_record [simp]: "rh_type commit_record = REC_COMMIT"
  by (simp add: rh_type_def commit_record_def)

lemma rh_size_commit_record [simp]: "rh_size commit_record = 4"
  by (simp add: rh_size_def commit_record_def geom)

lemma jh_magic_journal_header [simp]: "jh_magic (journal_header m u) = m"
  by (simp add: jh_magic_def journal_header_def)

lemma jh_nbytes_used_journal_header [simp]: "jh_nbytes_used (journal_header m u) = u"
  by (simp add: jh_nbytes_used_def journal_header_def)

lemma length_journal_header [simp]: "length (journal_header m u) = 8"
  by (simp add: journal_header_def)

lemma journal_read_header_written:
  "journal_read (journal_write st 0 (journal_header m u)) 0 JH_SIZE = Some (journal_header m u)"
  using pread_pwrite_same [of st 4096 "journal_header m u"]
  by (simp add: journal_read_def journal_write_def geom)

lemma ucast_rh_size:
  assumes "unat (w :: u16) = n"
  shows "(ucast w :: u32) = of_nat n"
proof -
  have "(ucast w :: u32) = of_nat (unat w)" by simp
  then show ?thesis by (simp only: assms)
qed

section \<open>Block updates in memory\<close>

lemma length_store: "off + length bs \<le> length buf \<Longrightarrow> length (store buf off bs) = length buf"
  by (simp add: store_def)

lemma nth_store:
  "off + length bs \<le> length buf \<Longrightarrow> i < length buf \<Longrightarrow>
   store buf off bs ! i = (if off \<le> i \<and> i < off + length bs then bs ! (i - off) else buf ! i)"
  by (auto simp: store_def nth_append min_def)

lemma length_strncpy [simp]: "length (strncpy dst src n) = length dst"
  by (induction dst src n rule: strncpy.induct) auto

lemma strncpy_eq:
  "n \<le> length dst \<Longrightarrow>
   strncpy dst src n = take n (cstr src) @ replicate (n - length (cstr src)) 0 @ drop n dst"
  by (induction dst src n rule: strncpy.induct) (auto simp: cstr_def)

lemma length_set_bitmap [simp]: "length (set_bitmap b i) = length b"
  by (simp add: set_bitmap_def)

lemma bit_set_bitmap:
  assumes "i div 8 < length b"
  shows "bit (set_bitmap b i ! (i div 8)) (i mod 8)"
  using assms by (simp add: set_bitmap_def bit_or_iff bit_exp_iff)

lemma length_put_dirent:
  "slot * 32 + 32 \<le> length d \<Longrightarrow> length (put_dirent d slot idx name) = length d"
  by (simp add: put_dirent_def Let_def length_store geom)

lemma length_name_field:
  "slot * 32 + 32 \<le> length d \<Longrightarrow> length (name_field d slot) = 28"
  by (simp add: name_field_def geom)

lemma nth_put_dirent:
  assumes "slot * 32 + 32 \<le> length d" and "i < length d"
  shows "put_dirent d slot idx name ! i =
     (if slot * 32 \<le> i \<and> i < slot * 32 + 4 then le32 (of_nat idx) ! (i - slot * 32)
      else if slot * 32 + 4 \<le> i \<and> i < slot * 32 + 32
        then strncpy (name_field d slot) name 27 ! (i - (slot * 32 + 4))
      else d ! i)"
proof -
  let ?d1 = "store d (slot * 32) (le32 (of_nat idx))"
  let ?nm = "strncpy (name_field d slot) name 27"
  have l1: "length ?d1 = length d" using assms by (simp add: length_store)
  have nm: "take 28 (drop (slot * 32 + 4) ?d1) = name_field d slot"
    using assms(1) by (simp add: store_def name_field_def geom)
  have ln: "length ?nm = 28" using assms(1) by (simp add: length_name_field)
  have pd: "put_dirent d slot idx name = store ?d1 (slot * 32 + 4) ?nm"
    by (simp add: put_dirent_def Let_def geom nm)
  have "store ?d1 (slot * 32 + 4) ?nm ! i =
      (if slot * 32 + 4 \<le> i \<and> i < slot * 32 + 4 + 28 then ?nm ! (i - (slot * 32 + 4))
       else ?d1 ! i)"
    using assms l1 ln by (subst nth_store) auto
  moreover have "?d1 ! i =
      (if slot * 32 \<le> i \<and> i < slot * 32 + 4 then le32 (of_nat idx) ! (i - slot * 32)
       else d ! i)"
    using assms by (subst nth_store) auto
  ultimately show ?thesis
    unfolding pd by auto
qed

lemma name_field_put_dirent:
  assumes "slot * 32 + 32 \<le> length d"
  shows "name_field (put_dirent d slot idx name) slot = strncpy (name_field d slot) name 27"
proof (rule nth_equalityI)
  show "length (name_field (put_dirent d slot idx name) slot)
        = length (strncpy (name_field d slot) name 27)"
    using assms by (simp add: name_field_def length_put_dirent geom)
next
  fix i assume "i < length (name_field (put_dirent d slot idx name) slot)"
  then have i: "i < 28" by (simp add: name_field_def)
  then show "name_field (put_dirent d slot idx name) slot ! i
        = strncpy (name_field d slot) name 27 ! i"
    using assms
    by (simp add: name_field_def [of "put_dirent d slot idx name"] length_put_dirent
        nth_put_dirent geom)
qed

lemma dirent_name0_put_dirent:
  assumes "slot * 32 + 32 \<le> length d" and "j * 32 + 32 \<le> length d"
  shows "dirent_name0 (put_dirent d slot idx name) j =
     (if j = slot then (case cstr name of [] \<Rightarrow> 0 | c # cs \<Rightarrow> c) else dirent_name0 d j)"
proof (cases "j = slot")
  case True
  have "strncpy (name_field d slot) name 27 ! 0 = (case cstr name of [] \<Rightarrow> 0 | c # cs \<Rightarrow> c)"
    using assms(1)
    by (subst strncpy_eq) (auto simp: length_name_field nth_append split: list.splits)
  then show ?thesis
    using True assms by (simp add: dirent_name0_def geom nth_put_dirent)
next
  case False
  then have "j < slot \<or> slot < j" by auto
  then show ?thesis
    using False assms by (auto simp add: dirent_name0_def geom nth_put_dirent)
qed

lemma free_dirent_put_dirent_empty:
  assumes "length d = 4096" and "free_dirent d = Some slot" and "cstr name = []"
  shows "free_dirent (put_dirent d slot idx name) = Some slot"
proof -
  from assms(2) have s: "slot < 128" "dirent_name0 d slot = 0" "\<forall>j < slot. dirent_name0 d j \<noteq> 0"
    by (simp_all add: free_dirent_Some_iff dirent_name0_def geom)
  have a: "j < 128 \<Longrightarrow> j * 32 + 32 \<le> length d" for j using assms(1) by simp
  have "dirent_name0 (put_dirent d slot idx name) slot = 0"
    using s(1) a assms(3) by (simp add: dirent_name0_put_dirent)
  moreover have "\<forall>j < slot. dirent_name0 (put_dirent d slot idx name) j \<noteq> 0"
    using s a by (simp add: dirent_name0_put_dirent)
  ultimately show ?thesis
    using s(1) by (simp add: free_dirent_Some_iff dirent_name0_def geom)
qed

lemma length_init_inode:
  "k < 32 \<Longrightarrow> length b = 4096 \<Longrightarrow> length (init_inode b k now) = 4096"
  by (simp add: init_inode_def Let_def length_store geom)

lemma length_grow_root: "length b = 4096 \<Longrightarrow> length (grow_root b slot) = 4096"
  by (simp add: grow_root_def Let_def length_store)

lemma grow_root_size:
  assumes "8 \<le> length b"
  shows "of_nat ((slot + 1) * DIRENT_SIZE) \<le> rd32 (take 4 (drop 4 (grow_root b slot)))"
proof -
  have "take 4 (drop 4 (store b 4 (le32 w))) = le32 w" for w
    using assms by (simp add: store_def)
  then show ?thesis
    by (auto simp: grow_root_def Let_def)
qed

section \<open>The result of a successful create\<close>

text \<open>When the reads succeed and both allocators find an entry, create returns the state
  after six journal writes; the lemmas give that state, its trace and the block images it
  has logged, in general and on the blank image.\<close>

lemma create_journal_success:
  assumes "read_block st INODE_BMAP_IDX = Some ibmap"
    and "read_block st DATA_BMAP_IDX = Some dbmap"
    and "read_block st DATA_START_IDX = Some root_data"
    and "free_inode ibmap = Some inode_idx"
    and "free_dirent root_data = Some slot"
    and "read_block st (INODE_START_IDX + inode_idx div 32) = Some ino_blk"
    and "journal_read st 0 JH_SIZE = Some jh"
    and "off = (if jh_magic jh \<noteq> JOURNAL_MAGIC then 8 else jh_nbytes_used jh)"
  shows "create_journal st file_name now =
     Inr (journal_write
           (journal_write
             (journal_write
               (journal_write
                 (journal_write
                   (journal_write st off (data_record INODE_BMAP_IDX (set_bitmap ibmap inode_idx)))
                   (off + 4104) (data_record DATA_BMAP_IDX dbmap))
                 (off + 8208)
                 (data_record DATA_START_IDX (put_dirent root_data slot inode_idx file_name)))
               (off + 12312)
               (data_record (INODE_START_IDX + inode_idx div 32)
                  (grow_root (init_inode ino_blk (inode_idx mod 32) now) slot)))
             (off + 16416) commit_record)
           0 (journal_header JOURNAL_MAGIC (off + 16420)))"
proof -
  show ?thesis
    unfolding create_journal_def
    using assms
    by (simp add: Let_def DR_SIZE_def RH_SIZE_def CR_SIZE_def BLOCK_SIZE_def INODE_SIZE_def
        JH_SIZE_def ac_simps)
qed

lemma create_journal_trace:
  assumes "read_block st INODE_BMAP_IDX = Some ibmap"
    and "read_block st DATA_BMAP_IDX = Some dbmap"
    and "read_block st DATA_START_IDX = Some root_data"
    and "free_inode ibmap = Some inode_idx"
    and "free_dirent root_data = Some slot"
    and "read_block st (INODE_START_IDX + inode_idx div 32) = Some ino_blk"
    and "journal_read st 0 JH_SIZE = Some jh"
    and "off = (if jh_magic jh \<noteq> JOURNAL_MAGIC then 8 else jh_nbytes_used jh)"
    and "create_journal st file_name now = Inr st'"
  shows "trace st' = trace st @
       [(4096 + unat off, data_record INODE_BMAP_IDX (set_bitmap ibmap inode_idx)),
        (4096 + unat (off + 4104), data_record DATA_BMAP_IDX dbmap),
        (4096 + unat (off + 8208),
           data_record DATA_START_IDX (put_dirent root_data slot inode_idx file_name)),
        (4096 + unat (off + 12312),
           data_record (INODE_START_IDX + inode_idx div 32)
             (grow_root (init_inode ino_blk (inode_idx mod 32) now) slot)),
        (4096 + unat (off + 16416), commit_record),
        (4096, journal_header JOURNAL_MAGIC (off + 16420))]"
  using assms(9) unfolding create_journal_success [OF assms(1-8)]
  by (auto simp: trace_journal_write)

lemma create_journal_blocks_length:
  assumes "read_block st INODE_BMAP_IDX = Some ibmap"
    and "read_block st DATA_BMAP_IDX = Some dbmap"
    and "read_block st DATA_START_IDX = Some root_data"
    and "free_inode ibmap = Some inode_idx"
    and "free_dirent root_data = Some slot"
    and "read_block st (INODE_START_IDX + inode_idx div 32) = Some ino_blk"
  shows "length (set_bitmap ibmap inode_idx) = 4096"
    and "length dbmap = 4096"
    and "length (put_dirent root_data slot inode_idx file_name) = 4096"
    and "length (grow_root (init_inode ino_blk (inode_idx mod 32) now) slot) = 4096"
proof -
  show "length (set_bitmap ibmap inode_idx) = 4096"
    using assms(1) by (simp add: read_block_length)
  show "length dbmap = 4096"
    using assms(2) by (simp add: read_block_length)
  have "slot < 128" using assms(5) by (simp add: free_dirent_Some_iff)
  then show "length (put_dirent root_data slot inode_idx file_name) = 4096"
    using read_block_length [OF assms(3)] by (simp add: length_put_dirent)
  show "length (grow_root (init_inode ino_blk (inode_idx mod 32) now) slot) = 4096"
    using read_block_length [OF assms(6)] by (simp add: length_grow_root length_init_inode)
qed

lemma create_journal_logged:
  assumes "read_block st INODE_BMAP_IDX = Some ibmap"
    and "read_block st DATA_BMAP_IDX = Some dbmap"
    and "read_block st DATA_START_IDX = Some root_data"
    and "free_inode ibmap = Some inode_idx"
    and "free_dirent root_data = Some slot"
    and "read_block st (INODE_START_IDX + inode_idx div 32) = Some ino_blk"
    and "journal_read st 0 JH_SIZE = Some jh"
    and "r = create_journal st file_name now"
  shows "logged r (length (trace st)) = set_bitmap ibmap inode_idx"
    and "logged r (length (trace st) + 1) = dbmap"
    and "logged r (length (trace st) + 2) = put_dirent root_data slot inode_idx file_name"
    and "logged r (length (trace st) + 3)
         = grow_root (init_inode ino_blk (inode_idx mod 32) now) slot"
proof -
  obtain st' where st': "create_journal st file_name now = Inr st'"
    using create_journal_success [OF assms(1-7) refl] by blast
  define ws where "ws = drop (length (trace st)) (trace st')"
  have tr: "trace st' = trace st @ ws"
    using create_journal_trace [OF assms(1-7) refl st'] by (simp add: ws_def)
  have ws: "map (dr_data \<circ> snd) (take 4 ws) =
      [set_bitmap ibmap inode_idx, dbmap, put_dirent root_data slot inode_idx file_name,
       grow_root (init_inode ino_blk (inode_idx mod 32) now) slot]"
    using create_journal_blocks_length [OF assms(1-6)]
    unfolding ws_def create_journal_trace [OF assms(1-7) refl st']
    by (simp add: BLOCK_SIZE_def)
  have lg: "logged r (length (trace st) + k) = map (dr_data \<circ> snd) (take 4 ws) ! k"
    if "k < 4" for k
  proof -
    have "4 \<le> length ws"
      unfolding ws_def create_journal_trace [OF assms(1-7) refl st'] by simp
    with that show ?thesis
      by (simp add: assms(8) st' logged_def tr nth_append_length_plus)
  qed
  show "logged r (length (trace st)) = set_bitmap ibmap inode_idx"
    using lg [of 0] by (simp add: ws)
  show "logged r (length (trace st) + 1) = dbmap"
    using lg [of 1] by (simp add: ws)
  show "logged r (length (trace st) + 2) = put_dirent root_data slot inode_idx file_name"
    using lg [of 2] by (simp add: ws)
  show "logged r (length (trace st) + 3)
         = grow_root (init_inode ino_blk (inode_idx mod 32) now) slot"
    using lg [of 3] by (simp add: ws)
qed

lemma read_block_blank:
  "k < 85 \<Longrightarrow> read_block blank_st k = Some (replicate 4096 0)"
  by (simp add: read_block_def pread_def blank_st_def geom)

lemma journal_read_blank_header: "journal_read blank_st 0 JH_SIZE = Some (replicate 8 0)"
  by (simp add: journal_read_def pread_def blank_st_def geom)

lemma jh_magic_zero: "jh_magic (replicate 8 0) \<noteq> JOURNAL_MAGIC"
  by (simp add: jh_magic_def rd32_def geom)

lemma blank_create_hyps:
  "read_block blank_st INODE_BMAP_IDX = Some (replicate 4096 0)"
  "read_block blank_st DATA_BMAP_IDX = Some (replicate 4096 0)"
  "read_block blank_st DATA_START_IDX = Some (replicate 4096 0)"
  "free_inode (replicate 4096 0) = Some 0"
  "free_dirent (replicate 4096 0) = Some 0"
  "read_block blank_st (INODE_START_IDX + 0 div 32) = Some (replicate 4096 0)"
  "journal_read blank_st 0 JH_SIZE = Some (replicate 8 0)"
  by (simp_all add: read_block_blank free_inode_zero free_dirent_zero journal_read_blank_header
      INODE_BMAP_IDX_def DATA_BMAP_IDX_def DATA_START_IDX_def INODE_START_IDX_def
      JOURNAL_BLOCK_IDX_def JOURNAL_BLOCKS_def INODE_BLOCKS_def)

lemma trace_blank: "trace blank_st = []"
  by (simp add: blank_st_def)

lemma create_blank_logged:
  "logged (create_journal blank_st name now) 0 = set_bitmap (replicate 4096 0) 0"
  "logged (create_journal blank_st name now) 2 = put_dirent (replicate 4096 0) 0 0 name"
  "logged (create_journal blank_st name now) 3
     = grow_root (init_inode (replicate 4096 0) 0 now) 0"
  using create_journal_logged(1,3,4) [OF blank_create_hyps refl, of name now]
  unfolding trace_blank list.size add_0 by simp_all

section \<open>Steps of the replay loops\<close>

text \<open>One unfolding of each loop of install, by the case its body takes.\<close>

lemma scan_tx_step_commit:
  assumes "(of_nat off :: u32) < of_nat used"
    and "journal_read st (of_nat off) RH_SIZE = Some rh"
    and "rh_type rh = REC_COMMIT" and "unat (rh_size rh) = n"
  shows "scan_tx st (of_nat used) (of_nat off) = Some (Inr (of_nat (off + n), True))"
  using assms by (subst scan_tx.simps) (simp add: ucast_rh_size [OF assms(4)])

lemma scan_tx_step_other:
  assumes "(of_nat off :: u32) < of_nat used"
    and "journal_read st (of_nat off) RH_SIZE = Some rh"
    and "rh_type rh \<noteq> REC_COMMIT" and "unat (rh_size rh) = n"
  shows "scan_tx st (of_nat used) (of_nat off) = scan_tx st (of_nat used) (of_nat (off + n))"
  using assms by (subst scan_tx.simps) (simp add: ucast_rh_size [OF assms(4)])

lemma scan_tx_end:
  assumes "\<not> (of_nat off :: u32) < of_nat used"
  shows "scan_tx st (of_nat used) (of_nat off) = Some (Inr (of_nat off, False))"
  using assms by (subst scan_tx.simps) simp

lemma scan_tx_stuck:
  assumes "off < used" and "journal_read st off RH_SIZE = Some rh"
    and "rh_type rh \<noteq> REC_COMMIT" and "rh_size rh = 0"
  shows "scan_tx st used off = None"
proof (rule ccontr)
  assume "scan_tx st used off \<noteq> None"
  then obtain r where r: "scan_tx st used off = Some r" by auto
  have "\<not> (st = st \<and> used = used \<and> off = off)"
    by (rule scan_tx.raw_induct
        [where P = "\<lambda>s u t r. \<not> (s = st \<and> u = used \<and> t = off)", OF _ r])
      (use assms in \<open>fastforce split: if_splits option.splits\<close>)
  then show False by simp
qed

lemma apply_tx_end:
  assumes "\<not> (of_nat p :: u32) < of_nat e"
  shows "apply_tx env st (of_nat p) (of_nat e) = Some (Inr st)"
  using assms by (subst apply_tx.simps) simp

lemma apply_tx_step_other:
  assumes "(of_nat p :: u32) < of_nat e"
    and "journal_read st (of_nat p) RH_SIZE = Some rh"
    and "rh_type rh \<noteq> REC_DATA" and "unat (rh_size rh) = n"
  shows "apply_tx env st (of_nat p) (of_nat e) = apply_tx env st (of_nat (p + n)) (of_nat e)"
  using assms by (subst apply_tx.simps) (simp add: ucast_rh_size [OF assms(4)])

lemma apply_tx_step_record:
  assumes "(of_nat p :: u32) < of_nat e"
    and "journal_read st (of_nat p) RH_SIZE = Some rh"
    and "rh_type rh = REC_DATA" and "unat (rh_size rh) = n" and "n \<le> DR_SIZE"
    and "journal_read st (of_nat p) n = Some bytes"
    and "write_block env st (unat (dr_block_no (fill_record env st bytes)))
           (dr_data (fill_record env st bytes)) = Inr st'"
  shows "apply_tx env st (of_nat p) (of_nat e) = apply_tx env st' (of_nat (p + n)) (of_nat e)"
  using assms by (subst apply_tx.simps) (simp add: ucast_rh_size [OF assms(4)])

lemma journal_read_length: "journal_read st off n = Some bs \<Longrightarrow> length bs = n"
  by (auto simp: journal_read_def pread_def split: if_splits)

lemma fill_record_full: "length bs = DR_SIZE \<Longrightarrow> fill_record env st bs = bs"
  by (simp add: fill_record_def)

lemma write_block_fits:
  "bn < 2 ^ 20 \<Longrightarrow> write_block env st bn buf = Inr (put_block st bn buf)"
  by (simp add: write_block_def file_limit_def BLOCK_SIZE_def)

lemma apply_tx_step_data:
  assumes "(of_nat p :: u32) < of_nat e"
    and "journal_read st (of_nat p) RH_SIZE = Some rh"
    and "rh_type rh = REC_DATA" and "unat (rh_size rh) = DR_SIZE"
    and "journal_read st (of_nat p) DR_SIZE = Some dr"
    and "unat (dr_block_no dr) < 2 ^ 20"
  shows "apply_tx env st (of_nat p) (of_nat e)
         = apply_tx env (put_block st (unat (dr_block_no dr)) (dr_data dr))
             (of_nat (p + DR_SIZE)) (of_nat e)"
proof -
  have f: "fill_record env st dr = dr"
    using journal_read_length [OF assms(5)] by (rule fill_record_full)
  show ?thesis
    by (rule apply_tx_step_record [OF assms(1-4) order_refl assms(5)])
      (simp add: f write_block_fits [OF assms(6)])
qed

lemma install_loop_exit:
  assumes "\<not> (off < used \<and> (max_commits < 0 \<or> sint committed < max_commits))"
  shows "install_loop env st used max_commits off committed = Some (Inr (st, committed))"
  using assms by (subst install_loop.simps) auto

lemma install_loop_no_commit:
  assumes "scan_tx st used off = Some (Inr (e, False))"
  shows "install_loop env st used max_commits off committed = Some (Inr (st, committed))"
  using assms by (subst install_loop.simps) simp

lemma install_loop_step:
  assumes "off < used" and "max_commits < 0 \<or> sint committed < max_commits"
    and "scan_tx st used off = Some (Inr (e, True))"
    and "apply_tx env st off e = Some (Inr st')"
  shows "install_loop env st used max_commits off committed
         = install_loop env st' used max_commits e (committed + 1)"
  using assms by (subst install_loop.simps) simp

lemma install_loop_stuck:
  assumes "off < used" and "max_commits < 0 \<or> sint committed < max_commits"
    and "scan_tx st used off = None"
  shows "install_loop env st used max_commits off committed = None"
  using assms by (subst install_loop.simps) simp

lemma install_journal_guard:
  assumes "journal_read st 0 JH_SIZE = Some jh"
    and "jh_magic jh \<noteq> JOURNAL_MAGIC \<or> jh_nbytes_used jh \<le> of_nat JH_SIZE"
  shows "install_journal env st max_commits = Some (Inr (st, 0))"
  using assms by (auto simp: install_journal_def)

lemma install_journal_cases:
  assumes "install_journal env st max_commits = Some (Inr (st', n))"
  obtains (guard) jh where "journal_read st 0 JH_SIZE = Some jh"
      "jh_magic jh \<noteq> JOURNAL_MAGIC \<or> jh_nbytes_used jh \<le> of_nat JH_SIZE" "st' = st" "n = 0"
  | (replay) jh st'' where "journal_read st 0 JH_SIZE = Some jh"
      "jh_magic jh = JOURNAL_MAGIC" "of_nat JH_SIZE < jh_nbytes_used jh"
      "install_loop env st (jh_nbytes_used jh) max_commits (of_nat JH_SIZE) 0 = Some (Inr (st'', n))"
      "st' = journal_write st'' 0 (journal_header JOURNAL_MAGIC (of_nat JH_SIZE))"
  using assms
  by (auto simp: install_journal_def not_le split: option.splits if_splits sum.splits prod.splits)

lemma install_journal_fixed:
  assumes "install_journal env st c1 = Some (Inr (st', n))"
  shows "install_journal env' st' c2 = Some (Inr (st', 0))"
  using assms
proof (cases rule: install_journal_cases)
  case (guard jh)
  then show ?thesis by (simp add: install_journal_guard)
next
  case (replay jh st'')
  show ?thesis
    unfolding replay(5)
    by (rule install_journal_guard [OF journal_read_header_written]) simp
qed

section \<open>Incomplete trailing transactions (C1)\<close>




lemma data_header_fields:
  "rh_type (le16 REC_DATA @ le16 (of_nat DR_SIZE)) = REC_DATA"
  "rh_type (le16 REC_DATA @ le16 (of_nat DR_SIZE)) \<noteq> REC_COMMIT"
  "unat (rh_size (le16 REC_DATA @ le16 (of_nat DR_SIZE))) = DR_SIZE"
  by (simp_all add: rh_type_def rh_size_def le16_def rd16_def geom)

lemma journal_read_put_block:
  assumes "17 \<le> bn" and "4096 + unat off + n \<le> 69632" and "69632 \<le> length (image st)"
  shows "journal_read (put_block st bn buf) off n = journal_read st off n"
  unfolding journal_read_def put_block_def
  using assms by (intro pread_pwrite_disjoint) (simp_all add: geom)




section \<open>Create and the end of the journal region (C2)\<close>

text \<open>While the transaction fits into the journal region, create leaves every byte
  outside the region as it was.\<close>

lemma journal_write_frame:
  assumes "4096 + unat off + length buf \<le> 69632" and "69632 \<le> length (image st)"
  shows "length (image (journal_write st off buf)) = length (image st)"
    and "a < length (image st) \<Longrightarrow> a < 4096 \<or> 69632 \<le> a \<Longrightarrow>
         image (journal_write st off buf) ! a = image st ! a"
  using assms by (auto simp: journal_write_def geom length_pwrite nth_pwrite)

lemma unat_add_small:
  fixes off :: u32
  assumes "unat off + k \<le> 65536"
  shows "unat (off + of_nat k) = unat off + k"
proof -
  have k: "unat (of_nat k :: u32) = k"
    using assms by (simp add: unat_of_nat)
  have "unat off + unat (of_nat k :: u32) < 2 ^ LENGTH(32)"
    using assms k by simp
  then show ?thesis using k by (simp add: unat_add_lem [THEN iffD1])
qed

lemma create_journal_frame:
  assumes "read_block st INODE_BMAP_IDX = Some ibmap"
    and "read_block st DATA_BMAP_IDX = Some dbmap"
    and "read_block st DATA_START_IDX = Some root_data"
    and "free_inode ibmap = Some inode_idx"
    and "free_dirent root_data = Some slot"
    and "read_block st (INODE_START_IDX + inode_idx div 32) = Some ino_blk"
    and "journal_read st 0 JH_SIZE = Some jh"
    and "off = (if jh_magic jh \<noteq> JOURNAL_MAGIC then 8 else jh_nbytes_used jh)"
    and room: "unat off + 16420 \<le> 65536"
    and len: "69632 \<le> length (image st)"
    and st': "create_journal st file_name now = Inr st'"
  shows "length (image st') = length (image st)"
    and "\<forall>a<length (image st). a < 4096 \<or> 69632 \<le> a \<longrightarrow> image st' ! a = image st ! a"
    and "journal_read st' 0 JH_SIZE = Some (journal_header JOURNAL_MAGIC (off + 16420))"
proof -
  note bl = create_journal_blocks_length [OF assms(1-6)]
  define b1 where "b1 = data_record INODE_BMAP_IDX (set_bitmap ibmap inode_idx)"
  define b2 where "b2 = data_record DATA_BMAP_IDX dbmap"
  define b3 where "b3 = data_record DATA_START_IDX (put_dirent root_data slot inode_idx file_name)"
  define b4 where "b4 = data_record (INODE_START_IDX + inode_idx div 32)
                  (grow_root (init_inode ino_blk (inode_idx mod 32) now) slot)"
  define s1 where "s1 = journal_write st off b1"
  define s2 where "s2 = journal_write s1 (off + 4104) b2"
  define s3 where "s3 = journal_write s2 (off + 8208) b3"
  define s4 where "s4 = journal_write s3 (off + 12312) b4"
  define s5 where "s5 = journal_write s4 (off + 16416) commit_record"
  have lb: "length b1 = 4104" "length b2 = 4104" "length b3 = 4104" "length b4 = 4104"
    using bl by (simp_all add: b1_def b2_def b3_def b4_def length_data_record [unfolded geom] BLOCK_SIZE_def)
  have lc: "length commit_record = 4" by (simp add: commit_record_def)
  have u: "unat (off + 4104) = unat off + 4104" "unat (off + 8208) = unat off + 8208"
    "unat (off + 12312) = unat off + 12312" "unat (off + 16416) = unat off + 16416"
    using room unat_add_small [of off 4104] unat_add_small [of off 8208]
      unat_add_small [of off 12312] unat_add_small [of off 16416] by simp_all
  have eq: "st' = journal_write s5 0 (journal_header JOURNAL_MAGIC (off + 16420))"
    using st' unfolding create_journal_success [OF assms(1-8)]
    by (simp add: s5_def s4_def s3_def s2_def s1_def b1_def b2_def b3_def b4_def)
  have f1: "length (image s1) = length (image st)"
    "\<And>a. a < length (image st) \<Longrightarrow> a < 4096 \<or> 69632 \<le> a \<Longrightarrow> image s1 ! a = image st ! a"
    unfolding s1_def using room len lb by (simp_all add: journal_write_frame)
  have f2: "length (image s2) = length (image st)"
    "\<And>a. a < length (image st) \<Longrightarrow> a < 4096 \<or> 69632 \<le> a \<Longrightarrow> image s2 ! a = image st ! a"
    unfolding s2_def using room len lb u f1 by (simp_all add: journal_write_frame)
  have f3: "length (image s3) = length (image st)"
    "\<And>a. a < length (image st) \<Longrightarrow> a < 4096 \<or> 69632 \<le> a \<Longrightarrow> image s3 ! a = image st ! a"
    unfolding s3_def using room len lb u f2 by (simp_all add: journal_write_frame)
  have f4: "length (image s4) = length (image st)"
    "\<And>a. a < length (image st) \<Longrightarrow> a < 4096 \<or> 69632 \<le> a \<Longrightarrow> image s4 ! a = image st ! a"
    unfolding s4_def using room len lb u f3 by (simp_all add: journal_write_frame)
  have f5: "length (image s5) = length (image st)"
    "\<And>a. a < length (image st) \<Longrightarrow> a < 4096 \<or> 69632 \<le> a \<Longrightarrow> image s5 ! a = image st ! a"
    unfolding s5_def using room len lc u f4 by (simp_all add: journal_write_frame)
  show "length (image st') = length (image st)"
    unfolding eq using len f5 by (simp add: journal_write_frame)
  show "\<forall>a<length (image st). a < 4096 \<or> 69632 \<le> a \<longrightarrow> image st' ! a = image st ! a"
    unfolding eq using len f5 by (simp add: journal_write_frame)
  show "journal_read st' 0 JH_SIZE = Some (journal_header JOURNAL_MAGIC (off + 16420))"
    unfolding eq by (rule journal_read_header_written)
qed

lemma read_block_zero:
  assumes "length (image st) = 348160"
    and "\<forall>a<348160. a < 4096 \<or> 69632 \<le> a \<longrightarrow> image st ! a = 0"
    and "17 \<le> k" and "k < 85"
  shows "read_block st k = Some (replicate 4096 0)"
  unfolding read_block_def BLOCK_SIZE_def
  using assms by (subst pread_Some_iff) auto

lemma zero_blocks_create_hyps:
  assumes "length (image st) = 348160"
    and "\<forall>a<348160. a < 4096 \<or> 69632 \<le> a \<longrightarrow> image st ! a = 0"
  shows "read_block st INODE_BMAP_IDX = Some (replicate 4096 0)"
    "read_block st DATA_BMAP_IDX = Some (replicate 4096 0)"
    "read_block st DATA_START_IDX = Some (replicate 4096 0)"
    "free_inode (replicate 4096 0) = Some 0"
    "free_dirent (replicate 4096 0) = Some 0"
    "read_block st (INODE_START_IDX + 0 div 32) = Some (replicate 4096 0)"
  using assms
  by (simp_all add: read_block_zero free_inode_zero free_dirent_zero INODE_BMAP_IDX_def
      DATA_BMAP_IDX_def DATA_START_IDX_def INODE_START_IDX_def JOURNAL_BLOCK_IDX_def
      JOURNAL_BLOCKS_def INODE_BLOCKS_def)

lemma create_on_zero_blocks:
  assumes len: "length (image st) = 348160"
    and z: "\<forall>a<348160. a < 4096 \<or> 69632 \<le> a \<longrightarrow> image st ! a = 0"
    and jh: "journal_read st 0 JH_SIZE = Some jh"
    and off: "off = (if jh_magic jh \<noteq> JOURNAL_MAGIC then 8 else jh_nbytes_used jh)"
    and room: "unat off + 16420 \<le> 65536"
  shows "\<exists>st'. create_journal st file_name now = Inr st'
     \<and> length (image st') = 348160
     \<and> (\<forall>a<348160. a < 4096 \<or> 69632 \<le> a \<longrightarrow> image st' ! a = 0)
     \<and> journal_read st' 0 JH_SIZE = Some (journal_header JOURNAL_MAGIC (off + 16420))"
proof -
  note h = zero_blocks_create_hyps [OF len z] jh
  obtain st' where st': "create_journal st file_name now = Inr st'"
    using create_journal_success [OF h off] by blast
  have l: "69632 \<le> length (image st)" using len by simp
  note fr = create_journal_frame [OF h off room l st']
  show ?thesis
    using st' fr len z by auto
qed

lemma three_pending_props:
  "creates blank_st [([97], 0), ([98], 0), ([99], 0)] = Inr three_pending"
  "length (image three_pending) = 348160"
  "\<forall>a<348160. a < 4096 \<or> 69632 \<le> a \<longrightarrow> image three_pending ! a = 0"
  "journal_read three_pending 0 JH_SIZE = Some (journal_header JOURNAL_MAGIC 49268)"
proof -
  have l0: "length (image blank_st) = 348160"
    and z0: "\<forall>a<348160. a < 4096 \<or> 69632 \<le> a \<longrightarrow> image blank_st ! a = 0"
    by (simp_all add: blank_st_def geom)
  have o0: "(8 :: u32) = (if jh_magic (replicate 8 0) \<noteq> JOURNAL_MAGIC then 8
       else jh_nbytes_used (replicate 8 0))"
    by (simp add: jh_magic_zero)
  obtain s1 where s1: "create_journal blank_st [97] 0 = Inr s1"
    "length (image s1) = 348160"
    "\<forall>a<348160. a < 4096 \<or> 69632 \<le> a \<longrightarrow> image s1 ! a = 0"
    "journal_read s1 0 JH_SIZE = Some (journal_header JOURNAL_MAGIC 16428)"
    using create_on_zero_blocks [OF l0 z0 journal_read_blank_header o0, of "[97]" 0]
    by auto
  have o1: "(16428 :: u32) = (if jh_magic (journal_header JOURNAL_MAGIC 16428) \<noteq> JOURNAL_MAGIC
       then 8 else jh_nbytes_used (journal_header JOURNAL_MAGIC 16428))"
    by simp
  obtain s2 where s2: "create_journal s1 [98] 0 = Inr s2"
    "length (image s2) = 348160"
    "\<forall>a<348160. a < 4096 \<or> 69632 \<le> a \<longrightarrow> image s2 ! a = 0"
    "journal_read s2 0 JH_SIZE = Some (journal_header JOURNAL_MAGIC 32848)"
    using create_on_zero_blocks [OF s1(2,3,4) o1, of "[98]" 0]
    by auto
  have o2: "(32848 :: u32) = (if jh_magic (journal_header JOURNAL_MAGIC 32848) \<noteq> JOURNAL_MAGIC
       then 8 else jh_nbytes_used (journal_header JOURNAL_MAGIC 32848))"
    by simp
  obtain s3 where s3: "create_journal s2 [99] 0 = Inr s3"
    "length (image s3) = 348160"
    "\<forall>a<348160. a < 4096 \<or> 69632 \<le> a \<longrightarrow> image s3 ! a = 0"
    "journal_read s3 0 JH_SIZE = Some (journal_header JOURNAL_MAGIC 49268)"
    using create_on_zero_blocks [OF s2(2,3,4) o2, of "[99]" 0]
    by auto
  have c: "creates blank_st [([97], 0), ([98], 0), ([99], 0)] = Inr s3"
    by (simp add: s1 s2 s3)
  then have e: "three_pending = s3" by (simp add: three_pending_def)
  show "creates blank_st [([97], 0), ([98], 0), ([99], 0)] = Inr three_pending"
    "length (image three_pending) = 348160"
    "\<forall>a<348160. a < 4096 \<or> 69632 \<le> a \<longrightarrow> image three_pending ! a = 0"
    "journal_read three_pending 0 JH_SIZE = Some (journal_header JOURNAL_MAGIC 49268)"
    unfolding e using c s3 by simp_all
qed

text \<open>
  Claim C2 says every successful create writes inside the journal region only. The code
  has no check of the journal's capacity: when bytes-used has come within one transaction
  of the end of the region, the Commit record (and the tail of the last Data record) is
  written behind the region, into the inode bitmap block. This happens at the fourth
  create on a fresh image when no install ran in between.
\<close>

theorem create_overflows_journal:
  assumes "read_block st INODE_BMAP_IDX = Some ibmap"
    and "read_block st DATA_BMAP_IDX = Some dbmap"
    and "read_block st DATA_START_IDX = Some root_data"
    and "free_inode ibmap = Some inode_idx"
    and "free_dirent root_data = Some slot"
    and "read_block st (INODE_START_IDX + inode_idx div 32) = Some ino_blk"
    and "journal_read st 0 JH_SIZE = Some jh"
    and "off = (if jh_magic jh \<noteq> JOURNAL_MAGIC then 8 else jh_nbytes_used jh)"
    and "JOURNAL_BLOCKS * BLOCK_SIZE \<le> unat off + 16416"
    and "unat off + 16420 < 2 ^ 32"
  shows "\<exists>st'. create_journal st file_name now = Inr st'
     \<and> last (butlast (trace st')) = (4096 + (unat off + 16416), commit_record)
     \<and> INODE_BMAP_IDX * BLOCK_SIZE \<le> 4096 + (unat off + 16416)
     \<and> image st' ! (4096 + (unat off + 16416)) = 2"
proof -
  obtain st' where st': "create_journal st file_name now = Inr st'"
    using create_journal_success [OF assms(1-8)] by blast
  note tr = create_journal_trace [OF assms(1-8) st']
  have u: "unat (off + 16416) = unat off + 16416"
  proof -
    have "unat off + unat (16416 :: u32) < 2 ^ LENGTH(32)" using assms(10) by simp
    then show ?thesis by (simp add: unat_add_lem [THEN iffD1])
  qed
  have t: "last (butlast (trace st')) = (4096 + (unat off + 16416), commit_record)"
    unfolding tr by (simp add: u butlast_append)
  have g: "INODE_BMAP_IDX * BLOCK_SIZE \<le> 4096 + (unat off + 16416)"
    using assms(9) by (simp add: geom)
  define s5 where "s5 = journal_write
                 (journal_write
                   (journal_write
                     (journal_write st off (data_record INODE_BMAP_IDX (set_bitmap ibmap inode_idx)))
                     (off + 4104) (data_record DATA_BMAP_IDX dbmap))
                   (off + 8208)
                   (data_record DATA_START_IDX (put_dirent root_data slot inode_idx file_name)))
                 (off + 12312)
                 (data_record (INODE_START_IDX + inode_idx div 32)
                    (grow_root (init_inode ino_blk (inode_idx mod 32) now) slot))"
  have eq: "st' = journal_write (journal_write s5 (off + 16416) commit_record) 0
                    (journal_header JOURNAL_MAGIC (off + 16420))"
    using st' unfolding create_journal_success [OF assms(1-8)] s5_def by simp
  have lc: "length commit_record = 4" by (simp add: commit_record_def)
  have c0: "commit_record ! 0 = 2" by (simp add: commit_record_def le16_def geom)
  have "image st' ! (4096 + (unat off + 16416)) = 2"
    unfolding eq journal_write_def
    using assms(9) by (simp add: nth_pwrite length_pwrite geom u lc c0)
  with st' t g show ?thesis by (intro exI [of _ st']) simp
qed

theorem create_overflows_journal_witness:
  "creates blank_st [([97], 0), ([98], 0), ([99], 0)] = Inr three_pending
   \<and> read_block three_pending INODE_BMAP_IDX = Some (replicate 4096 0)
   \<and> read_block three_pending DATA_BMAP_IDX = Some (replicate 4096 0)
   \<and> read_block three_pending DATA_START_IDX = Some (replicate 4096 0)
   \<and> free_inode (replicate 4096 0) = Some 0
   \<and> free_dirent (replicate 4096 0) = Some 0
   \<and> read_block three_pending (INODE_START_IDX + 0 div 32) = Some (replicate 4096 0)
   \<and> journal_read three_pending 0 JH_SIZE = Some (journal_header JOURNAL_MAGIC 49268)
   \<and> JOURNAL_BLOCKS * BLOCK_SIZE \<le> unat (49268 :: u32) + 16416
   \<and> image three_pending ! 69780 = 0
   \<and> (\<exists>st'. create_journal three_pending [100] 0 = Inr st'
        \<and> last (butlast (trace st')) = (69780, commit_record)
        \<and> INODE_BMAP_IDX * BLOCK_SIZE \<le> 69780
        \<and> image st' ! 69780 = 2)"
proof -
  note p = three_pending_props
  note h = zero_blocks_create_hyps [OF p(2,3)] p(4)
  have off: "(49268 :: u32) = (if jh_magic (journal_header JOURNAL_MAGIC 49268) \<noteq> JOURNAL_MAGIC
       then 8 else jh_nbytes_used (journal_header JOURNAL_MAGIC 49268))"
    by simp
  have over: "JOURNAL_BLOCKS * BLOCK_SIZE \<le> unat (49268 :: u32) + 16416"
    by (simp add: geom)
  have nw: "unat (49268 :: u32) + 16420 < 2 ^ 32" by simp
  have z: "image three_pending ! 69780 = 0"
    using p(3) by simp
  have c: "\<exists>st'. create_journal three_pending [100] 0 = Inr st'
        \<and> last (butlast (trace st')) = (69780, commit_record)
        \<and> INODE_BMAP_IDX * BLOCK_SIZE \<le> 69780
        \<and> image st' ! 69780 = 2"
    using create_overflows_journal [OF h off over nw, of "[100]" 0] by simp
  show ?thesis by (intro conjI) (rule p(1) h over z c)+
qed

section \<open>The root directory's size (C3)\<close>

lemma st32_create_hyps:
  "read_block st32 INODE_BMAP_IDX = Some (replicate 4 255 @ replicate 4092 0)"
  "read_block st32 DATA_BMAP_IDX = Some (replicate 4096 0)"
  "read_block st32 DATA_START_IDX = Some (replicate 4096 0)"
  "free_inode (replicate 4 255 @ replicate 4092 0) = Some 32"
  "free_dirent (replicate 4096 0) = Some 0"
  "read_block st32 (INODE_START_IDX + 32 div 32) = Some (replicate 4096 0)"
  "journal_read st32 0 JH_SIZE = Some (replicate 8 0)"
proof -
  show "read_block st32 INODE_BMAP_IDX = Some (replicate 4 255 @ replicate 4092 0)"
    by (simp add: read_block_def pread_def st32_def geom)
  show "read_block st32 DATA_BMAP_IDX = Some (replicate 4096 0)"
    by (simp add: read_block_def pread_def st32_def geom)
  show "read_block st32 DATA_START_IDX = Some (replicate 4096 0)"
    by (simp add: read_block_def pread_def st32_def geom)
  show "read_block st32 (INODE_START_IDX + 32 div 32) = Some (replicate 4096 0)"
    by (simp add: read_block_def pread_def st32_def geom)
  show "journal_read st32 0 JH_SIZE = Some (replicate 8 0)"
    by (simp add: journal_read_def pread_def st32_def geom)
  show "free_dirent (replicate 4096 0) = Some 0"
    by (rule free_dirent_zero)
  have "bit ((replicate 4 (255::u8) @ replicate 4092 0) ! (j div 8)) (j mod 8)" if "j < 32" for j
  proof -
    from that have "j div 8 < 4" by simp
    then have "(replicate 4 (255::u8) @ replicate 4092 0) ! (j div 8) = 255"
      by (simp add: nth_append)
    moreover have "bit (255 :: u8) (j mod 8)" by (rule bit_255) simp
    ultimately show ?thesis by (simp only:)
  qed
  then show "free_inode (replicate 4 255 @ replicate 4092 0) = Some 32"
    unfolding free_inode_Some_iff by (simp add: nth_append)
qed

text \<open>
  Claim C3 says every successful create grows the size field of inode 0. When the
  allocated inode lies in the second inode table block (index 32 or more), the four Data
  records target blocks 17, 18, 21 and 20: block 19, which holds inode 0, is not logged,
  and the size \<open>(slot + 1) * 32\<close> is stored in the first inode of block 20 instead.
\<close>

theorem create_root_size_in_wrong_block:
  assumes "read_block st INODE_BMAP_IDX = Some ibmap"
    and "read_block st DATA_BMAP_IDX = Some dbmap"
    and "read_block st DATA_START_IDX = Some root_data"
    and "free_inode ibmap = Some inode_idx"
    and "free_dirent root_data = Some slot"
    and "read_block st (INODE_START_IDX + inode_idx div 32) = Some ino_blk"
    and "journal_read st 0 JH_SIZE = Some jh"
    and "32 \<le> inode_idx"
  shows "\<exists>st'. create_journal st file_name now = Inr st'
     \<and> map (\<lambda>w. dr_block_no (snd w)) (take 4 (drop (length (trace st)) (trace st')))
         = [17, 18, 21, 20]
     \<and> of_nat ((slot + 1) * DIRENT_SIZE)
         \<le> rd32 (take 4 (drop 4 (dr_data (snd (trace st' ! (length (trace st) + 3))))))"
proof -
  obtain st' where st': "create_journal st file_name now = Inr st'"
    using create_journal_success [OF assms(1-7) refl] by blast
  note tr = create_journal_trace [OF assms(1-7) refl st']
  have "inode_idx < 64" using assms(4) by (simp add: free_inode_Some_iff)
  with assms(8) have d: "inode_idx div 32 = 1" by simp
  have l: "length (grow_root (init_inode ino_blk (inode_idx mod 32) now) slot) = 4096"
    using create_journal_blocks_length [OF assms(1-6)] by simp
  have "trace st' ! (length (trace st) + 3) = (drop (length (trace st)) (trace st')) ! 3"
    unfolding tr by (simp add: nth_append)
  also have "\<dots> = (4096 + unat ((if jh_magic jh \<noteq> JOURNAL_MAGIC then 8 else jh_nbytes_used jh) + 12312),
           data_record (INODE_START_IDX + inode_idx div 32)
             (grow_root (init_inode ino_blk (inode_idx mod 32) now) slot))"
    unfolding tr by simp
  finally have w3: "dr_data (snd (trace st' ! (length (trace st) + 3)))
      = grow_root (init_inode ino_blk (inode_idx mod 32) now) slot"
    using l by (simp add: BLOCK_SIZE_def)
  have tg: "map (\<lambda>w. dr_block_no (snd w)) (take 4 (drop (length (trace st)) (trace st')))
         = [17, 18, 21, 20]"
    unfolding tr by (simp add: d geom)
  have sz: "of_nat ((slot + 1) * DIRENT_SIZE)
         \<le> rd32 (take 4 (drop 4 (dr_data (snd (trace st' ! (length (trace st) + 3))))))"
  proof -
    have "length (init_inode ino_blk (inode_idx mod 32) now) = 4096"
      using read_block_length [OF assms(6)] by (simp add: length_init_inode)
    then show ?thesis unfolding w3 by (intro grow_root_size) simp
  qed
  show ?thesis by (rule exI [of _ st']) (intro conjI st' tg sz)
qed

theorem create_root_size_in_wrong_block_witness:
  "read_block st32 INODE_BMAP_IDX = Some (replicate 4 255 @ replicate 4092 0)
   \<and> read_block st32 DATA_BMAP_IDX = Some (replicate 4096 0)
   \<and> read_block st32 DATA_START_IDX = Some (replicate 4096 0)
   \<and> free_inode (replicate 4 255 @ replicate 4092 0) = Some 32
   \<and> free_dirent (replicate 4096 0) = Some 0
   \<and> read_block st32 (INODE_START_IDX + 32 div 32) = Some (replicate 4096 0)
   \<and> journal_read st32 0 JH_SIZE = Some (replicate 8 0)
   \<and> (32 :: nat) \<le> 32
   \<and> (\<exists>st'. create_journal st32 [97] 0 = Inr st'
        \<and> map (\<lambda>w. dr_block_no (snd w)) (take 4 (trace st')) = [17, 18, 21, 20]
        \<and> 32 \<le> rd32 (take 4 (drop 4 (dr_data (snd (trace st' ! 3))))))"
proof -
  note h = st32_create_hyps
  have le: "(32 :: nat) \<le> 32" by simp
  have tr: "trace st32 = []" by (simp add: st32_def)
  have c: "\<exists>st'. create_journal st32 [97] 0 = Inr st'
        \<and> map (\<lambda>w. dr_block_no (snd w)) (take 4 (trace st')) = [17, 18, 21, 20]
        \<and> 32 \<le> rd32 (take 4 (drop 4 (dr_data (snd (trace st' ! 3)))))"
    using create_root_size_in_wrong_block [OF h le, of "[97]" 0]
    unfolding tr list.size add_0 drop_0 by (simp add: DIRENT_SIZE_def)
  show ?thesis by (intro conjI) (rule h le c)+
qed

section \<open>Install and the bytes behind bytes-used (C4)\<close>

declare wf_from.simps [simp del]

lemma length_log_of:
  "used \<le> 65536 \<Longrightarrow> 69632 \<le> length (image st) \<Longrightarrow> length (log_of st used) = used"
  by (simp add: log_of_def geom)

lemma nth_log_of:
  "i < used \<Longrightarrow> used \<le> 65536 \<Longrightarrow> 69632 \<le> length (image st) \<Longrightarrow>
   log_of st used ! i = image st ! (4096 + i)"
  by (simp add: log_of_def geom)

lemma unat_of_nat_u32: "n \<le> 65536 \<Longrightarrow> unat (of_nat n :: u32) = n"
  by (simp add: unat_of_nat)

lemma of_nat_less_u32: "m \<le> 65536 \<Longrightarrow> n \<le> 65536 \<Longrightarrow> (of_nat m :: u32) < of_nat n \<longleftrightarrow> m < n"
  by (simp add: word_less_nat_alt unat_of_nat_u32)

lemma journal_read_log:
  assumes "off + n \<le> used" and "used \<le> 65536" and "69632 \<le> length (image st)"
  shows "journal_read st (of_nat off) n = Some (take n (drop off (log_of st used)))"
proof -
  have u: "unat (of_nat off :: u32) = off" using assms by (simp add: unat_of_nat_u32)
  have "take n (drop off (log_of st used)) = take n (drop (4096 + off) (image st))"
    using assms by (simp add: log_of_def geom drop_take min_def add.commute)
  then show ?thesis
    using assms by (simp add: journal_read_def pread_def u geom)
qed

lemma agree_pwrite:
  assumes "agree_off_tail used st1 st2"
  shows "agree_off_tail used (pwrite st1 off buf) (pwrite st2 off buf)"
  using assms unfolding agree_off_tail_def
  by (auto simp: length_pwrite nth_pwrite)

lemma agree_put_block:
  "agree_off_tail used st1 st2 \<Longrightarrow>
   agree_off_tail used (put_block st1 bn buf) (put_block st2 bn buf)"
  by (simp add: put_block_def agree_pwrite)

lemma agree_log_of:
  assumes "agree_off_tail used st1 st2" and "used \<le> 65536" and "69632 \<le> length (image st1)"
  shows "log_of st2 used = log_of st1 used"
proof (rule nth_equalityI)
  have l: "length (image st2) = length (image st1)"
    using assms(1) by (simp add: agree_off_tail_def)
  show "length (log_of st2 used) = length (log_of st1 used)"
    using assms l by (simp add: length_log_of)
  fix i assume "i < length (log_of st2 used)"
  then have i: "i < used" using assms l by (simp add: length_log_of)
  then show "log_of st2 used ! i = log_of st1 used ! i"
    using assms l by (simp add: nth_log_of agree_off_tail_def geom)
qed

lemma agree_journal_read_header:
  assumes "agree_off_tail used st1 st2" and "8 \<le> used"
  shows "journal_read st2 0 JH_SIZE = journal_read st1 0 JH_SIZE"
  unfolding journal_read_def
  using assms by (intro pread_cong) (simp_all add: agree_off_tail_def geom)

lemma put_block_real:
  assumes "real_block bn" and "length buf = 4096" and "69632 \<le> length (image st)"
    and "used \<le> 65536"
  shows "log_of (put_block st bn buf) used = log_of st used"
    and "69632 \<le> length (image (put_block st bn buf))"
proof -
  have ne: "take BLOCK_SIZE buf \<noteq> []" using assms(2) by (auto simp: geom)
  show l: "69632 \<le> length (image (put_block st bn buf))"
    using assms ne by (simp add: put_block_def length_pwrite)
  show "log_of (put_block st bn buf) used = log_of st used"
  proof (rule nth_equalityI)
    show "length (log_of (put_block st bn buf) used) = length (log_of st used)"
      using assms l by (simp add: length_log_of)
    fix i assume "i < length (log_of (put_block st bn buf) used)"
    then have i: "i < used" using assms l by (simp add: length_log_of)
    have "bn = 0 \<or> 17 \<le> bn" using assms(1) by (auto simp: real_block_def geom)
    then show "log_of (put_block st bn buf) used ! i = log_of st used ! i"
      using assms l i
      by (auto simp: nth_log_of put_block_def nth_pwrite length_pwrite geom)
  qed
qed

lemma wf_from_commit_prefix:
  assumes "off + 4 \<le> length log"
    and "rh_type (take RH_SIZE (drop off log)) = REC_COMMIT"
    and "unat (rh_size (take RH_SIZE (drop off log))) = CR_SIZE"
  shows "wf_from (take (off + 4) log) off"
proof -
  have e: "wf_from (take (off + 4) log) (off + 4)"
    using assms(1) by (subst wf_from.simps) simp
  have h: "take RH_SIZE (drop off (take (off + 4) log)) = take RH_SIZE (drop off log)"
    by (rule take_drop_prefix) (simp add: geom)
  show ?thesis
    unfolding wf_from.simps [of "take (off + 4) log" off] h
    using assms e by (simp add: geom)
qed

lemma wf_from_data_prefix:
  assumes "off + 4104 < e" and "e \<le> length log"
    and "rh_type (take RH_SIZE (drop off log)) = REC_DATA"
    and "unat (rh_size (take RH_SIZE (drop off log))) = DR_SIZE"
    and "real_block (unat (dr_block_no (take DR_SIZE (drop off log))))"
    and "wf_from (take e log) (off + 4104)"
  shows "wf_from (take e log) off"
proof -
  have h: "take RH_SIZE (drop off (take e log)) = take RH_SIZE (drop off log)"
    by (rule take_drop_prefix) (use assms(1) in \<open>simp add: geom\<close>)
  have d: "take DR_SIZE (drop off (take e log)) = take DR_SIZE (drop off log)"
    by (rule take_drop_prefix) (use assms(1) in \<open>simp add: geom\<close>)
  show ?thesis
    unfolding wf_from.simps [of "take e log" off] h d
    using assms by (simp add: geom)
qed

lemma wf_from_cases:
  assumes "wf_from log off" and "off < length log"
  obtains (commit) "off + 4 \<le> length log"
      "rh_type (take RH_SIZE (drop off log)) = REC_COMMIT"
      "unat (rh_size (take RH_SIZE (drop off log))) = CR_SIZE"
      "wf_from log (off + 4)"
  | (data) "off + 4104 \<le> length log"
      "rh_type (take RH_SIZE (drop off log)) = REC_DATA"
      "unat (rh_size (take RH_SIZE (drop off log))) = DR_SIZE"
      "real_block (unat (dr_block_no (take DR_SIZE (drop off log))))"
      "wf_from log (off + 4104)"
proof -
  note wf = assms(1) [unfolded wf_from.simps [of log off]]
  have n: "\<not> length log \<le> off" "\<not> length log < off + RH_SIZE"
    using wf assms(2) by (auto split: if_splits)
  show ?thesis
  proof (cases "rh_type (take RH_SIZE (drop off log)) = REC_COMMIT
               \<and> unat (rh_size (take RH_SIZE (drop off log))) = CR_SIZE")
    case True
    then show ?thesis using wf n by (intro commit) (simp_all add: geom)
  next
    case False
    then have "rh_type (take RH_SIZE (drop off log)) = REC_DATA
               \<and> unat (rh_size (take RH_SIZE (drop off log))) = DR_SIZE
               \<and> off + DR_SIZE \<le> length log
               \<and> real_block (unat (dr_block_no (take DR_SIZE (drop off log))))
               \<and> wf_from log (off + DR_SIZE)"
      using wf n by (simp split: if_splits)
    then show ?thesis by (intro data) (simp_all add: geom)
  qed
qed

lemma wf_from_end: "wf_from log off \<Longrightarrow> length log \<le> off \<Longrightarrow> off = length log"
  by (subst (asm) wf_from.simps) simp

lemma scan_tx_wf:
  assumes l1: "log_of st1 used = log" and l2: "log_of st2 used = log"
    and u: "used \<le> 65536"
    and len1: "69632 \<le> length (image st1)" and len2: "69632 \<le> length (image st2)"
  shows "wf_from log off \<Longrightarrow>
     \<exists>e b. scan_tx st1 (of_nat used) (of_nat off) = Some (Inr (of_nat e, b))
         \<and> scan_tx st2 (of_nat used) (of_nat off) = Some (Inr (of_nat e, b))
         \<and> e \<le> used
         \<and> (b \<longrightarrow> off < e \<and> wf_from (take e log) off \<and> wf_from log e)
         \<and> (\<not> b \<longrightarrow> e = used)"
proof (induction "used - off" arbitrary: off rule: less_induct)
  case less
  have ll: "length log = used" using l1 u len1 length_log_of by blast
  show ?case
  proof (cases "used \<le> off")
    case True
    have e: "off = used" using wf_from_end [OF less.prems] True ll by simp
    have "\<not> (of_nat off :: u32) < of_nat used" using e by simp
    then have "scan_tx st1 (of_nat used) (of_nat off) = Some (Inr (of_nat off, False))"
      "scan_tx st2 (of_nat used) (of_nat off) = Some (Inr (of_nat off, False))"
      by (simp_all add: scan_tx_end)
    then show ?thesis using e by (intro exI [of _ off] exI [of _ False]) simp
  next
    case False
    then have lt: "off < length log" using ll by simp
    define rh where "rh = take RH_SIZE (drop off log)"
    have g: "(of_nat off :: u32) < of_nat used"
      using lt ll u by (simp add: of_nat_less_u32)
    from less.prems lt show ?thesis
    proof (cases rule: wf_from_cases)
      case commit
      have o4: "off + RH_SIZE \<le> used" using commit(1) ll by (simp add: geom)
      have r1: "journal_read st1 (of_nat off) RH_SIZE = Some rh"
        using journal_read_log [OF o4 u len1] l1 by (simp add: rh_def)
      have r2: "journal_read st2 (of_nat off) RH_SIZE = Some rh"
        using journal_read_log [OF o4 u len2] l2 by (simp add: rh_def)
      have c: "rh_type rh = REC_COMMIT" "unat (rh_size rh) = 4"
        using commit(2,3) by (simp_all add: rh_def geom)
      note s = scan_tx_step_commit [OF g r1 c] scan_tx_step_commit [OF g r2 c]
      have p: "wf_from (take (off + 4) log) off"
        using commit(1-3) by (rule wf_from_commit_prefix)
      show ?thesis
        using s p commit(4) o4
        by (intro exI [of _ "off + 4"] exI [of _ True]) (simp add: geom)
    next
      case data
      have o4: "off + RH_SIZE \<le> used" using data(1) ll by (simp add: geom)
      have r1: "journal_read st1 (of_nat off) RH_SIZE = Some rh"
        using journal_read_log [OF o4 u len1] l1 by (simp add: rh_def)
      have r2: "journal_read st2 (of_nat off) RH_SIZE = Some rh"
        using journal_read_log [OF o4 u len2] l2 by (simp add: rh_def)
      have c: "rh_type rh \<noteq> REC_COMMIT" "unat (rh_size rh) = 4104"
        using data(2,3) by (simp_all add: rh_def geom)
      note s = scan_tx_step_other [OF g r1 c] scan_tx_step_other [OF g r2 c]
      have m: "used - (off + 4104) < used - off" using lt ll by simp
      from less.hyps [OF m data(5)] obtain e b where eb:
        "scan_tx st1 (of_nat used) (of_nat (off + 4104)) = Some (Inr (of_nat e, b))"
        "scan_tx st2 (of_nat used) (of_nat (off + 4104)) = Some (Inr (of_nat e, b))"
        "e \<le> used"
        "b \<longrightarrow> off + 4104 < e \<and> wf_from (take e log) (off + 4104) \<and> wf_from log e"
        "\<not> b \<longrightarrow> e = used"
        by (elim exE conjE)
      have "b \<longrightarrow> off < e \<and> wf_from (take e log) off \<and> wf_from log e"
      proof
        assume b
        with eb(4) have x: "off + 4104 < e" "wf_from (take e log) (off + 4104)" "wf_from log e"
          by simp_all
        have "wf_from (take e log) off"
          using x(1) eb(3) [folded ll] data(2-4) x(2) by (rule wf_from_data_prefix)
        with x show "off < e \<and> wf_from (take e log) off \<and> wf_from log e" by simp
      qed
      then show ?thesis
        using s eb(1-3,5) by (intro exI [of _ e] exI [of _ b]) simp
    qed
  qed
qed

lemma apply_tx_wf:
  assumes u: "used \<le> 65536" and e: "e \<le> used"
  shows "wf_from (take e log) p \<Longrightarrow> log_of st1 used = log \<Longrightarrow> log_of st2 used = log \<Longrightarrow>
     agree_off_tail used st1 st2 \<Longrightarrow> 69632 \<le> length (image st1) \<Longrightarrow>
     \<exists>st1' st2'. apply_tx env st1 (of_nat p) (of_nat e) = Some (Inr st1')
         \<and> apply_tx env' st2 (of_nat p) (of_nat e) = Some (Inr st2')
         \<and> log_of st1' used = log \<and> log_of st2' used = log
         \<and> agree_off_tail used st1' st2' \<and> 69632 \<le> length (image st1')"
proof (induction "e - p" arbitrary: p st1 st2 rule: less_induct)
  case less
  note wf = less.prems(1) and l1 = less.prems(2) and l2 = less.prems(3)
    and ag = less.prems(4) and len1 = less.prems(5)
  have len2: "69632 \<le> length (image st2)"
    using ag len1 by (simp add: agree_off_tail_def)
  have ll: "length log = used" using l1 u len1 length_log_of by blast
  have le: "length (take e log) = e" using ll e by simp
  show ?case
  proof (cases "e \<le> p")
    case True
    have "p = e" using wf_from_end [OF wf] True le by simp
    then have "\<not> (of_nat p :: u32) < of_nat e" by simp
    then have "apply_tx env st1 (of_nat p) (of_nat e) = Some (Inr st1)"
      "apply_tx env' st2 (of_nat p) (of_nat e) = Some (Inr st2)"
      by (simp_all add: apply_tx_end)
    then show ?thesis
      using l1 l2 ag len1 by (intro exI [of _ st1] exI [of _ st2]) simp
  next
    case False
    then have lt: "p < length (take e log)" using le by simp
    have g: "(of_nat p :: u32) < of_nat e"
      using False e u by (simp add: of_nat_less_u32)
    define rh where "rh = take RH_SIZE (drop p log)"
    from wf lt show ?thesis
    proof (cases rule: wf_from_cases)
      case commit
      have p4: "p + RH_SIZE \<le> e" using commit(1) le by (simp add: geom)
      then have o4: "p + RH_SIZE \<le> used" using e by simp
      have h: "take RH_SIZE (drop p (take e log)) = rh"
        unfolding rh_def using p4 by (rule take_drop_prefix)
      have r1: "journal_read st1 (of_nat p) RH_SIZE = Some rh"
        using journal_read_log [OF o4 u len1] l1 by (simp add: rh_def)
      have r2: "journal_read st2 (of_nat p) RH_SIZE = Some rh"
        using journal_read_log [OF o4 u len2] l2 by (simp add: rh_def)
      have c: "rh_type rh \<noteq> REC_DATA" "unat (rh_size rh) = 4"
        using commit(2,3) unfolding h by (simp_all add: geom)
      note s = apply_tx_step_other [OF g r1 c] apply_tx_step_other [OF g r2 c]
      have m: "e - (p + 4) < e - p" using False by simp
      show ?thesis
        unfolding s using less.hyps [OF m commit(4) l1 l2 ag len1] .
    next
      case data
      have p4: "p + RH_SIZE \<le> e" and pd: "p + DR_SIZE \<le> e"
        using data(1) le by (simp_all add: geom)
      then have o4: "p + RH_SIZE \<le> used" and od: "p + DR_SIZE \<le> used"
        using e by simp_all
      define dr where "dr = take DR_SIZE (drop p log)"
      have h: "take RH_SIZE (drop p (take e log)) = rh"
        unfolding rh_def using p4 by (rule take_drop_prefix)
      have d: "take DR_SIZE (drop p (take e log)) = dr"
        unfolding dr_def using pd by (rule take_drop_prefix)
      have r1: "journal_read st1 (of_nat p) RH_SIZE = Some rh"
        using journal_read_log [OF o4 u len1] l1 by (simp add: rh_def)
      have r2: "journal_read st2 (of_nat p) RH_SIZE = Some rh"
        using journal_read_log [OF o4 u len2] l2 by (simp add: rh_def)
      have d1: "journal_read st1 (of_nat p) DR_SIZE = Some dr"
        using journal_read_log [OF od u len1] l1 by (simp add: dr_def)
      have d2: "journal_read st2 (of_nat p) DR_SIZE = Some dr"
        using journal_read_log [OF od u len2] l2 by (simp add: dr_def)
      have c: "rh_type rh = REC_DATA" "unat (rh_size rh) = DR_SIZE"
        using data(2,3) unfolding h by simp_all
      have rb: "real_block (unat (dr_block_no dr))"
        using data(4) unfolding d .
      have ld: "length (dr_data dr) = 4096"
        using od ll by (simp add: dr_data_def dr_def geom)
      have fb: "unat (dr_block_no dr) < 2 ^ 20"
        using rb by (simp add: real_block_def geom)
      note s = apply_tx_step_data [OF g r1 c d1 fb] apply_tx_step_data [OF g r2 c d2 fb]
      let ?s1 = "put_block st1 (unat (dr_block_no dr)) (dr_data dr)"
      let ?s2 = "put_block st2 (unat (dr_block_no dr)) (dr_data dr)"
      have n1: "log_of ?s1 used = log" "69632 \<le> length (image ?s1)"
        using put_block_real [OF rb ld len1 u] l1 by simp_all
      have n2: "log_of ?s2 used = log"
        using put_block_real [OF rb ld len2 u] l2 by simp
      have na: "agree_off_tail used ?s1 ?s2"
        using ag by (rule agree_put_block)
      have m: "e - (p + 4104) < e - p" using False by simp
      have w: "wf_from (take e log) (p + 4104)" using data(5) .
      show ?thesis
        unfolding s using less.hyps [OF m w n1(1) n2 na n1(2)] by (simp add: geom)
    qed
  qed
qed

lemma install_loop_wf:
  assumes u: "used \<le> 65536"
  shows "wf_from log off \<Longrightarrow> log_of st1 used = log \<Longrightarrow> log_of st2 used = log \<Longrightarrow>
     agree_off_tail used st1 st2 \<Longrightarrow> 69632 \<le> length (image st1) \<Longrightarrow>
     \<exists>st1' st2' n. install_loop env st1 (of_nat used) cap (of_nat off) c = Some (Inr (st1', n))
         \<and> install_loop env' st2 (of_nat used) cap (of_nat off) c = Some (Inr (st2', n))
         \<and> agree_off_tail used st1' st2'"
proof (induction "used - off" arbitrary: off st1 st2 c rule: less_induct)
  case less
  note wf = less.prems(1) and l1 = less.prems(2) and l2 = less.prems(3)
    and ag = less.prems(4) and len1 = less.prems(5)
  have len2: "69632 \<le> length (image st2)"
    using ag len1 by (simp add: agree_off_tail_def)
  have ll: "length log = used" using l1 u len1 length_log_of by blast
  show ?case
  proof (cases "(of_nat off :: u32) < of_nat used \<and> (cap < 0 \<or> sint c < cap)")
    case False
    then have "install_loop env st1 (of_nat used) cap (of_nat off) c = Some (Inr (st1, c))"
      "install_loop env' st2 (of_nat used) cap (of_nat off) c = Some (Inr (st2, c))"
      by (simp_all add: install_loop_exit)
    then show ?thesis
      using ag by (intro exI [of _ st1] exI [of _ st2] exI [of _ c]) simp
  next
    case True
    then have g: "(of_nat off :: u32) < of_nat used" and cp: "cap < 0 \<or> sint c < cap"
      by simp_all
    have lt: "off < used"
    proof (rule ccontr)
      assume "\<not> off < used"
      then have "off = used" using wf_from_end [OF wf] ll by simp
      with g show False by simp
    qed
    from scan_tx_wf [OF l1 l2 u len1 len2 wf] obtain e b where eb:
      "scan_tx st1 (of_nat used) (of_nat off) = Some (Inr (of_nat e, b))"
      "scan_tx st2 (of_nat used) (of_nat off) = Some (Inr (of_nat e, b))"
      "e \<le> used"
      "b \<longrightarrow> off < e \<and> wf_from (take e log) off \<and> wf_from log e"
      by (elim exE conjE)
    show ?thesis
    proof (cases b)
      case False
      have "install_loop env st1 (of_nat used) cap (of_nat off) c = Some (Inr (st1, c))"
        "install_loop env' st2 (of_nat used) cap (of_nat off) c = Some (Inr (st2, c))"
        using eb(1,2) False by (simp_all add: install_loop_no_commit)
      then show ?thesis
        using ag by (intro exI [of _ st1] exI [of _ st2] exI [of _ c]) simp
    next
      case True
      with eb(4) have x: "off < e" "wf_from (take e log) off" "wf_from log e" by simp_all
      from apply_tx_wf [OF u eb(3) x(2) l1 l2 ag len1, where env = env and env' = env']
      obtain t1 t2 where t:
        "apply_tx env st1 (of_nat off) (of_nat e) = Some (Inr t1)"
        "apply_tx env' st2 (of_nat off) (of_nat e) = Some (Inr t2)"
        "log_of t1 used = log" "log_of t2 used = log"
        "agree_off_tail used t1 t2" "69632 \<le> length (image t1)"
        by (elim exE conjE)
      have s: "install_loop env st1 (of_nat used) cap (of_nat off) c
               = install_loop env t1 (of_nat used) cap (of_nat e) (c + 1)"
        "install_loop env' st2 (of_nat used) cap (of_nat off) c
               = install_loop env' t2 (of_nat used) cap (of_nat e) (c + 1)"
        using eb(1,2) True t(1,2) g cp by (simp_all add: install_loop_step)
      have m: "used - e < used - off" using x(1) eb(3) by simp
      show ?thesis
        unfolding s using less.hyps [OF m x(3) t(3-6)] .
    qed
  qed
qed

lemma length_one_tx_image [simp]: "length (one_tx_image used) = 348160"
  by (simp add: one_tx_image_def)

lemma one_tx_image_reads:
  "take 8 (drop 4096 (one_tx_image used)) = journal_header JOURNAL_MAGIC used"
  "take 4 (drop 4104 (one_tx_image used)) = le16 REC_DATA @ le16 (of_nat DR_SIZE)"
  "take 4104 (drop 4104 (one_tx_image used)) = data_record 30 (replicate 4096 170)"
  "take 4 (drop 8208 (one_tx_image used)) = commit_record"
  by (simp_all add: one_tx_image_def data_record_def geom)

lemma log_of_one_tx:
  "log_of \<lparr>image = one_tx_image used, trace = t\<rparr> 4116
     = journal_header JOURNAL_MAGIC used @ data_record 30 (replicate 4096 170) @ commit_record"
  by (simp add: log_of_def geom one_tx_image_def)

lemma wf_one_tx:
  "wf_from (journal_header JOURNAL_MAGIC used @ data_record 30 (replicate 4096 170)
            @ commit_record) 8"
proof -
  let ?log = "journal_header JOURNAL_MAGIC used @ data_record 30 (replicate 4096 170)
            @ commit_record"
  have l: "length ?log = 4116" by simp
  have e: "wf_from ?log 4116"
    by (subst wf_from.simps) simp
  have h2: "take RH_SIZE (drop 4112 ?log) = commit_record"
    by (simp add: geom)
  have c: "wf_from ?log 4112"
    unfolding wf_from.simps [of ?log 4112] h2 l
    using e by (simp add: geom)
  have h1: "take RH_SIZE (drop 8 ?log) = le16 REC_DATA @ le16 (of_nat DR_SIZE)"
    by (simp add: geom data_record_def)
  have d1: "take DR_SIZE (drop 8 ?log) = data_record 30 (replicate 4096 170)"
    by (simp add: geom)
  show ?thesis
    unfolding wf_from.simps [of ?log 8] h1 d1 l
    using c by (simp add: geom rh_type_def rh_size_def real_block_def)
qed

lemma one_tx_hyps:
  "journal_read one_tx_st 0 JH_SIZE = Some (journal_header JOURNAL_MAGIC 4116)"
  "jh_magic (journal_header JOURNAL_MAGIC 4116) = JOURNAL_MAGIC"
  "(4116::nat) = unat (jh_nbytes_used (journal_header JOURNAL_MAGIC 4116))"
  "JH_SIZE \<le> 4116"
  "4116 \<le> JOURNAL_BLOCKS * BLOCK_SIZE"
  "INODE_BMAP_IDX * BLOCK_SIZE \<le> length (image one_tx_st)"
  "wf_from (log_of one_tx_st 4116) JH_SIZE"
  "agree_off_tail 4116 one_tx_st one_tx_tail_st"
proof -
  show "journal_read one_tx_st 0 JH_SIZE = Some (journal_header JOURNAL_MAGIC 4116)"
    by (simp add: journal_read_def pread_def one_tx_st_def one_tx_image_reads geom)
  show "jh_magic (journal_header JOURNAL_MAGIC 4116) = JOURNAL_MAGIC" by simp
  show "(4116::nat) = unat (jh_nbytes_used (journal_header JOURNAL_MAGIC 4116))" by simp
  show "JH_SIZE \<le> 4116" "4116 \<le> JOURNAL_BLOCKS * BLOCK_SIZE"
    "INODE_BMAP_IDX * BLOCK_SIZE \<le> length (image one_tx_st)"
    by (simp_all add: geom one_tx_st_def)
  show "wf_from (log_of one_tx_st 4116) JH_SIZE"
    unfolding one_tx_st_def log_of_one_tx JH_SIZE_def by (rule wf_one_tx)
  show "agree_off_tail 4116 one_tx_st one_tx_tail_st"
    by (simp add: agree_off_tail_def one_tx_st_def one_tx_tail_st_def geom)
qed

lemma straddle1_reads:
  "journal_read straddle_st1 0 JH_SIZE = Some (journal_header JOURNAL_MAGIC 4113)"
  "journal_read straddle_st1 (of_nat 8) RH_SIZE = Some (le16 REC_DATA @ le16 (of_nat DR_SIZE))"
  "journal_read straddle_st1 (of_nat 8) DR_SIZE = Some (data_record 30 (replicate 4096 170))"
  "journal_read straddle_st1 (of_nat 4112) RH_SIZE = Some commit_record"
  by (simp_all add: journal_read_def pread_def straddle_st1_def one_tx_image_reads geom)

lemma straddle2_reads:
  "journal_read straddle_st2 0 JH_SIZE = Some (journal_header JOURNAL_MAGIC 4113)"
  "journal_read straddle_st2 (of_nat 8) RH_SIZE = Some (le16 REC_DATA @ le16 (of_nat DR_SIZE))"
  "journal_read straddle_st2 (of_nat 4112) RH_SIZE = Some (commit_record[1 := 1])"
  by (simp_all add: journal_read_def pread_def straddle_st2_def take_drop_update
      one_tx_image_reads geom)

lemma rec_header_fields:
  "rh_type (le16 REC_DATA @ le16 (of_nat DR_SIZE)) = REC_DATA"
  "unat (rh_size (le16 REC_DATA @ le16 (of_nat DR_SIZE))) = DR_SIZE"
  "rh_type (commit_record[1 := 1]) \<noteq> REC_COMMIT"
  "unat (rh_size (commit_record[1 := 1])) = 4"
  "unat (rh_size commit_record) = 4"
  by (simp_all add: rh_type_def rh_size_def commit_record_def le16_def rd16_def geom)

lemma install_straddle1:
  "install_journal env straddle_st1 (- 1)
     = Some (Inr (journal_write (put_block straddle_st1 30 (replicate 4096 170)) 0
                    (journal_header JOURNAL_MAGIC 8), 1))"
proof -
  let ?s = "put_block straddle_st1 30 (replicate 4096 170)"
  have g: "(of_nat 8 :: u32) < of_nat 4113" "(of_nat 4112 :: u32) < of_nat 4113"
    "(of_nat 8 :: u32) < of_nat 4116" "(of_nat 4112 :: u32) < of_nat 4116"
    "\<not> (of_nat 4116 :: u32) < of_nat 4116"
    by simp_all
  have nc: "rh_type (le16 REC_DATA @ le16 (of_nat DR_SIZE)) \<noteq> REC_COMMIT"
    "rh_type commit_record \<noteq> REC_DATA"
    unfolding rec_header_fields(1) rh_type_commit_record
    by (simp_all add: REC_DATA_def REC_COMMIT_def)
  have "scan_tx straddle_st1 (of_nat 4113) (of_nat 8)
        = scan_tx straddle_st1 (of_nat 4113) (of_nat (8 + DR_SIZE))"
    by (rule scan_tx_step_other [OF g(1) straddle1_reads(2) nc(1) rec_header_fields(2)])
  also have "\<dots> = Some (Inr (of_nat (4112 + 4), True))"
    using scan_tx_step_commit [OF g(2) straddle1_reads(4) rh_type_commit_record
        rec_header_fields(5)]
    by (simp add: geom)
  finally have sc: "scan_tx straddle_st1 4113 8 = Some (Inr (4116, True))" by simp
  have r: "journal_read ?s (of_nat 4112) RH_SIZE = Some commit_record"
    using straddle1_reads(4)
    by (simp add: journal_read_def put_block_def pread_pwrite_disjoint straddle_st1_def geom)
  have "apply_tx env straddle_st1 (of_nat 8) (of_nat 4116)
        = apply_tx env (put_block straddle_st1
             (unat (dr_block_no (data_record 30 (replicate 4096 170))))
             (dr_data (data_record 30 (replicate 4096 170)))) (of_nat (8 + DR_SIZE)) (of_nat 4116)"
    by (rule apply_tx_step_data [OF g(3) straddle1_reads(2) rec_header_fields(1,2)
          straddle1_reads(3)]) simp
  also have "\<dots> = apply_tx env ?s (of_nat 4112) (of_nat 4116)"
    by (simp add: geom)
  also have "\<dots> = apply_tx env ?s (of_nat (4112 + 4)) (of_nat 4116)"
    by (rule apply_tx_step_other [OF g(4) r nc(2) rec_header_fields(5)])
  also have "\<dots> = Some (Inr ?s)"
    using apply_tx_end [OF g(5)] by simp
  finally have ap: "apply_tx env straddle_st1 8 4116 = Some (Inr ?s)" by simp
  have "install_loop env straddle_st1 4113 (- 1) 8 0 = install_loop env ?s 4113 (- 1) 4116 (0 + 1)"
    by (rule install_loop_step [OF _ _ sc ap]) simp_all
  also have "\<dots> = Some (Inr (?s, 1))"
    by (simp add: install_loop_exit)
  finally show ?thesis
    unfolding install_journal_def straddle1_reads(1) by (simp add: geom)
qed

lemma install_straddle2:
  "install_journal env straddle_st2 (- 1)
     = Some (Inr (journal_write straddle_st2 0 (journal_header JOURNAL_MAGIC 8), 0))"
proof -
  have g: "(of_nat 8 :: u32) < of_nat 4113" "(of_nat 4112 :: u32) < of_nat 4113"
    "\<not> (of_nat 4116 :: u32) < of_nat 4113"
    by simp_all
  have nc: "rh_type (le16 REC_DATA @ le16 (of_nat DR_SIZE)) \<noteq> REC_COMMIT"
    unfolding rec_header_fields(1) by (simp add: REC_DATA_def REC_COMMIT_def)
  have "scan_tx straddle_st2 (of_nat 4113) (of_nat 8)
        = scan_tx straddle_st2 (of_nat 4113) (of_nat (8 + DR_SIZE))"
    by (rule scan_tx_step_other [OF g(1) straddle2_reads(2) nc rec_header_fields(2)])
  also have "\<dots> = scan_tx straddle_st2 (of_nat 4113) (of_nat (4112 + 4))"
    using scan_tx_step_other [OF g(2) straddle2_reads(3) rec_header_fields(3,4)]
    by (simp add: geom)
  also have "\<dots> = Some (Inr (of_nat 4116, False))"
    using scan_tx_end [OF g(3)] by simp
  finally have sc: "scan_tx straddle_st2 4113 8 = Some (Inr (4116, False))" by simp
  have "install_loop env straddle_st2 4113 (- 1) 8 0 = Some (Inr (straddle_st2, 0))"
    by (rule install_loop_no_commit [OF sc])
  then show ?thesis
    unfolding install_journal_def straddle2_reads(1) by (simp add: geom)
qed

text \<open>
  Claim C4, amended. Take two images of equal length that cover the journal region and
  agree on every byte except journal bytes at offsets bytes-used and beyond, with a valid
  header whose bytes-used lies between the header size and the size of the region, and
  whose used part is a sequence of whole records as create writes them (Commit records of
  size 4, Data records of size 4104 whose target is one of the 85 blocks of the image and
  lies outside the journal region). Then install, in whatever environments, returns on
  both, reports the same number of applied transactions, and the two final images again
  agree on every byte except those journal bytes: the real blocks and the journal header
  are identical.
\<close>

theorem install_ignores_journal_tail:
  assumes "journal_read st1 0 JH_SIZE = Some jh"
    and "jh_magic jh = JOURNAL_MAGIC"
    and "used = unat (jh_nbytes_used jh)"
    and "JH_SIZE \<le> used"
    and "used \<le> JOURNAL_BLOCKS * BLOCK_SIZE"
    and "INODE_BMAP_IDX * BLOCK_SIZE \<le> length (image st1)"
    and "wf_from (log_of st1 used) JH_SIZE"
    and "agree_off_tail used st1 st2"
  shows "\<exists>st1' st2' n. install_journal env st1 max_commits = Some (Inr (st1', n))
       \<and> install_journal env' st2 max_commits = Some (Inr (st2', n))
       \<and> agree_off_tail used st1' st2'"
proof -
  have u: "used \<le> 65536" using assms(5) by (simp add: geom)
  have len1: "69632 \<le> length (image st1)" using assms(6) by (simp add: geom)
  have j2: "journal_read st2 0 JH_SIZE = Some jh"
    using agree_journal_read_header [OF assms(8)] assms(1,4) by (simp add: geom)
  have l2: "log_of st2 used = log_of st1 used"
    using assms(8) u len1 by (rule agree_log_of)
  have w: "(of_nat used :: u32) = jh_nbytes_used jh"
    unfolding assms(3) by simp
  show ?thesis
  proof (cases "jh_nbytes_used jh \<le> of_nat JH_SIZE")
    case True
    then have "install_journal env st1 max_commits = Some (Inr (st1, 0))"
      "install_journal env' st2 max_commits = Some (Inr (st2, 0))"
      using assms(1) j2 by (simp_all add: install_journal_guard)
    then show ?thesis
      using assms(8) by (intro exI [of _ st1] exI [of _ st2] exI [of _ 0]) simp
  next
    case False
    from install_loop_wf [OF u assms(7) refl l2 assms(8) len1,
        where cap = max_commits and c = 0 and env = env and env' = env']
    obtain t1 t2 n where t:
      "install_loop env st1 (of_nat used) max_commits (of_nat JH_SIZE) 0 = Some (Inr (t1, n))"
      "install_loop env' st2 (of_nat used) max_commits (of_nat JH_SIZE) 0 = Some (Inr (t2, n))"
      "agree_off_tail used t1 t2"
      by (elim exE conjE)
    let ?h = "journal_header (jh_magic jh) (of_nat JH_SIZE)"
    have "install_journal env st1 max_commits = Some (Inr (journal_write t1 0 ?h, n))"
      "install_journal env' st2 max_commits = Some (Inr (journal_write t2 0 ?h, n))"
      using assms(1,2) j2 False t(1,2) unfolding w by (simp_all add: install_journal_def)
    moreover have "agree_off_tail used (journal_write t1 0 ?h) (journal_write t2 0 ?h)"
      using t(3) by (simp add: journal_write_def agree_pwrite)
    ultimately show ?thesis by blast
  qed
qed

theorem install_ignores_journal_tail_witness:
  "journal_read one_tx_st 0 JH_SIZE = Some (journal_header JOURNAL_MAGIC 4116)
   \<and> jh_magic (journal_header JOURNAL_MAGIC 4116) = JOURNAL_MAGIC
   \<and> (4116::nat) = unat (jh_nbytes_used (journal_header JOURNAL_MAGIC 4116))
   \<and> JH_SIZE \<le> 4116
   \<and> 4116 \<le> JOURNAL_BLOCKS * BLOCK_SIZE
   \<and> INODE_BMAP_IDX * BLOCK_SIZE \<le> length (image one_tx_st)
   \<and> wf_from (log_of one_tx_st 4116) JH_SIZE
   \<and> agree_off_tail 4116 one_tx_st one_tx_tail_st
   \<and> image one_tx_st ! 8212 \<noteq> image one_tx_tail_st ! 8212
   \<and> (\<exists>st1' st2' n. install_journal env0 one_tx_st (- 1) = Some (Inr (st1', n))
        \<and> install_journal env0 one_tx_tail_st (- 1) = Some (Inr (st2', n))
        \<and> agree_off_tail 4116 st1' st2')"
proof -
  note h = one_tx_hyps
  have d: "image one_tx_st ! 8212 \<noteq> image one_tx_tail_st ! 8212"
    by (simp add: one_tx_st_def one_tx_tail_st_def one_tx_image_def nth_append)
  note c = install_ignores_journal_tail [OF h, where max_commits = "- 1" and env = env0
      and env' = env0]
  show ?thesis by (intro conjI) (rule h d c)+
qed

text \<open>
  Claim C4 as stated fails when bytes-used does not lie on a record boundary. The scan
  reads a whole four-byte record header at every offset below bytes-used, so a header
  that starts below bytes-used and ends behind it is read in full. Two images that agree
  on all bytes below bytes-used 4113 and differ in the byte at offset 4113 (the second
  byte of a Commit record's type) end with different contents of block 30: one run
  applies the transaction, the other does not.
\<close>

theorem install_tail_byte_counterexample:
  "agree_off_tail 4113 straddle_st1 straddle_st2
   \<and> bytes_used straddle_st1 = Some 4113
   \<and> bytes_used straddle_st2 = Some 4113
   \<and> install_journal env0 straddle_st1 (- 1)
       = Some (Inr (journal_write (put_block straddle_st1 30 (replicate 4096 170)) 0
                      (journal_header JOURNAL_MAGIC 8), 1))
   \<and> install_journal env0 straddle_st2 (- 1)
       = Some (Inr (journal_write straddle_st2 0 (journal_header JOURNAL_MAGIC 8), 0))
   \<and> image (journal_write (put_block straddle_st1 30 (replicate 4096 170)) 0
              (journal_header JOURNAL_MAGIC 8)) ! (30 * BLOCK_SIZE) = 170
   \<and> image (journal_write straddle_st2 0 (journal_header JOURNAL_MAGIC 8)) ! (30 * BLOCK_SIZE)
       = 0"
proof -
  have a: "agree_off_tail 4113 straddle_st1 straddle_st2"
    by (simp add: agree_off_tail_def straddle_st1_def straddle_st2_def geom)
  have b1: "bytes_used straddle_st1 = Some 4113"
    by (simp add: bytes_used_def straddle1_reads)
  have b2: "bytes_used straddle_st2 = Some 4113"
    by (simp add: bytes_used_def straddle2_reads)
  have x1: "image (journal_write (put_block straddle_st1 30 (replicate 4096 170)) 0
              (journal_header JOURNAL_MAGIC 8)) ! (30 * BLOCK_SIZE) = 170"
    by (simp add: journal_write_def put_block_def nth_pwrite length_pwrite
        straddle_st1_def geom)
  have x2: "image (journal_write straddle_st2 0 (journal_header JOURNAL_MAGIC 8))
              ! (30 * BLOCK_SIZE) = 0"
    by (simp add: journal_write_def nth_pwrite length_pwrite straddle_st2_def one_tx_image_def
        nth_append geom)
  show ?thesis
    by (intro conjI) (rule a b1 b2 install_straddle1 install_straddle2 x1 x2)+
qed

section \<open>Allocation exhaustion (C5)\<close>

text \<open>
  Claim C5. If the inode allocator or the dirent allocator reports exhaustion, create
  returns having written nothing: the state it returns is the state it was given, with
  the same image (journal region, header and every real block) and no write issued.
\<close>

theorem create_exhausted_writes_nothing:
  assumes "read_block st INODE_BMAP_IDX = Some ibmap"
    and "read_block st DATA_BMAP_IDX = Some dbmap"
    and "read_block st DATA_START_IDX = Some root_data"
    and "free_inode ibmap = None \<or> free_dirent root_data = None"
  shows "create_journal st file_name now = Inr st"
  using assms by (auto simp: create_journal_def split: option.splits)

theorem create_exhausted_writes_nothing_witness:
  "read_block full_bitmap_st INODE_BMAP_IDX = Some (replicate 4096 255)
   \<and> read_block full_bitmap_st DATA_BMAP_IDX = Some (replicate 4096 0)
   \<and> read_block full_bitmap_st DATA_START_IDX = Some (replicate 4096 0)
   \<and> free_inode (replicate 4096 255) = None
   \<and> create_journal full_bitmap_st [97] 0 = Inr full_bitmap_st"
proof -
  have h1: "read_block full_bitmap_st INODE_BMAP_IDX = Some (replicate 4096 255)"
    by (simp add: read_block_def pread_def full_bitmap_st_def geom)
  have h2: "read_block full_bitmap_st DATA_BMAP_IDX = Some (replicate 4096 0)"
    by (simp add: read_block_def pread_def full_bitmap_st_def geom)
  have h3: "read_block full_bitmap_st DATA_START_IDX = Some (replicate 4096 0)"
    by (simp add: read_block_def pread_def full_bitmap_st_def geom)
  have h4: "free_inode (replicate 4096 255) = None"
    by (simp add: free_inode_None_iff bit_255_int)
  from h4 have h5: "free_inode (replicate 4096 255) = None
      \<or> free_dirent (replicate 4096 0) = None" ..
  show ?thesis
    using h1 h2 h3 h4 create_exhausted_writes_nothing [OF h1 h2 h3 h5, of "[97]" 0] by simp
qed

section \<open>Running install twice (C6)\<close>

lemma one_tx_reads:
  "journal_read one_tx_st (of_nat 8) RH_SIZE = Some (le16 REC_DATA @ le16 (of_nat DR_SIZE))"
  "journal_read one_tx_st (of_nat 8) DR_SIZE = Some (data_record 30 (replicate 4096 170))"
  "journal_read one_tx_st (of_nat 4112) RH_SIZE = Some commit_record"
  by (simp_all add: journal_read_def pread_def one_tx_st_def one_tx_image_reads geom)

lemma install_one_tx:
  "install_journal env one_tx_st (- 1)
     = Some (Inr (journal_write (put_block one_tx_st 30 (replicate 4096 170)) 0
                    (journal_header JOURNAL_MAGIC 8), 1))"
proof -
  let ?s = "put_block one_tx_st 30 (replicate 4096 170)"
  have g: "(of_nat 8 :: u32) < of_nat 4116" "(of_nat 4112 :: u32) < of_nat 4116"
    "\<not> (of_nat 4116 :: u32) < of_nat 4116"
    by simp_all
  have nc: "rh_type (le16 REC_DATA @ le16 (of_nat DR_SIZE)) \<noteq> REC_COMMIT"
    "rh_type commit_record \<noteq> REC_DATA"
    unfolding rec_header_fields(1) rh_type_commit_record
    by (simp_all add: REC_DATA_def REC_COMMIT_def)
  have e: "8 + DR_SIZE = 4112" "(4112 :: nat) + 4 = 4116" by (simp_all add: geom)
  have "scan_tx one_tx_st (of_nat 4116) (of_nat 8) = scan_tx one_tx_st (of_nat 4116) (of_nat 4112)"
    by (rule scan_tx_step_other [OF g(1) one_tx_reads(1) nc(1) rec_header_fields(2),
          unfolded e])
  also have "\<dots> = Some (Inr (of_nat 4116, True))"
    by (rule scan_tx_step_commit [OF g(2) one_tx_reads(3) rh_type_commit_record
          rec_header_fields(5), unfolded e])
  finally have sc: "scan_tx one_tx_st 4116 8 = Some (Inr (4116, True))" by simp
  have r: "journal_read ?s (of_nat 4112) RH_SIZE = Some commit_record"
    using one_tx_reads(3)
    by (simp add: journal_read_def put_block_def pread_pwrite_disjoint one_tx_st_def geom)
  have bn: "unat (dr_block_no (data_record 30 (replicate 4096 170))) = 30"
    "dr_data (data_record 30 (replicate 4096 170)) = replicate 4096 170"
    by (simp_all add: BLOCK_SIZE_def)
  have "apply_tx env one_tx_st (of_nat 8) (of_nat 4116) = apply_tx env ?s (of_nat 4112) (of_nat 4116)"
    using apply_tx_step_data [OF g(1) one_tx_reads(1) rec_header_fields(1,2) one_tx_reads(2),
        unfolded bn e, of env]
    by simp
  also have "\<dots> = apply_tx env ?s (of_nat 4116) (of_nat 4116)"
    by (rule apply_tx_step_other [OF g(2) r nc(2) rec_header_fields(5), unfolded e])
  also have "\<dots> = Some (Inr ?s)"
    by (rule apply_tx_end [OF g(3)])
  finally have ap: "apply_tx env one_tx_st 8 4116 = Some (Inr ?s)" by simp
  have "install_loop env one_tx_st 4116 (- 1) 8 0 = install_loop env ?s 4116 (- 1) 4116 (0 + 1)"
    by (rule install_loop_step [OF _ _ sc ap]) simp_all
  also have "\<dots> = Some (Inr (?s, 1))"
    by (simp add: install_loop_exit)
  finally show ?thesis
    unfolding install_journal_def one_tx_hyps(1) by (simp add: geom)
qed

text \<open>A Data record shorter than the struct is applied: the block it names is written
  with the stale bytes of the record buffer, the transaction is counted and the header
  is reset.\<close>

lemma short_reads:
  "journal_read short_st 0 JH_SIZE = Some (journal_header JOURNAL_MAGIC 20)"
  "journal_read short_st (of_nat 8) RH_SIZE = Some (le16 REC_DATA @ le16 8)"
  "journal_read short_st (of_nat 8) 8 = Some (le16 REC_DATA @ le16 8 @ le32 30)"
  "journal_read short_st (of_nat 16) RH_SIZE = Some commit_record"
  by (simp_all add: journal_read_def pread_def short_st_def geom)

lemma short_header_fields:
  "rh_type (le16 REC_DATA @ le16 8) = REC_DATA"
  "rh_type (le16 REC_DATA @ le16 8) \<noteq> REC_COMMIT"
  "unat (rh_size (le16 REC_DATA @ le16 8)) = 8"
  by (simp_all add: rh_type_def rh_size_def geom)

lemma install_short_record:
  "install_journal env short_st (- 1)
     = Some (Inr (journal_write (put_block short_st 30 (map (stale env 0) [8..<DR_SIZE])) 0
                    (journal_header JOURNAL_MAGIC 8), 1))"
proof -
  let ?junk = "map (stale env 0) [8..<DR_SIZE]"
  let ?s = "put_block short_st 30 ?junk"
  have g: "(of_nat 8 :: u32) < of_nat 20" "(of_nat 16 :: u32) < of_nat 20"
    "\<not> (of_nat 20 :: u32) < of_nat 20"
    by simp_all
  have cs: "unat (rh_size commit_record) = 4" by simp
  have nd: "rh_type commit_record \<noteq> REC_DATA" by (simp add: geom)
  have e: "(8 :: nat) + 8 = 16" "(16 :: nat) + 4 = 20" by simp_all
  have "scan_tx short_st (of_nat 20) (of_nat 8) = scan_tx short_st (of_nat 20) (of_nat 16)"
    by (rule scan_tx_step_other [OF g(1) short_reads(2) short_header_fields(2,3), unfolded e])
  also have "\<dots> = Some (Inr (of_nat 20, True))"
    by (rule scan_tx_step_commit [OF g(2) short_reads(4) rh_type_commit_record cs, unfolded e])
  finally have sc: "scan_tx short_st 20 8 = Some (Inr (20, True))" by simp
  have f: "fill_record env short_st (le16 REC_DATA @ le16 8 @ le32 30)
           = le16 REC_DATA @ le16 8 @ le32 30 @ ?junk"
    by (simp add: fill_record_def short_st_def)
  have bn: "unat (dr_block_no (le16 REC_DATA @ le16 8 @ le32 30 @ ?junk)) = 30"
    by (simp add: dr_block_no_def)
  have dd: "dr_data (le16 REC_DATA @ le16 8 @ le32 30 @ ?junk) = ?junk"
    by (simp add: dr_data_def)
  have w: "write_block env short_st
             (unat (dr_block_no (fill_record env short_st (le16 REC_DATA @ le16 8 @ le32 30))))
             (dr_data (fill_record env short_st (le16 REC_DATA @ le16 8 @ le32 30)))
           = Inr ?s"
    unfolding f bn dd by (rule write_block_fits) simp
  have len: "69632 \<le> length (image short_st)"
    by (simp add: short_st_def)
  have r: "journal_read ?s (of_nat 16) RH_SIZE = Some commit_record"
    using journal_read_put_block [of 30 "of_nat 16" RH_SIZE short_st] short_reads(4) len
    by (simp add: RH_SIZE_def)
  have "apply_tx env short_st (of_nat 8) (of_nat 20) = apply_tx env ?s (of_nat 16) (of_nat 20)"
    by (rule apply_tx_step_record [OF g(1) short_reads(2) short_header_fields(1,3) _
          short_reads(3) w, unfolded e]) (simp add: DR_SIZE_def BLOCK_SIZE_def RH_SIZE_def)
  also have "\<dots> = apply_tx env ?s (of_nat 20) (of_nat 20)"
    by (rule apply_tx_step_other [OF g(2) r nd cs, unfolded e])
  also have "\<dots> = Some (Inr ?s)"
    by (rule apply_tx_end [OF g(3)])
  finally have ap: "apply_tx env short_st 8 20 = Some (Inr ?s)" by simp
  have "install_loop env short_st 20 (- 1) 8 0 = install_loop env ?s 20 (- 1) 20 (0 + 1)"
    by (rule install_loop_step [OF _ _ sc ap]) simp_all
  also have "\<dots> = Some (Inr (?s, 1))"
    by (simp add: install_loop_exit)
  finally show ?thesis
    unfolding install_journal_def short_reads(1) by (simp add: JH_SIZE_def)
qed

text \<open>
  Claim C6, amended. Take an image and an environment in which an uncapped install
  returns: the run does not die on a short read or a failed write, it leaves its loops,
  and it meets no Data record longer than the record buffer. Then a second uncapped
  install right after it, in whatever environment, returns the very state the first one
  produced (same real blocks, same journal header, no write issued) and applies zero
  transactions. When the first run found a header with valid magic and more than the
  header size in use, bytes-used is the header size after each run; otherwise the first
  run has left the image as it was.
\<close>

theorem install_twice:
  assumes "install_journal env st (- 1) = Some (Inr (st', n))"
  shows "install_journal env' st' (- 1) = Some (Inr (st', 0))
         \<and> (if header_valid st then bytes_used st' = Some (of_nat JH_SIZE) else st' = st)"
proof
  show "install_journal env' st' (- 1) = Some (Inr (st', 0))"
    using assms by (rule install_journal_fixed)
  show "if header_valid st then bytes_used st' = Some (of_nat JH_SIZE) else st' = st"
    using assms
  proof (cases rule: install_journal_cases)
    case (guard jh)
    then show ?thesis by (auto simp: header_valid_def)
  next
    case (replay jh st'')
    then show ?thesis
      by (simp add: header_valid_def bytes_used_def journal_read_header_written)
  qed
qed

text \<open>On \<open>one_tx_st\<close> the first run applies one transaction, which fills block 30 with the
  byte 170, and the second run applies none.\<close>

theorem install_twice_witness:
  "install_journal env0 one_tx_st (- 1)
     = Some (Inr (journal_write (put_block one_tx_st 30 (replicate 4096 170)) 0
                    (journal_header JOURNAL_MAGIC 8), 1))
   \<and> install_journal env0
        (journal_write (put_block one_tx_st 30 (replicate 4096 170)) 0
           (journal_header JOURNAL_MAGIC 8)) (- 1)
     = Some (Inr (journal_write (put_block one_tx_st 30 (replicate 4096 170)) 0
                    (journal_header JOURNAL_MAGIC 8), 0))
   \<and> header_valid one_tx_st
   \<and> bytes_used (journal_write (put_block one_tx_st 30 (replicate 4096 170)) 0
                   (journal_header JOURNAL_MAGIC 8)) = Some 8
   \<and> image one_tx_st ! (30 * BLOCK_SIZE) = 0
   \<and> image (journal_write (put_block one_tx_st 30 (replicate 4096 170)) 0
              (journal_header JOURNAL_MAGIC 8)) ! (30 * BLOCK_SIZE) = 170"
proof -
  let ?s = "journal_write (put_block one_tx_st 30 (replicate 4096 170)) 0
              (journal_header JOURNAL_MAGIC 8)"
  have i: "install_journal env0 one_tx_st (- 1) = Some (Inr (?s, 1))"
    by (rule install_one_tx)
  have hv: "header_valid one_tx_st"
    unfolding header_valid_def one_tx_hyps(1) by (simp add: geom)
  have t: "install_journal env0 ?s (- 1) = Some (Inr (?s, 0))"
    "bytes_used ?s = Some 8"
    using install_twice [OF i, of env0] hv by (simp_all add: JH_SIZE_def)
  have x0: "image one_tx_st ! (30 * BLOCK_SIZE) = 0"
    by (simp add: one_tx_st_def one_tx_image_def nth_append geom)
  have x1: "image ?s ! (30 * BLOCK_SIZE) = 170"
    by (simp add: journal_write_def put_block_def nth_pwrite length_pwrite
        one_tx_st_def geom)
  show ?thesis by (intro conjI) (rule i t hv x0 x1)+
qed

text \<open>
  Claim C6 as stated fails on the blank image: its journal header has no valid magic,
  install returns at its guard without writing, and bytes-used is 0 after the run, not
  the header size.
\<close>

theorem install_blank_counterexample:
  "install_journal env0 blank_st (- 1) = Some (Inr (blank_st, 0))
   \<and> bytes_used blank_st = Some 0"
proof -
  have "install_journal env0 blank_st (- 1) = Some (Inr (blank_st, 0))"
    by (rule install_journal_guard [OF journal_read_blank_header]) (simp add: jh_magic_zero)
  moreover have "bytes_used blank_st = Some 0"
    by (simp add: bytes_used_def journal_read_blank_header jh_nbytes_used_def rd32_def)
  ultimately show ?thesis by simp
qed

section \<open>The transaction written by create (C7)\<close>










section \<open>A record of size zero (C8)\<close>

text \<open>
  Claim C8 says install terminates for every journal content, records of size zero
  included. The code does not: when the header is valid and the record right behind it
  has size 0 and is no Commit record, the inner scan adds 0 to its offset and reads the
  same record again, forever, so install does not return for any cap other than 0.
\<close>

theorem install_zero_size_record_never_returns:
  assumes "journal_read st 0 JH_SIZE = Some jh"
    and "jh_magic jh = JOURNAL_MAGIC"
    and "of_nat JH_SIZE < jh_nbytes_used jh"
    and "journal_read st (of_nat JH_SIZE) RH_SIZE = Some rh"
    and "rh_type rh \<noteq> REC_COMMIT"
    and "rh_size rh = 0"
    and "max_commits \<noteq> 0"
  shows "install_journal env st max_commits = None"
proof -
  have "scan_tx st (jh_nbytes_used jh) (of_nat JH_SIZE) = None"
    using assms(3-6) by (rule scan_tx_stuck)
  moreover have "max_commits < 0 \<or> sint (0 :: u32) < max_commits"
    using assms(7) by auto
  ultimately have "install_loop env st (jh_nbytes_used jh) max_commits (of_nat JH_SIZE) 0 = None"
    using assms(3) by (intro install_loop_stuck)
  then show ?thesis
    using assms(1-3) by (simp add: install_journal_def not_le [symmetric])
qed

theorem install_zero_size_record_never_returns_witness:
  "journal_read stuck_st 0 JH_SIZE = Some (journal_header JOURNAL_MAGIC 12)
   \<and> jh_magic (journal_header JOURNAL_MAGIC 12) = JOURNAL_MAGIC
   \<and> of_nat JH_SIZE < jh_nbytes_used (journal_header JOURNAL_MAGIC 12)
   \<and> journal_read stuck_st (of_nat JH_SIZE) RH_SIZE = Some (replicate 4 0)
   \<and> rh_type (replicate 4 0) \<noteq> REC_COMMIT
   \<and> rh_size (replicate 4 0) = 0
   \<and> install_journal env0 stuck_st (- 1) = None"
proof -
  have hd: "journal_read stuck_st 0 JH_SIZE = Some (journal_header JOURNAL_MAGIC 12)"
    by (simp add: journal_read_def pread_def stuck_st_def geom)
  have mg: "jh_magic (journal_header JOURNAL_MAGIC 12) = JOURNAL_MAGIC"
    by simp
  have us: "of_nat JH_SIZE < jh_nbytes_used (journal_header JOURNAL_MAGIC 12)"
    by (simp add: JH_SIZE_def)
  have rh: "journal_read stuck_st (of_nat JH_SIZE) RH_SIZE = Some (replicate 4 0)"
    by (simp add: journal_read_def pread_def stuck_st_def geom)
  have ty: "rh_type (replicate 4 0) \<noteq> REC_COMMIT"
    by (simp add: rh_type_def rd16_def geom)
  have sz: "rh_size (replicate 4 0) = 0"
    by (simp add: rh_size_def rd16_def)
  have c: "install_journal env0 stuck_st (- 1) = None"
    by (rule install_zero_size_record_never_returns [OF hd mg us rh ty sz]) simp
  show ?thesis by (intro conjI) (rule hd mg us rh ty sz c)+
qed

section \<open>Four creates in a row, then install\<close>

text \<open>
  Claims C2 and C8 meet on an image that the program writes itself: four creates in a row
  on a fresh image, with no install in between. This section replays that journal.
\<close>

lemma unat_of_nat_u32_gen: "n < 2 ^ 32 \<Longrightarrow> unat (of_nat n :: u32) = n"
  by (simp add: unat_of_nat)

lemma of_nat_less_u32_gen:
  "m < 2 ^ 32 \<Longrightarrow> n < 2 ^ 32 \<Longrightarrow> (of_nat m :: u32) < of_nat n \<longleftrightarrow> m < n"
  by (simp add: word_less_nat_alt unat_of_nat_u32_gen)

lemma of_nat_less_u32_intro:
  "m < n \<Longrightarrow> n < 2 ^ 32 \<Longrightarrow> (of_nat m :: u32) < of_nat n"
  by (simp only: of_nat_less_u32_gen)

lemma pread_take:
  assumes "pread st off n = Some bs" and "m \<le> n"
  shows "pread st off m = Some (take m bs)"
proof (cases "m = 0")
  case True
  then show ?thesis by (simp add: pread_def)
next
  case False
  with assms have "off + n \<le> length (image st)" "bs = take n (drop off (image st))"
    by (auto simp: pread_def split: if_splits)
  with assms(2) False show ?thesis by (simp add: pread_def min_def)
qed

lemma journal_read_take:
  "journal_read st off n = Some bs \<Longrightarrow> m \<le> n \<Longrightarrow> journal_read st off m = Some (take m bs)"
  unfolding journal_read_def by (rule pread_take)

lemma length_put_block:
  "length (image st) \<le> length (image (put_block st bn buf))"
  by (simp add: put_block_def length_pwrite)

lemma data_record_header:
  "take RH_SIZE (data_record t buf) = le16 REC_DATA @ le16 (of_nat DR_SIZE)"
  by (simp add: data_record_def geom)

text \<open>A transaction as create writes it, lying inside the journal region: the scan finds
  its Commit record and the apply loop writes its four blocks.\<close>

lemma replay_create_tx:
  assumes r1: "journal_read st (of_nat off) DR_SIZE = Some (data_record t1 b1)"
    and r2: "journal_read st (of_nat (off + 4104)) DR_SIZE = Some (data_record t2 b2)"
    and r3: "journal_read st (of_nat (off + 8208)) DR_SIZE = Some (data_record t3 b3)"
    and r4: "journal_read st (of_nat (off + 12312)) DR_SIZE = Some (data_record t4 b4)"
    and rc: "journal_read st (of_nat (off + 16416)) RH_SIZE = Some commit_record"
    and t: "17 \<le> t1" "17 \<le> t2" "17 \<le> t3" "17 \<le> t4" "t1 < 2 ^ 20" "t2 < 2 ^ 20"
      "t3 < 2 ^ 20" "t4 < 2 ^ 20"
    and l: "length b1 = 4096" "length b2 = 4096" "length b3 = 4096" "length b4 = 4096"
    and inside: "off + 16420 \<le> 65536"
    and len: "69632 \<le> length (image st)"
    and u: "off + 16416 < used" "used < 2 ^ 32"
  shows "scan_tx st (of_nat used) (of_nat off) = Some (Inr (of_nat (off + 16420), True))"
    and "apply_tx env st (of_nat off) (of_nat (off + 16420))
         = Some (Inr (put_block (put_block (put_block (put_block st t1 b1) t2 b2) t3 b3)
                        t4 b4))"
proof -
  let ?h = "le16 REC_DATA @ le16 (of_nat DR_SIZE)"
  have h: "journal_read s (of_nat o') RH_SIZE = Some ?h"
    if "journal_read s (of_nat o') DR_SIZE = Some (data_record tt bb)" for s o' tt bb
    using journal_read_take [OF that, of RH_SIZE] by (simp add: data_record_header) (simp add: geom)
  have nc: "rh_type ?h \<noteq> REC_COMMIT" and ty: "rh_type ?h = REC_DATA"
    and sz: "unat (rh_size ?h) = 4104" and sz': "unat (rh_size ?h) = DR_SIZE"
    using data_header_fields by (simp_all add: geom)
  have cs: "unat (rh_size commit_record) = 4" by simp
  have e: "off + 4104 + 4104 = off + 8208" "off + 8208 + 4104 = off + 12312"
    "off + 12312 + 4104 = off + 16416" "off + 16416 + 4 = off + 16420"
    "off + DR_SIZE = off + 4104" "off + 4104 + DR_SIZE = off + 8208"
    "off + 8208 + DR_SIZE = off + 12312" "off + 12312 + DR_SIZE = off + 16416"
    by (simp_all add: geom)
  have g: "(of_nat off :: u32) < of_nat used" "(of_nat (off + 4104) :: u32) < of_nat used"
    "(of_nat (off + 8208) :: u32) < of_nat used" "(of_nat (off + 12312) :: u32) < of_nat used"
    "(of_nat (off + 16416) :: u32) < of_nat used"
    by (rule of_nat_less_u32_intro, use u in simp, use u in simp)+
  have "scan_tx st (of_nat used) (of_nat off) = scan_tx st (of_nat used) (of_nat (off + 4104))"
    by (rule scan_tx_step_other [OF g(1) h [OF r1] nc sz])
  also have "\<dots> = scan_tx st (of_nat used) (of_nat (off + 8208))"
    by (rule scan_tx_step_other [OF g(2) h [OF r2] nc sz, unfolded e])
  also have "\<dots> = scan_tx st (of_nat used) (of_nat (off + 12312))"
    by (rule scan_tx_step_other [OF g(3) h [OF r3] nc sz, unfolded e])
  also have "\<dots> = scan_tx st (of_nat used) (of_nat (off + 16416))"
    by (rule scan_tx_step_other [OF g(4) h [OF r4] nc sz, unfolded e])
  also have "\<dots> = Some (Inr (of_nat (off + 16420), True))"
    by (rule scan_tx_step_commit [OF g(5) rc rh_type_commit_record cs, unfolded e])
  finally show "scan_tx st (of_nat used) (of_nat off) = Some (Inr (of_nat (off + 16420), True))" .
  let ?s1 = "put_block st t1 b1"
  let ?s2 = "put_block ?s1 t2 b2"
  let ?s3 = "put_block ?s2 t3 b3"
  let ?s4 = "put_block ?s3 t4 b4"
  have un: "unat (of_nat o' :: u32) = o'" if "o' \<le> 65536" for o'
    using that by (simp add: unat_of_nat_u32_gen)
  have ln: "69632 \<le> length (image ?s1)" "69632 \<le> length (image ?s2)"
    "69632 \<le> length (image ?s3)"
    using len length_put_block [of st t1 b1] length_put_block [of ?s1 t2 b2]
      length_put_block [of ?s2 t3 b3] by simp_all
  have k1: "journal_read ?s1 (of_nat o') n = journal_read st (of_nat o') n"
    if "o' + n \<le> 65536" for o' n
    using that t(1) len un [of o'] by (intro journal_read_put_block) simp_all
  have k2: "journal_read ?s2 (of_nat o') n = journal_read st (of_nat o') n"
    if "o' + n \<le> 65536" for o' n
    using that t(2) ln un [of o'] k1 [OF that]
    by (subst journal_read_put_block) simp_all
  have k3: "journal_read ?s3 (of_nat o') n = journal_read st (of_nat o') n"
    if "o' + n \<le> 65536" for o' n
    using that t(3) ln un [of o'] k2 [OF that]
    by (subst journal_read_put_block) simp_all
  have k4: "journal_read ?s4 (of_nat o') n = journal_read st (of_nat o') n"
    if "o' + n \<le> 65536" for o' n
    using that t(4) ln un [of o'] k3 [OF that]
    by (subst journal_read_put_block) simp_all
  have ge: "(of_nat off :: u32) < of_nat (off + 16420)"
    "(of_nat (off + 4104) :: u32) < of_nat (off + 16420)"
    "(of_nat (off + 8208) :: u32) < of_nat (off + 16420)"
    "(of_nat (off + 12312) :: u32) < of_nat (off + 16420)"
    "(of_nat (off + 16416) :: u32) < of_nat (off + 16420)"
    by (rule of_nat_less_u32_intro, use inside in simp, use inside in simp)+
  have bn: "unat (dr_block_no (data_record tt bb)) = tt" if "tt < 2 ^ 20" "length bb = 4096"
    for tt bb
    using that by (simp add: unat_of_nat_u32_gen BLOCK_SIZE_def)
  have dd: "dr_data (data_record tt bb) = bb" if "length bb = 4096" for tt bb
    using that by (simp add: BLOCK_SIZE_def)
  have q2: "journal_read ?s1 (of_nat (off + 4104)) DR_SIZE = Some (data_record t2 b2)"
    using k1 [of "off + 4104" DR_SIZE] inside r2 by (simp add: geom)
  have q3: "journal_read ?s2 (of_nat (off + 8208)) DR_SIZE = Some (data_record t3 b3)"
    using k2 [of "off + 8208" DR_SIZE] inside r3 by (simp add: geom)
  have q4: "journal_read ?s3 (of_nat (off + 12312)) DR_SIZE = Some (data_record t4 b4)"
    using k3 [of "off + 12312" DR_SIZE] inside r4 by (simp add: geom)
  have qc: "journal_read ?s4 (of_nat (off + 16416)) RH_SIZE = Some commit_record"
    using k4 [of "off + 16416" RH_SIZE] inside rc by (simp add: geom)
  have nd: "rh_type commit_record \<noteq> REC_DATA" by (simp add: geom)
  have "apply_tx env st (of_nat off) (of_nat (off + 16420))
        = apply_tx env ?s1 (of_nat (off + 4104)) (of_nat (off + 16420))"
    by (rule apply_tx_step_data [OF ge(1) h [OF r1] ty sz' r1,
          unfolded bn [OF t(5) l(1)] dd [OF l(1)] e]) (rule t(5))
  also have "\<dots> = apply_tx env ?s2 (of_nat (off + 8208)) (of_nat (off + 16420))"
    by (rule apply_tx_step_data [OF ge(2) h [OF q2] ty sz' q2,
          unfolded bn [OF t(6) l(2)] dd [OF l(2)] e]) (rule t(6))
  also have "\<dots> = apply_tx env ?s3 (of_nat (off + 12312)) (of_nat (off + 16420))"
    by (rule apply_tx_step_data [OF ge(3) h [OF q3] ty sz' q3,
          unfolded bn [OF t(7) l(3)] dd [OF l(3)] e]) (rule t(7))
  also have "\<dots> = apply_tx env ?s4 (of_nat (off + 16416)) (of_nat (off + 16420))"
    by (rule apply_tx_step_data [OF ge(4) h [OF q4] ty sz' q4,
          unfolded bn [OF t(8) l(4)] dd [OF l(4)] e]) (rule t(8))
  also have "\<dots> = apply_tx env ?s4 (of_nat (off + 16420)) (of_nat (off + 16420))"
    by (rule apply_tx_step_other [OF ge(5) qc nd cs, unfolded e])
  also have "\<dots> = Some (Inr ?s4)"
    by (rule apply_tx_end) simp
  finally show "apply_tx env st (of_nat off) (of_nat (off + 16420)) = Some (Inr ?s4)" .
qed

lemma journal_read_write_disjoint:
  assumes "unat p + n \<le> unat w \<or> unat w + length buf \<le> unat p"
    and "4096 + unat p + n \<le> length (image s)"
  shows "journal_read (journal_write s w buf) p n = journal_read s p n"
  unfolding journal_read_def journal_write_def
  using assms by (intro pread_pwrite_disjoint) (auto simp: geom)

lemma journal_read_write_same:
  "journal_read (journal_write s w buf) w (length buf) = Some buf"
  unfolding journal_read_def journal_write_def by (rule pread_pwrite_same)

lemma length_journal_write:
  "length (image s) \<le> length (image (journal_write s w buf))"
  "buf \<noteq> [] \<Longrightarrow> 4096 + unat w + length buf \<le> length (image (journal_write s w buf))"
  by (simp_all add: journal_write_def length_pwrite geom)

text \<open>What the journal holds after a successful create: the five new records can be read
  back, and the records in front of them are unchanged.\<close>

lemma create_journal_readback:
  assumes "read_block st INODE_BMAP_IDX = Some ibmap"
    and "read_block st DATA_BMAP_IDX = Some dbmap"
    and "read_block st DATA_START_IDX = Some root_data"
    and "free_inode ibmap = Some inode_idx"
    and "free_dirent root_data = Some slot"
    and "read_block st (INODE_START_IDX + inode_idx div 32) = Some ino_blk"
    and "journal_read st 0 JH_SIZE = Some jh"
    and "off = (if jh_magic jh \<noteq> JOURNAL_MAGIC then 8 else jh_nbytes_used jh)"
    and low: "8 \<le> unat off"
    and nowrap: "unat off + 16420 < 2 ^ 32"
    and st': "create_journal st file_name now = Inr st'"
  shows "journal_read st' off DR_SIZE
         = Some (data_record INODE_BMAP_IDX (set_bitmap ibmap inode_idx))"
    and "journal_read st' (off + 4104) DR_SIZE = Some (data_record DATA_BMAP_IDX dbmap)"
    and "journal_read st' (off + 8208) DR_SIZE
         = Some (data_record DATA_START_IDX (put_dirent root_data slot inode_idx file_name))"
    and "journal_read st' (off + 12312) DR_SIZE
         = Some (data_record (INODE_START_IDX + inode_idx div 32)
                  (grow_root (init_inode ino_blk (inode_idx mod 32) now) slot))"
    and "journal_read st' (off + 16416) RH_SIZE = Some commit_record"
    and "\<And>p n. 8 \<le> unat p \<Longrightarrow> unat p + n \<le> unat off
           \<Longrightarrow> 4096 + unat p + n \<le> length (image st)
           \<Longrightarrow> journal_read st' p n = journal_read st p n"
    and "length (image st) \<le> length (image st')"
proof -
  note bl = create_journal_blocks_length [OF assms(1-6)]
  define b1 where "b1 = data_record INODE_BMAP_IDX (set_bitmap ibmap inode_idx)"
  define b2 where "b2 = data_record DATA_BMAP_IDX dbmap"
  define b3 where "b3 = data_record DATA_START_IDX (put_dirent root_data slot inode_idx file_name)"
  define b4 where "b4 = data_record (INODE_START_IDX + inode_idx div 32)
                  (grow_root (init_inode ino_blk (inode_idx mod 32) now) slot)"
  define hd where "hd = journal_header JOURNAL_MAGIC (off + 16420)"
  define s1 where "s1 = journal_write st off b1"
  define s2 where "s2 = journal_write s1 (off + 4104) b2"
  define s3 where "s3 = journal_write s2 (off + 8208) b3"
  define s4 where "s4 = journal_write s3 (off + 12312) b4"
  define s5 where "s5 = journal_write s4 (off + 16416) commit_record"
  have lb: "length b1 = 4104" "length b2 = 4104" "length b3 = 4104" "length b4 = 4104"
    using bl by (simp_all add: b1_def b2_def b3_def b4_def length_data_record [unfolded geom] BLOCK_SIZE_def)
  have ne: "b1 \<noteq> []" "b2 \<noteq> []" "b3 \<noteq> []" "b4 \<noteq> []" "commit_record \<noteq> []"
    using lb by (auto simp: commit_record_def le16_def)
  have lc: "length commit_record = 4" by (simp add: commit_record_def)
  have lh: "length hd = 8" by (simp add: hd_def)
  have u: "unat (off + 4104) = unat off + 4104" "unat (off + 8208) = unat off + 8208"
    "unat (off + 12312) = unat off + 12312" "unat (off + 16416) = unat off + 16416"
    using nowrap unat_add_u32 [of off 4104] unat_add_u32 [of off 8208]
      unat_add_u32 [of off 12312] unat_add_u32 [of off 16416] by simp_all
  have eq: "st' = journal_write s5 0 hd"
    using st' unfolding create_journal_success [OF assms(1-8)]
    by (simp add: s5_def s4_def s3_def s2_def s1_def b1_def b2_def b3_def b4_def hd_def)
  have m: "length (image st) \<le> length (image s1)" "length (image s1) \<le> length (image s2)"
    "length (image s2) \<le> length (image s3)" "length (image s3) \<le> length (image s4)"
    "length (image s4) \<le> length (image s5)" "length (image s5) \<le> length (image st')"
    unfolding eq s5_def s4_def s3_def s2_def s1_def by (rule length_journal_write(1))+
  have g: "4096 + unat off + 4104 \<le> length (image s1)"
    "4096 + unat off + 8208 \<le> length (image s2)"
    "4096 + unat off + 12312 \<le> length (image s3)"
    "4096 + unat off + 16416 \<le> length (image s4)"
    "4096 + unat off + 16420 \<le> length (image s5)"
    using length_journal_write(2) [OF ne(1), where s = st and w = off]
      length_journal_write(2) [OF ne(2), where s = s1 and w = "off + 4104"]
      length_journal_write(2) [OF ne(3), where s = s2 and w = "off + 8208"]
      length_journal_write(2) [OF ne(4), where s = s3 and w = "off + 12312"]
      length_journal_write(2) [OF ne(5), where s = s4 and w = "off + 16416"]
    unfolding s5_def s4_def s3_def s2_def s1_def by (simp_all add: u lb lc)
  have r1: "journal_read s1 off 4104 = Some b1"
    unfolding s1_def using journal_read_write_same [of st off b1] by (simp add: lb)
  have r2: "journal_read s2 (off + 4104) 4104 = Some b2"
    unfolding s2_def using journal_read_write_same [of s1 "off + 4104" b2] by (simp add: lb)
  have r3: "journal_read s3 (off + 8208) 4104 = Some b3"
    unfolding s3_def using journal_read_write_same [of s2 "off + 8208" b3] by (simp add: lb)
  have r4: "journal_read s4 (off + 12312) 4104 = Some b4"
    unfolding s4_def using journal_read_write_same [of s3 "off + 12312" b4] by (simp add: lb)
  have r5: "journal_read s5 (off + 16416) 4 = Some commit_record"
    unfolding s5_def using journal_read_write_same [of s4 "off + 16416" commit_record]
    by (simp add: lc)
  have up: "journal_read st' p n = journal_read s p n"
    if "journal_read s5 p n = journal_read s p n" "8 \<le> unat p"
      "4096 + unat p + n \<le> length (image s5)" for p n s
    unfolding eq using that by (subst journal_read_write_disjoint) (simp_all add: lh)
  have up5: "journal_read s5 p n = journal_read s p n"
    if "journal_read s4 p n = journal_read s p n" "unat p + n \<le> unat off + 16416"
      "4096 + unat p + n \<le> length (image s4)" for p n s
    unfolding s5_def using that by (subst journal_read_write_disjoint) (simp_all add: u)
  have up4: "journal_read s4 p n = journal_read s p n"
    if "journal_read s3 p n = journal_read s p n" "unat p + n \<le> unat off + 12312"
      "4096 + unat p + n \<le> length (image s3)" for p n s
    unfolding s4_def using that by (subst journal_read_write_disjoint) (simp_all add: u)
  have up3: "journal_read s3 p n = journal_read s p n"
    if "journal_read s2 p n = journal_read s p n" "unat p + n \<le> unat off + 8208"
      "4096 + unat p + n \<le> length (image s2)" for p n s
    unfolding s3_def using that by (subst journal_read_write_disjoint) (simp_all add: u)
  have up2: "journal_read s2 p n = journal_read s p n"
    if "journal_read s1 p n = journal_read s p n" "unat p + n \<le> unat off + 4104"
      "4096 + unat p + n \<le> length (image s1)" for p n s
    unfolding s2_def using that by (subst journal_read_write_disjoint) (simp_all add: u)
  have up1: "journal_read s1 p n = journal_read st p n"
    if "unat p + n \<le> unat off" "4096 + unat p + n \<le> length (image st)" for p n
    unfolding s1_def using that by (subst journal_read_write_disjoint) simp_all
  have "journal_read st' (off + 16416) 4 = journal_read s5 (off + 16416) 4"
    using g low by (intro up) (simp_all add: u)
  then show "journal_read st' (off + 16416) RH_SIZE = Some commit_record"
    by (simp add: r5 RH_SIZE_def)
  have "journal_read st' (off + 12312) 4104 = journal_read s4 (off + 12312) 4104"
    using g m low by (intro up up5) (simp_all add: u)
  then show "journal_read st' (off + 12312) DR_SIZE
         = Some (data_record (INODE_START_IDX + inode_idx div 32)
                  (grow_root (init_inode ino_blk (inode_idx mod 32) now) slot))"
    by (simp add: r4 geom b4_def)
  have "journal_read st' (off + 8208) 4104 = journal_read s3 (off + 8208) 4104"
    using g m low by (intro up up5 up4) (simp_all add: u)
  then show "journal_read st' (off + 8208) DR_SIZE
         = Some (data_record DATA_START_IDX (put_dirent root_data slot inode_idx file_name))"
    by (simp add: r3 geom b3_def)
  have "journal_read st' (off + 4104) 4104 = journal_read s2 (off + 4104) 4104"
    using g m low by (intro up up5 up4 up3) (simp_all add: u)
  then show "journal_read st' (off + 4104) DR_SIZE = Some (data_record DATA_BMAP_IDX dbmap)"
    by (simp add: r2 geom b2_def)
  have "journal_read st' off 4104 = journal_read s1 off 4104"
    using g m low by (intro up up5 up4 up3 up2) (simp_all add: u)
  then show "journal_read st' off DR_SIZE
         = Some (data_record INODE_BMAP_IDX (set_bitmap ibmap inode_idx))"
    by (simp add: r1 geom b1_def)
  show "journal_read st' p n = journal_read st p n"
    if "8 \<le> unat p" "unat p + n \<le> unat off" "4096 + unat p + n \<le> length (image st)"
    for p n
    using that g m by (intro up up5 up4 up3 up2 up1) simp_all
  show "length (image st) \<le> length (image st')"
    using m by simp
qed

lemma zero_tx_blocks_length:
  "length (set_bitmap (replicate 4096 0) 0) = 4096"
  "length (replicate 4096 (0 :: u8)) = 4096"
  "length (put_dirent (replicate 4096 0) 0 0 file_name) = 4096"
  "length (grow_root (init_inode (replicate 4096 0) 0 now) 0) = 4096"
  by (simp_all add: length_put_dirent length_grow_root length_init_inode)

lemma replay_tx_of_create:
  assumes tx: "tx_of_create st off file_name now"
    and inside: "off + 16420 \<le> 65536"
    and len: "69632 \<le> length (image st)"
    and u: "off + 16416 < used" "used < 2 ^ 32"
  shows "scan_tx st (of_nat used) (of_nat off) = Some (Inr (of_nat (off + 16420), True))"
    and "apply_tx env st (of_nat off) (of_nat (off + 16420))
         = Some (Inr (replayed st file_name now))"
proof -
  have r: "journal_read st (of_nat off) DR_SIZE
       = Some (data_record INODE_BMAP_IDX (set_bitmap (replicate 4096 0) 0))"
    "journal_read st (of_nat (off + 4104)) DR_SIZE
       = Some (data_record DATA_BMAP_IDX (replicate 4096 0))"
    "journal_read st (of_nat (off + 8208)) DR_SIZE
       = Some (data_record DATA_START_IDX (put_dirent (replicate 4096 0) 0 0 file_name))"
    "journal_read st (of_nat (off + 12312)) DR_SIZE
       = Some (data_record INODE_START_IDX
                 (grow_root (init_inode (replicate 4096 0) 0 now) 0))"
    "journal_read st (of_nat (off + 16416)) RH_SIZE = Some commit_record"
    using tx by (simp_all add: tx_of_create_def tx_data_of_create_def)
  have t: "17 \<le> INODE_BMAP_IDX" "17 \<le> DATA_BMAP_IDX" "17 \<le> DATA_START_IDX"
    "17 \<le> INODE_START_IDX" "INODE_BMAP_IDX < 2 ^ 20" "DATA_BMAP_IDX < 2 ^ 20"
    "DATA_START_IDX < 2 ^ 20" "INODE_START_IDX < 2 ^ 20"
    by (simp_all add: geom)
  note l = zero_tx_blocks_length
  show "scan_tx st (of_nat used) (of_nat off) = Some (Inr (of_nat (off + 16420), True))"
    by (rule replay_create_tx(1) [OF r t l inside len u])
  show "apply_tx env st (of_nat off) (of_nat (off + 16420))
         = Some (Inr (replayed st file_name now))"
    unfolding replayed_def by (rule replay_create_tx(2) [OF r t l inside len u])
qed

lemma install_loop_tx_of_create:
  assumes tx: "tx_of_create st off file_name now"
    and inside: "off + 16420 \<le> 65536"
    and len: "69632 \<le> length (image st)"
    and u: "off + 16416 < used" "used < 2 ^ 32"
    and mc: "max_commits < 0"
  shows "install_loop env st (of_nat used) max_commits (of_nat off) committed
         = install_loop env (replayed st file_name now) (of_nat used) max_commits
             (of_nat (off + 16420)) (committed + 1)"
proof -
  have lt: "(of_nat off :: u32) < of_nat used"
    by (rule of_nat_less_u32_intro) (use u in simp_all)
  have c: "max_commits < 0 \<or> sint committed < max_commits"
    using mc by simp
  show ?thesis
    by (rule install_loop_step [OF lt c replay_tx_of_create [OF tx inside len u]])
qed

lemma replayed_frame:
  assumes len: "69632 \<le> length (image st)"
  shows "length (image st) \<le> length (image (replayed st file_name now))"
    and "p + n \<le> 65536 \<Longrightarrow>
         journal_read (replayed st file_name now) (of_nat p) n = journal_read st (of_nat p) n"
proof -
  let ?s1 = "put_block st INODE_BMAP_IDX (set_bitmap (replicate 4096 0) 0)"
  let ?s2 = "put_block ?s1 DATA_BMAP_IDX (replicate 4096 0)"
  let ?s3 = "put_block ?s2 DATA_START_IDX (put_dirent (replicate 4096 0) 0 0 file_name)"
  have ln: "length (image st) \<le> length (image ?s1)" "length (image ?s1) \<le> length (image ?s2)"
    "length (image ?s2) \<le> length (image ?s3)"
    "length (image ?s3) \<le> length (image (replayed st file_name now))"
    unfolding replayed_def by (rule length_put_block)+
  then show "length (image st) \<le> length (image (replayed st file_name now))"
    by simp
  assume pn: "p + n \<le> 65536"
  then have un: "unat (of_nat p :: u32) = p"
    by (simp add: unat_of_nat_u32_gen)
  have t: "17 \<le> INODE_BMAP_IDX" "17 \<le> DATA_BMAP_IDX" "17 \<le> DATA_START_IDX"
    "17 \<le> INODE_START_IDX"
    by (simp_all add: geom)
  have b: "4096 + unat (of_nat p :: u32) + n \<le> 69632"
    using pn un by simp
  have "journal_read (replayed st file_name now) (of_nat p) n = journal_read ?s3 (of_nat p) n"
    unfolding replayed_def by (rule journal_read_put_block [OF t(4) b]) (use ln len in simp)
  also have "\<dots> = journal_read ?s2 (of_nat p) n"
    by (rule journal_read_put_block [OF t(3) b]) (use ln len in simp)
  also have "\<dots> = journal_read ?s1 (of_nat p) n"
    by (rule journal_read_put_block [OF t(2) b]) (use ln len in simp)
  also have "\<dots> = journal_read st (of_nat p) n"
    by (rule journal_read_put_block [OF t(1) b len])
  finally show "journal_read (replayed st file_name now) (of_nat p) n
                = journal_read st (of_nat p) n" .
qed

lemma tx_data_of_create_replayed:
  assumes "69632 \<le> length (image st)" and "off + 16416 \<le> 65536"
    and "tx_data_of_create st off file_name now"
  shows "tx_data_of_create (replayed st a b) off file_name now"
proof -
  have k: "journal_read (replayed st a b) (of_nat p) DR_SIZE = journal_read st (of_nat p) DR_SIZE"
    if "p + 4104 \<le> 65536" for p
    by (rule replayed_frame(2) [OF assms(1)]) (use that in \<open>simp add: geom\<close>)
  have "journal_read (replayed st a b) (of_nat off) DR_SIZE = journal_read st (of_nat off) DR_SIZE"
    "journal_read (replayed st a b) (of_nat (off + 4104)) DR_SIZE
     = journal_read st (of_nat (off + 4104)) DR_SIZE"
    "journal_read (replayed st a b) (of_nat (off + 8208)) DR_SIZE
     = journal_read st (of_nat (off + 8208)) DR_SIZE"
    "journal_read (replayed st a b) (of_nat (off + 12312)) DR_SIZE
     = journal_read st (of_nat (off + 12312)) DR_SIZE"
    by (rule k, use assms(2) in simp)+
  then show ?thesis
    using assms(3) unfolding tx_data_of_create_def by (simp only:)
qed

lemma tx_of_create_replayed:
  assumes "69632 \<le> length (image st)" and "off + 16420 \<le> 65536"
    and "tx_of_create st off file_name now"
  shows "tx_of_create (replayed st a b) off file_name now"
proof -
  have "journal_read (replayed st a b) (of_nat (off + 16416)) RH_SIZE
        = journal_read st (of_nat (off + 16416)) RH_SIZE"
    by (rule replayed_frame(2) [OF assms(1)]) (use assms(2) in \<open>simp add: geom\<close>)
  moreover have "tx_data_of_create (replayed st a b) off file_name now"
    by (rule tx_data_of_create_replayed [OF assms(1)])
      (use assms(2,3) in \<open>simp_all add: tx_of_create_def\<close>)
  ultimately show ?thesis
    using assms(3) unfolding tx_of_create_def by (simp only:)
qed

text \<open>After a replay, the four bytes at journal offset 65684, which lie in the inode bitmap
  block, are zero: the bitmap image of the transaction has been written over them.\<close>

lemma replayed_overwrites:
  assumes len: "69632 \<le> length (image st)"
  shows "journal_read (replayed st file_name now) (of_nat 65684) RH_SIZE = Some (replicate 4 0)"
proof -
  let ?ib = "set_bitmap (replicate 4096 0) 0"
  let ?s1 = "put_block st INODE_BMAP_IDX ?ib"
  let ?s2 = "put_block ?s1 DATA_BMAP_IDX (replicate 4096 0)"
  let ?s3 = "put_block ?s2 DATA_START_IDX (put_dirent (replicate 4096 0) 0 0 file_name)"
  note l = zero_tx_blocks_length
  have "length (take BLOCK_SIZE ?ib) = 4096"
    by (simp add: BLOCK_SIZE_def)
  then have "take BLOCK_SIZE ?ib \<noteq> []"
    by (metis length_0_conv zero_neq_numeral)
  then have l1: "73728 \<le> length (image ?s1)"
    by (simp add: put_block_def length_pwrite) (simp add: geom)
  have ln: "length (image ?s1) \<le> length (image ?s2)"
    "length (image ?s2) \<le> length (image ?s3)"
    by (rule length_put_block)+
  have "pread (replayed st file_name now) 69780 4 = pread ?s3 69780 4"
    unfolding replayed_def put_block_def [of ?s3]
    by (rule pread_pwrite_disjoint) (use l1 ln in \<open>simp_all add: geom\<close>)
  also have "\<dots> = pread ?s2 69780 4"
    unfolding put_block_def [of ?s2]
    by (rule pread_pwrite_disjoint) (use l1 ln in \<open>simp_all add: geom\<close>)
  also have "\<dots> = pread ?s1 69780 4"
    unfolding put_block_def [of ?s1]
    by (rule pread_pwrite_disjoint) (use l1 ln in \<open>simp_all add: geom\<close>)
  also have "\<dots> = Some (take 4 (drop (69780 - 69632) (take BLOCK_SIZE ?ib)))"
    unfolding put_block_def [of st] INODE_BMAP_IDX_def JOURNAL_BLOCK_IDX_def JOURNAL_BLOCKS_def
    using pread_pwrite_inside [of 69632 69780 4 ?ib st] by (simp add: BLOCK_SIZE_def)
  also have "\<dots> = Some (replicate 4 0)"
    by (simp add: set_bitmap_def BLOCK_SIZE_def drop_update_cancel)
  finally show ?thesis
    by (simp add: journal_read_def geom unat_of_nat_u32_gen)
qed

lemma create_on_zero_blocks_journal:
  assumes len: "length (image st) = 348160"
    and z: "\<forall>a<348160. a < 4096 \<or> 69632 \<le> a \<longrightarrow> image st ! a = 0"
    and jh: "journal_read st 0 JH_SIZE = Some jh"
    and off: "off = (if jh_magic jh \<noteq> JOURNAL_MAGIC then 8 else jh_nbytes_used jh)"
    and low: "8 \<le> unat off"
    and high: "unat off \<le> 65536"
    and st': "create_journal st file_name now = Inr st'"
  shows "tx_of_create st' (unat off) file_name now"
    and "\<And>p nm t. p + 16420 \<le> unat off \<Longrightarrow> 8 \<le> p \<Longrightarrow> tx_of_create st p nm t
           \<Longrightarrow> tx_of_create st' p nm t"
    and "journal_read st' 0 JH_SIZE = Some (journal_header JOURNAL_MAGIC (off + 16420))"
    and "348160 \<le> length (image st')"
proof -
  note h = zero_blocks_create_hyps [OF len z] jh
  have nowrap: "unat off + 16420 < 2 ^ 32"
    using high by simp
  note rb = create_journal_readback [OF h off low nowrap st']
  have e: "of_nat (unat off) = off" "of_nat (unat off + 4104) = off + 4104"
    "of_nat (unat off + 8208) = off + 8208" "of_nat (unat off + 12312) = off + 12312"
    "of_nat (unat off + 16416) = off + 16416"
    by simp_all
  have i: "INODE_START_IDX + 0 div 32 = INODE_START_IDX" "(0 :: nat) mod 32 = 0"
    by simp_all
  show "tx_of_create st' (unat off) file_name now"
    unfolding tx_of_create_def tx_data_of_create_def e
    using rb(1-5) unfolding i by (intro conjI)
  show "tx_of_create st' p nm t"
    if p: "p + 16420 \<le> unat off" "8 \<le> p" and tx: "tx_of_create st p nm t" for p nm t
  proof -
    have k: "journal_read st' (of_nat q) n = journal_read st (of_nat q) n"
      if "p \<le> q" "q + n \<le> p + 16420" for q n
    proof -
      have "unat (of_nat q :: u32) = q"
        using that p high by (simp add: unat_of_nat_u32_gen)
      then show ?thesis
        using that p high len by (intro rb(6)) simp_all
    qed
    have "journal_read st' (of_nat p) DR_SIZE = journal_read st (of_nat p) DR_SIZE"
      "journal_read st' (of_nat (p + 4104)) DR_SIZE = journal_read st (of_nat (p + 4104)) DR_SIZE"
      "journal_read st' (of_nat (p + 8208)) DR_SIZE = journal_read st (of_nat (p + 8208)) DR_SIZE"
      "journal_read st' (of_nat (p + 12312)) DR_SIZE
       = journal_read st (of_nat (p + 12312)) DR_SIZE"
      "journal_read st' (of_nat (p + 16416)) RH_SIZE
       = journal_read st (of_nat (p + 16416)) RH_SIZE"
      by (rule k, simp, simp add: geom)+
    then show ?thesis
      using tx unfolding tx_of_create_def tx_data_of_create_def by (simp only:)
  qed
  show "journal_read st' 0 JH_SIZE = Some (journal_header JOURNAL_MAGIC (off + 16420))"
    using st' unfolding create_journal_success [OF h off]
    by (auto simp: journal_read_header_written)
  show "348160 \<le> length (image st')"
    using rb(7) len by simp
qed

lemma four_pending_props:
  "creates blank_st [([97], 0), ([98], 0), ([99], 0), ([100], 0)] = Inr four_pending"
  "348160 \<le> length (image four_pending)"
  "journal_read four_pending 0 JH_SIZE = Some (journal_header JOURNAL_MAGIC 65688)"
  "tx_of_create four_pending 8 [97] 0"
  "tx_of_create four_pending 16428 [98] 0"
  "tx_of_create four_pending 32848 [99] 0"
  "tx_of_create four_pending 49268 [100] 0"
proof -
  have l0: "length (image blank_st) = 348160"
    and z0: "\<forall>a<348160. a < 4096 \<or> 69632 \<le> a \<longrightarrow> image blank_st ! a = 0"
    by (simp_all add: blank_st_def geom)
  have o0: "(8 :: u32) = (if jh_magic (replicate 8 0) \<noteq> JOURNAL_MAGIC then 8
       else jh_nbytes_used (replicate 8 0))"
    by (simp add: jh_magic_zero)
  obtain s1 where s1: "create_journal blank_st [97] 0 = Inr s1"
    "length (image s1) = 348160"
    "\<forall>a<348160. a < 4096 \<or> 69632 \<le> a \<longrightarrow> image s1 ! a = 0"
    "journal_read s1 0 JH_SIZE = Some (journal_header JOURNAL_MAGIC 16428)"
    using create_on_zero_blocks [OF l0 z0 journal_read_blank_header o0, of "[97]" 0]
    by auto
  have t1: "tx_of_create s1 8 [97] 0"
    using create_on_zero_blocks_journal(1) [OF l0 z0 journal_read_blank_header o0 _ _ s1(1)]
    by simp
  have o1: "(16428 :: u32) = (if jh_magic (journal_header JOURNAL_MAGIC 16428) \<noteq> JOURNAL_MAGIC
       then 8 else jh_nbytes_used (journal_header JOURNAL_MAGIC 16428))"
    by simp
  obtain s2 where s2: "create_journal s1 [98] 0 = Inr s2"
    "length (image s2) = 348160"
    "\<forall>a<348160. a < 4096 \<or> 69632 \<le> a \<longrightarrow> image s2 ! a = 0"
    "journal_read s2 0 JH_SIZE = Some (journal_header JOURNAL_MAGIC 32848)"
    using create_on_zero_blocks [OF s1(2,3,4) o1, of "[98]" 0]
    by auto
  have b2: "8 \<le> unat (16428 :: u32)" "unat (16428 :: u32) \<le> 65536"
    by simp_all
  note j2 = create_on_zero_blocks_journal [OF s1(2,3,4) o1 b2 s2(1)]
  have t2: "tx_of_create s2 8 [97] 0" "tx_of_create s2 16428 [98] 0"
    using j2(1) j2(2) [OF _ _ t1] by simp_all
  have o2: "(32848 :: u32) = (if jh_magic (journal_header JOURNAL_MAGIC 32848) \<noteq> JOURNAL_MAGIC
       then 8 else jh_nbytes_used (journal_header JOURNAL_MAGIC 32848))"
    by simp
  obtain s3 where s3: "create_journal s2 [99] 0 = Inr s3"
    "length (image s3) = 348160"
    "\<forall>a<348160. a < 4096 \<or> 69632 \<le> a \<longrightarrow> image s3 ! a = 0"
    "journal_read s3 0 JH_SIZE = Some (journal_header JOURNAL_MAGIC 49268)"
    using create_on_zero_blocks [OF s2(2,3,4) o2, of "[99]" 0]
    by auto
  have b3: "8 \<le> unat (32848 :: u32)" "unat (32848 :: u32) \<le> 65536"
    by simp_all
  note j3 = create_on_zero_blocks_journal [OF s2(2,3,4) o2 b3 s3(1)]
  have t3: "tx_of_create s3 8 [97] 0" "tx_of_create s3 16428 [98] 0"
    "tx_of_create s3 32848 [99] 0"
    using j3(1) j3(2) [OF _ _ t2(1)] j3(2) [OF _ _ t2(2)] by simp_all
  have o3: "(49268 :: u32) = (if jh_magic (journal_header JOURNAL_MAGIC 49268) \<noteq> JOURNAL_MAGIC
       then 8 else jh_nbytes_used (journal_header JOURNAL_MAGIC 49268))"
    by simp
  note h3 = zero_blocks_create_hyps [OF s3(2,3)] s3(4)
  obtain s4 where s4: "create_journal s3 [100] 0 = Inr s4"
    using create_journal_success [OF h3 o3] by blast
  have b4: "8 \<le> unat (49268 :: u32)" "unat (49268 :: u32) \<le> 65536"
    by simp_all
  note j4 = create_on_zero_blocks_journal [OF s3(2,3,4) o3 b4 s4]
  have t4: "tx_of_create s4 8 [97] 0" "tx_of_create s4 16428 [98] 0"
    "tx_of_create s4 32848 [99] 0" "tx_of_create s4 49268 [100] 0"
    using j4(1) j4(2) [OF _ _ t3(1)] j4(2) [OF _ _ t3(2)] j4(2) [OF _ _ t3(3)] by simp_all
  have c: "creates blank_st [([97], 0), ([98], 0), ([99], 0), ([100], 0)] = Inr s4"
    by (simp add: s1 s2 s3 s4)
  then have e: "four_pending = s4" by (simp add: four_pending_def)
  show "creates blank_st [([97], 0), ([98], 0), ([99], 0), ([100], 0)] = Inr four_pending"
    unfolding e by (rule c)
  show "348160 \<le> length (image four_pending)"
    unfolding e by (rule j4(4))
  show "journal_read four_pending 0 JH_SIZE = Some (journal_header JOURNAL_MAGIC 65688)"
    unfolding e using j4(3) by simp
  show "tx_of_create four_pending 8 [97] 0" "tx_of_create four_pending 16428 [98] 0"
    "tx_of_create four_pending 32848 [99] 0" "tx_of_create four_pending 49268 [100] 0"
    unfolding e by (rule t4)+
qed

lemma journal_read_data_header:
  assumes "journal_read s p DR_SIZE = Some (data_record tt bb)"
  shows "journal_read s p RH_SIZE = Some (le16 REC_DATA @ le16 (of_nat DR_SIZE))"
  using journal_read_take [OF assms, of RH_SIZE] by (simp add: data_record_header) (simp add: geom)

text \<open>The scan of a transaction whose Commit record has been overwritten with zeros never
  returns: it passes the four Data records and then stays on the record of size 0.\<close>

lemma scan_tx_overwritten_commit:
  assumes r: "journal_read st (of_nat off) RH_SIZE = Some (le16 REC_DATA @ le16 (of_nat DR_SIZE))"
    "journal_read st (of_nat (off + 4104)) RH_SIZE
     = Some (le16 REC_DATA @ le16 (of_nat DR_SIZE))"
    "journal_read st (of_nat (off + 8208)) RH_SIZE
     = Some (le16 REC_DATA @ le16 (of_nat DR_SIZE))"
    "journal_read st (of_nat (off + 12312)) RH_SIZE
     = Some (le16 REC_DATA @ le16 (of_nat DR_SIZE))"
    and z: "journal_read st (of_nat (off + 16416)) RH_SIZE = Some (replicate 4 0)"
    and u: "off + 16416 < used" "used < 2 ^ 32"
  shows "scan_tx st (of_nat used) (of_nat off) = None"
proof -
  let ?h = "le16 REC_DATA @ le16 (of_nat DR_SIZE)"
  have nc: "rh_type ?h \<noteq> REC_COMMIT" and sz: "unat (rh_size ?h) = 4104"
    using data_header_fields by (simp_all add: geom)
  have e: "off + 4104 + 4104 = off + 8208" "off + 8208 + 4104 = off + 12312"
    "off + 12312 + 4104 = off + 16416"
    by simp_all
  have g: "(of_nat off :: u32) < of_nat used" "(of_nat (off + 4104) :: u32) < of_nat used"
    "(of_nat (off + 8208) :: u32) < of_nat used" "(of_nat (off + 12312) :: u32) < of_nat used"
    "(of_nat (off + 16416) :: u32) < of_nat used"
    by (rule of_nat_less_u32_intro, use u in simp, use u in simp)+
  have "scan_tx st (of_nat used) (of_nat off) = scan_tx st (of_nat used) (of_nat (off + 4104))"
    by (rule scan_tx_step_other [OF g(1) r(1) nc sz])
  also have "\<dots> = scan_tx st (of_nat used) (of_nat (off + 8208))"
    by (rule scan_tx_step_other [OF g(2) r(2) nc sz, unfolded e])
  also have "\<dots> = scan_tx st (of_nat used) (of_nat (off + 12312))"
    by (rule scan_tx_step_other [OF g(3) r(3) nc sz, unfolded e])
  also have "\<dots> = scan_tx st (of_nat used) (of_nat (off + 16416))"
    by (rule scan_tx_step_other [OF g(4) r(4) nc sz, unfolded e])
  also have "\<dots> = None"
    by (rule scan_tx_stuck [OF g(5) z]) (simp_all add: rh_type_def rh_size_def rd16_def geom)
  finally show ?thesis .
qed

text \<open>
  The image left by four creates in a row on a fresh image, with no install in between,
  is one that install never returns from. The fourth transaction's Commit record lies in
  the inode bitmap block (see the results on claim C2); replaying the first transaction
  writes the bitmap's image over it, and the scan of the fourth transaction then stays on
  four zero bytes, a record of size 0.
\<close>

theorem install_after_four_creates_never_returns:
  "creates blank_st [([97], 0), ([98], 0), ([99], 0), ([100], 0)] = Inr four_pending
   \<and> install_journal env four_pending (- 1) = None"
proof -
  note p = four_pending_props
  define r1 where "r1 = replayed four_pending [97] 0"
  define r2 where "r2 = replayed r1 [98] 0"
  define r3 where "r3 = replayed r2 [99] 0"
  have l0: "69632 \<le> length (image four_pending)"
    using p(2) by simp
  have l1: "69632 \<le> length (image r1)"
    unfolding r1_def using replayed_frame(1) [OF l0, of "[97]" 0] l0 by simp
  have l2: "69632 \<le> length (image r2)"
    unfolding r2_def using replayed_frame(1) [OF l1, of "[98]" 0] l1 by simp
  have mc: "(- 1 :: int) < 0" by simp
  have u: "(65688 :: nat) < 2 ^ 32" by simp
  have a2: "tx_of_create r1 16428 [98] 0"
    unfolding r1_def by (rule tx_of_create_replayed [OF l0 _ p(5)]) simp
  have a3': "tx_of_create r1 32848 [99] 0"
    unfolding r1_def by (rule tx_of_create_replayed [OF l0 _ p(6)]) simp
  have a3: "tx_of_create r2 32848 [99] 0"
    unfolding r2_def by (rule tx_of_create_replayed [OF l1 _ a3']) simp
  have d4: "tx_data_of_create four_pending 49268 [100] 0"
    using p(7) by (simp add: tx_of_create_def)
  have k: "journal_read r3 (of_nat q) RH_SIZE = journal_read four_pending (of_nat q) RH_SIZE"
    if "q + 4 \<le> 65536" for q
    unfolding r3_def r2_def r1_def
    using that l0 l1 [unfolded r1_def] l2 [unfolded r2_def r1_def]
    by (simp add: replayed_frame(2) RH_SIZE_def)
  have dh: "journal_read four_pending (of_nat 49268) RH_SIZE
       = Some (le16 REC_DATA @ le16 (of_nat DR_SIZE))"
    "journal_read four_pending (of_nat (49268 + 4104)) RH_SIZE
     = Some (le16 REC_DATA @ le16 (of_nat DR_SIZE))"
    "journal_read four_pending (of_nat (49268 + 8208)) RH_SIZE
     = Some (le16 REC_DATA @ le16 (of_nat DR_SIZE))"
    "journal_read four_pending (of_nat (49268 + 12312)) RH_SIZE
     = Some (le16 REC_DATA @ le16 (of_nat DR_SIZE))"
    using d4 [unfolded tx_data_of_create_def] by (blast intro: journal_read_data_header)+
  have hd: "journal_read r3 (of_nat 49268) RH_SIZE = Some (le16 REC_DATA @ le16 (of_nat DR_SIZE))"
    "journal_read r3 (of_nat (49268 + 4104)) RH_SIZE
     = Some (le16 REC_DATA @ le16 (of_nat DR_SIZE))"
    "journal_read r3 (of_nat (49268 + 8208)) RH_SIZE
     = Some (le16 REC_DATA @ le16 (of_nat DR_SIZE))"
    "journal_read r3 (of_nat (49268 + 12312)) RH_SIZE
     = Some (le16 REC_DATA @ le16 (of_nat DR_SIZE))"
    using k [of 49268] k [of "49268 + 4104"] k [of "49268 + 8208"] k [of "49268 + 12312"] dh
    by simp_all
  have z: "journal_read r3 (of_nat (49268 + 16416)) RH_SIZE = Some (replicate 4 0)"
    unfolding r3_def using replayed_overwrites [OF l2, of "[99]" 0] by simp
  have stuck: "scan_tx r3 (of_nat 65688) (of_nat 49268) = None"
    by (rule scan_tx_overwritten_commit [OF hd z]) simp_all
  have lt: "(of_nat 49268 :: u32) < of_nat 65688" by simp
  have c: "(- 1 :: int) < 0 \<or> sint (3 :: u32) < - 1" by simp
  have none: "install_loop env r3 (of_nat 65688) (- 1) (of_nat 49268) 3 = None"
    by (rule install_loop_stuck [OF lt c stuck])
  have "install_loop env four_pending (of_nat 65688) (- 1) (of_nat 8) 0
        = install_loop env r1 (of_nat 65688) (- 1) (of_nat (8 + 16420)) (0 + 1)"
    unfolding r1_def by (rule install_loop_tx_of_create [OF p(4) _ l0 _ u mc]) simp_all
  also have "\<dots> = install_loop env r2 (of_nat 65688) (- 1) (of_nat (16428 + 16420)) (0 + 1 + 1)"
    unfolding r2_def
    using install_loop_tx_of_create [OF a2 _ l1 _ u mc, where committed = "0 + 1"] by simp
  also have "\<dots> = install_loop env r3 (of_nat 65688) (- 1) (of_nat (32848 + 16420)) (0 + 1 + 1 + 1)"
    unfolding r3_def
    using install_loop_tx_of_create [OF a3 _ l2 _ u mc, where committed = "0 + 1 + 1"] by simp
  finally have "install_loop env four_pending 65688 (- 1) 8 0 = None"
    using none by simp
  then have "install_journal env four_pending (- 1) = None"
    unfolding install_journal_def p(3) by (simp add: JH_SIZE_def)
  with p(1) show ?thesis by simp
qed

section \<open>The empty name (C9)\<close>

text \<open>
  Claim C9 says that after a successful create the allocated inode's bit is set and the
  directory slot has a nonzero first name byte, for every name, the empty one included.
  The code does not do that for the empty name: the bit is set in the logged inode
  bitmap, but the logged directory block still has a zero first name byte in the slot,
  so the dirent allocator reports the very same slot as free.
\<close>

theorem create_empty_name_leaves_slot_free:
  assumes "read_block st INODE_BMAP_IDX = Some ibmap"
    and "read_block st DATA_BMAP_IDX = Some dbmap"
    and "read_block st DATA_START_IDX = Some root_data"
    and "free_inode ibmap = Some inode_idx"
    and "free_dirent root_data = Some slot"
    and "read_block st (INODE_START_IDX + inode_idx div 32) = Some ino_blk"
    and "journal_read st 0 JH_SIZE = Some jh"
    and "cstr file_name = []"
    and "r = create_journal st file_name now"
  shows "bit (logged r (length (trace st)) ! (inode_idx div 8)) (inode_idx mod 8)
         \<and> free_dirent (logged r (length (trace st) + 2)) = Some slot"
proof -
  note lg = create_journal_logged [OF assms(1-7) assms(9)]
  have "inode_idx < 64" using assms(4) by (simp add: free_inode_Some_iff)
  then have i: "inode_idx div 8 < length ibmap"
    using read_block_length [OF assms(1)] by simp
  show ?thesis
    unfolding lg
    using i read_block_length [OF assms(3)]
    by (simp add: bit_set_bitmap free_dirent_put_dirent_empty [OF _ assms(5) assms(8)])
qed

theorem create_empty_name_leaves_slot_free_witness:
  "read_block blank_st INODE_BMAP_IDX = Some (replicate 4096 0)
   \<and> read_block blank_st DATA_BMAP_IDX = Some (replicate 4096 0)
   \<and> read_block blank_st DATA_START_IDX = Some (replicate 4096 0)
   \<and> free_inode (replicate 4096 0) = Some 0
   \<and> free_dirent (replicate 4096 0) = Some 0
   \<and> read_block blank_st (INODE_START_IDX + 0 div 32) = Some (replicate 4096 0)
   \<and> journal_read blank_st 0 JH_SIZE = Some (replicate 8 0)
   \<and> cstr [] = []
   \<and> bit (logged (create_journal blank_st [] 0) 0 ! 0) 0
   \<and> free_dirent (logged (create_journal blank_st [] 0) 2) = Some 0"
proof -
  note h = blank_create_hyps
  have c: "cstr [] = []" by (simp add: cstr_def)
  have "bit (logged (create_journal blank_st [] 0) 0 ! 0) 0
      \<and> free_dirent (logged (create_journal blank_st [] 0) 2) = Some 0"
    using create_empty_name_leaves_slot_free [OF h c refl, of 0]
    unfolding trace_blank list.size add_0 by simp
  then have c1: "bit (logged (create_journal blank_st [] 0) 0 ! 0) 0"
    and c2: "free_dirent (logged (create_journal blank_st [] 0) 2) = Some 0"
    by simp_all
  show ?thesis by (intro conjI) (rule h c c1 c2)+
qed

section \<open>The stored name (C10)\<close>

text \<open>
  Claim C10, amended. For every input name, the first 27 bytes of the name field of the
  new directory entry are the input string truncated to 27 bytes and padded with NUL
  bytes up to the 27th byte.
\<close>

theorem create_stores_truncated_name:
  assumes "read_block st INODE_BMAP_IDX = Some ibmap"
    and "read_block st DATA_BMAP_IDX = Some dbmap"
    and "read_block st DATA_START_IDX = Some root_data"
    and "free_inode ibmap = Some inode_idx"
    and "free_dirent root_data = Some slot"
    and "read_block st (INODE_START_IDX + inode_idx div 32) = Some ino_blk"
    and "journal_read st 0 JH_SIZE = Some jh"
    and "r = create_journal st file_name now"
  shows "take 27 (name_field (logged r (length (trace st) + 2)) slot)
         = take 27 (cstr file_name) @ replicate (27 - length (cstr file_name)) 0"
proof -
  note lg = create_journal_logged [OF assms(1-8)]
  have "slot < 128" using assms(5) by (simp add: free_dirent_Some_iff)
  then have s: "slot * 32 + 32 \<le> length root_data"
    using read_block_length [OF assms(3)] by simp
  show ?thesis
    unfolding lg
    using s by (simp add: name_field_put_dirent strncpy_eq length_name_field)
qed

theorem create_stores_truncated_name_witness:
  "read_block blank_st INODE_BMAP_IDX = Some (replicate 4096 0)
   \<and> read_block blank_st DATA_BMAP_IDX = Some (replicate 4096 0)
   \<and> read_block blank_st DATA_START_IDX = Some (replicate 4096 0)
   \<and> free_inode (replicate 4096 0) = Some 0
   \<and> free_dirent (replicate 4096 0) = Some 0
   \<and> read_block blank_st (INODE_START_IDX + 0 div 32) = Some (replicate 4096 0)
   \<and> journal_read blank_st 0 JH_SIZE = Some (replicate 8 0)
   \<and> take 27 (name_field (logged (create_journal blank_st [97, 46, 99] 0) 2) 0)
       = [97, 46, 99] @ replicate 24 0"
proof -
  note h = blank_create_hyps
  have c: "take 27 (name_field (logged (create_journal blank_st [97, 46, 99] 0) 2) 0)
       = [97, 46, 99] @ replicate 24 0"
    using create_stores_truncated_name [OF h refl, of "[97, 46, 99]" 0]
    unfolding trace_blank list.size add_0 by (simp add: cstr_def)
  show ?thesis by (intro conjI) (rule h c)+
qed

text \<open>
  Claim C10 as stated fails: a name of 28 bytes does not fill the 28-byte name field.
  On the blank image the field holds the first 27 bytes followed by the byte the slot
  had before.
\<close>

theorem create_long_name_counterexample:
  "name_field (logged (create_journal blank_st (replicate 28 97) 0) 2) 0 = replicate 27 97 @ [0]
   \<and> name_field (logged (create_journal blank_st (replicate 28 97) 0) 2) 0
       \<noteq> take 28 (replicate 28 97)"
proof -
  have "name_field (logged (create_journal blank_st (replicate 28 97) 0) 2) 0
        = strncpy (name_field (replicate 4096 0) 0) (replicate 28 97) 27"
    unfolding create_blank_logged by (simp add: name_field_put_dirent)
  also have "\<dots> = replicate 27 97 @ [0]"
    by (subst strncpy_eq) (simp_all add: name_field_def cstr_def geom)
  finally have eq: "name_field (logged (create_journal blank_st (replicate 28 97) 0) 2) 0
        = replicate 27 97 @ [0]" .
  have ne: "replicate 27 (97::u8) @ [0] \<noteq> replicate 28 97"
  proof
    assume "replicate 27 (97::u8) @ [0] = replicate 28 97"
    then have "(replicate 27 (97::u8) @ [0]) ! 27 = replicate 28 (97::u8) ! 27"
      by (rule arg_cong)
    then show False by (simp add: nth_append)
  qed
  show ?thesis using eq ne by simp
qed

end
